theory Spec2Isabelle
  imports Complex_Main "HOL-Library.AList"
begin

section \<open>Python values, objects and the store\<close>

text \<open>
  The interpreter of \<^verbatim>\<open>python_logo/interpreter.py\<close> walks a tree of Python dicts and lists
  and writes into that tree while it runs (\<^verbatim>\<open>command["x"] = ...\<close>, \<^verbatim>\<open>value[i] = ...\<close>), and it
  keeps references to lists of the tree in its own tables. Dicts and lists are therefore objects
  of an explicit store, and a value of container type is a reference into it.

  Numbers: a Python \<^verbatim>\<open>float\<close> is modelled by an exact real and a \<^verbatim>\<open>complex\<close> by an exact complex
  number (rounding, overflow, infinities and NaN are outside the model); \<^verbatim>\<open>int\<close> is unbounded
  as in Python. Strings are lists of characters with a code below 256 (Latin-1); the rest of
  Unicode is outside the model.
\<close>

type_synonym addr = nat

datatype pyval =
    PNone
  | PBool bool
  | PInt int
  | PFloat real
  | PComplex complex
  | PStr string
  | PRef addr

text \<open>
  Keys of a dict: Python hashes \<^verbatim>\<open>True\<close>, \<^verbatim>\<open>1\<close> and \<^verbatim>\<open>1.0\<close> to the same key, and lists and
  dicts are unhashable.
\<close>

datatype key = KNone | KNum real | KCplx complex | KStr string

datatype obj = OList "pyval list" | ODict "(key \<times> pyval) list"

type_synonym store = "obj list"

definition deref :: "store \<Rightarrow> addr \<Rightarrow> obj option" where
  "deref h a = (if a < length h then Some (h ! a) else None)"

definition alloc :: "store \<Rightarrow> obj \<Rightarrow> store \<times> addr" where
  "alloc h ob = (h @ [ob], length h)"

fun key_of :: "pyval \<Rightarrow> key option" where
  "key_of PNone = Some KNone"
| "key_of (PBool b) = Some (KNum (if b then 1 else 0))"
| "key_of (PInt i) = Some (KNum (of_int i))"
| "key_of (PFloat r) = Some (KNum r)"
| "key_of (PComplex z) = Some (if Im z = 0 then KNum (Re z) else KCplx z)"
| "key_of (PStr s) = Some (KStr s)"
| "key_of (PRef a) = None"

fun val_of_key :: "key \<Rightarrow> pyval" where
  "val_of_key KNone = PNone"
| "val_of_key (KNum r) = PFloat r"
| "val_of_key (KCplx z) = PComplex z"
| "val_of_key (KStr s) = PStr s"

subsection \<open>Errors\<close>

text \<open>
  Modelled from the spec: \<^verbatim>\<open>python_logo/exceptions.py\<close> is not part of the sources at hand. Its
  classes are taken as the error taxonomy of the interpreter, each a kind of its own and none of
  them a subclass of Python's \<^verbatim>\<open>KeyError\<close>, carrying the data their constructor calls in
  \<^verbatim>\<open>interpreter.py\<close> pass. The exceptions of the Python runtime that the interpreter can
  provoke are \<open>pyexc\<close>; \<open>SystemError\<close> stands for a reference that points outside the store,
  which no Python program can build.
\<close>

datatype pyexc =
    KeyError | TypeError | ValueError | IndexError | ZeroDivisionError
  | AttributeError | UnboundLocalError | SystemError

datatype error =
    InterpreterInvalidTreeError
  | InterpreterInvalidCommandError
  | InterpreterUnboundVariableError pyval
  | InterpreterUnboundVariableListError
  | InterpreterUndefinedFunctionError pyval
  | InterpreterInvalidFunctionArgumentsError pyval nat nat
  | InterpreterInvalidColorError pyval "string list"
  | InterpreterFunctionExecutionError pyval error
  | PyExc pyexc

text \<open>
  A computation returns a value, raises, or runs out of the fuel that bounds the depth of the
  recursion (\<open>Timeout\<close>: the source is still running).
\<close>

datatype 'a outcome = Ok 'a | Raise error | Timeout

definition except_KeyError :: "error \<Rightarrow> 'a outcome \<Rightarrow> 'a outcome" where
  "except_KeyError e r = (case r of Raise (PyExc KeyError) \<Rightarrow> Raise e | _ \<Rightarrow> r)"

subsection \<open>Built-in operations\<close>

text \<open>
  \<^verbatim>\<open>int(s)\<close> for a string: surrounding whitespace, a sign, decimal digits with single
  underscores between them. Of the characters below 256, \<^verbatim>\<open>int\<close> takes as whitespace the space,
  the five control characters from tab to carriage return, the next-line character \<^verbatim>\<open>U+0085\<close> and
  the no-break space \<^verbatim>\<open>U+00A0\<close>, and as digits \<^verbatim>\<open>0\<close> to \<^verbatim>\<open>9\<close> only. The separators
  \<^verbatim>\<open>U+001C\<close> to \<^verbatim>\<open>U+001F\<close>, which \<^verbatim>\<open>str.strip\<close> removes, are not whitespace for \<^verbatim>\<open>int\<close>:
  on the string of \<^verbatim>\<open>U+001C\<close> and the digit \<^verbatim>\<open>2\<close> it raises \<^verbatim>\<open>ValueError\<close>.
\<close>

definition is_space :: "char \<Rightarrow> bool" where
  "is_space c =
     (c \<in> set [CHR '' '', CHR 0x09, CHR 0x0A, CHR 0x0B, CHR 0x0C, CHR 0x0D, CHR 0x85, CHR 0xA0])"

definition strip :: "string \<Rightarrow> string" where
  "strip s = rev (dropWhile is_space (rev (dropWhile is_space s)))"

definition digit_val :: "char \<Rightarrow> nat option" where
  "digit_val c = (let n = (of_char c :: nat) in if 48 \<le> n \<and> n \<le> 57 then Some (n - 48) else None)"

fun digits_val :: "nat \<Rightarrow> string \<Rightarrow> nat option" where
  "digits_val acc [] = Some acc"
| "digits_val acc (c # cs) =
     (if c = CHR ''_'' then
        (case cs of [] \<Rightarrow> None | d # _ \<Rightarrow> if d = CHR ''_'' then None else digits_val acc cs)
      else (case digit_val c of None \<Rightarrow> None | Some d \<Rightarrow> digits_val (10 * acc + d) cs))"

definition parse_int :: "string \<Rightarrow> int option" where
  "parse_int s =
     (let t = strip s;
          neg = (case t of c # _ \<Rightarrow> c = CHR ''-'' | [] \<Rightarrow> False);
          u = (case t of c # r \<Rightarrow> if c = CHR ''-'' \<or> c = CHR ''+'' then r else t | [] \<Rightarrow> [])
      in case u of
           [] \<Rightarrow> None
         | c # _ \<Rightarrow> if c = CHR ''_'' then None
                    else map_option (\<lambda>n. if neg then - int n else int n) (digits_val 0 u))"

definition trunc :: "real \<Rightarrow> int" where
  "trunc r = (if 0 \<le> r then \<lfloor>r\<rfloor> else \<lceil>r\<rceil>)"

text \<open>\<^verbatim>\<open>int(v)\<close>.\<close>

fun py_int :: "pyval \<Rightarrow> int outcome" where
  "py_int (PBool b) = Ok (if b then 1 else 0)"
| "py_int (PInt i) = Ok i"
| "py_int (PFloat r) = Ok (trunc r)"
| "py_int (PStr s) = (case parse_int s of None \<Rightarrow> Raise (PyExc ValueError) | Some i \<Rightarrow> Ok i)"
| "py_int v = Raise (PyExc TypeError)"

text \<open>The index of a sequence must be an \<^verbatim>\<open>int\<close> (or \<^verbatim>\<open>bool\<close>).\<close>

fun py_index :: "pyval \<Rightarrow> int option" where
  "py_index (PBool b) = Some (if b then 1 else 0)"
| "py_index (PInt i) = Some i"
| "py_index v = None"

text \<open>\<^verbatim>\<open>xs[i]\<close> on a sequence of length \<open>n\<close>: negative indices count from the end.\<close>

definition norm_index :: "nat \<Rightarrow> int \<Rightarrow> nat option" where
  "norm_index n i =
     (let j = (if i < 0 then int n + i else i)
      in if 0 \<le> j \<and> j < int n then Some (nat j) else None)"

text \<open>\<^verbatim>\<open>v[k]\<close>.\<close>

definition subscript :: "store \<Rightarrow> pyval \<Rightarrow> pyval \<Rightarrow> pyval outcome" where
  "subscript h v k =
     (case v of
        PRef a \<Rightarrow>
          (case deref h a of
             None \<Rightarrow> Raise (PyExc SystemError)
           | Some (ODict d) \<Rightarrow>
               (case key_of k of
                  None \<Rightarrow> Raise (PyExc TypeError)
                | Some kk \<Rightarrow>
                    (case map_of d kk of None \<Rightarrow> Raise (PyExc KeyError) | Some x \<Rightarrow> Ok x))
           | Some (OList xs) \<Rightarrow>
               (case py_index k of
                  None \<Rightarrow> Raise (PyExc TypeError)
                | Some i \<Rightarrow>
                    (case norm_index (length xs) i of
                       None \<Rightarrow> Raise (PyExc IndexError)
                     | Some j \<Rightarrow> Ok (xs ! j))))
      | PStr s \<Rightarrow>
          (case py_index k of
             None \<Rightarrow> Raise (PyExc TypeError)
           | Some i \<Rightarrow>
               (case norm_index (length s) i of
                  None \<Rightarrow> Raise (PyExc IndexError)
                | Some j \<Rightarrow> Ok (PStr [s ! j])))
      | _ \<Rightarrow> Raise (PyExc TypeError))"

text \<open>\<^verbatim>\<open>v[k] = x\<close>: the new store, or the exception.\<close>

definition store_subscript :: "store \<Rightarrow> pyval \<Rightarrow> pyval \<Rightarrow> pyval \<Rightarrow> store outcome" where
  "store_subscript h v k x =
     (case v of
        PRef a \<Rightarrow>
          (case deref h a of
             None \<Rightarrow> Raise (PyExc SystemError)
           | Some (ODict d) \<Rightarrow>
               (case key_of k of
                  None \<Rightarrow> Raise (PyExc TypeError)
                | Some kk \<Rightarrow> Ok (h[a := ODict (AList.update kk x d)]))
           | Some (OList xs) \<Rightarrow>
               (case py_index k of
                  None \<Rightarrow> Raise (PyExc TypeError)
                | Some i \<Rightarrow>
                    (case norm_index (length xs) i of
                       None \<Rightarrow> Raise (PyExc IndexError)
                     | Some j \<Rightarrow> Ok (h[a := OList (xs[j := x])]))))
      | _ \<Rightarrow> Raise (PyExc TypeError))"

text \<open>\<^verbatim>\<open>len(v)\<close>.\<close>

definition py_len :: "store \<Rightarrow> pyval \<Rightarrow> nat outcome" where
  "py_len h v =
     (case v of
        PStr s \<Rightarrow> Ok (length s)
      | PRef a \<Rightarrow>
          (case deref h a of
             None \<Rightarrow> Raise (PyExc SystemError)
           | Some (OList xs) \<Rightarrow> Ok (length xs)
           | Some (ODict d) \<Rightarrow> Ok (length d))
      | _ \<Rightarrow> Raise (PyExc TypeError))"

text \<open>Truth value of \<^verbatim>\<open>v\<close>, as \<^verbatim>\<open>if v\<close>, \<^verbatim>\<open>not v\<close>, \<^verbatim>\<open>all\<close> and \<^verbatim>\<open>any\<close> take it.\<close>

definition truthy :: "store \<Rightarrow> pyval \<Rightarrow> bool" where
  "truthy h v =
     (case v of
        PNone \<Rightarrow> False
      | PBool b \<Rightarrow> b
      | PInt i \<Rightarrow> i \<noteq> 0
      | PFloat r \<Rightarrow> r \<noteq> 0
      | PComplex z \<Rightarrow> z \<noteq> 0
      | PStr s \<Rightarrow> s \<noteq> []
      | PRef a \<Rightarrow>
          (case deref h a of
             None \<Rightarrow> True
           | Some (OList xs) \<Rightarrow> xs \<noteq> []
           | Some (ODict d) \<Rightarrow> d \<noteq> []))"

text \<open>
  The items that \<^verbatim>\<open>for x in v\<close> visits: the elements of a list, the keys of a dict, the
  characters of a string.
\<close>

definition iter_items :: "store \<Rightarrow> pyval \<Rightarrow> pyval list outcome" where
  "iter_items h v =
     (case v of
        PStr s \<Rightarrow> Ok (map (\<lambda>c. PStr [c]) s)
      | PRef a \<Rightarrow>
          (case deref h a of
             None \<Rightarrow> Raise (PyExc SystemError)
           | Some (OList xs) \<Rightarrow> Ok xs
           | Some (ODict d) \<Rightarrow> Ok (map (val_of_key \<circ> fst) d))
      | _ \<Rightarrow> Raise (PyExc TypeError))"


text \<open>The \<open>i\<close>-th step of an iterator over \<^verbatim>\<open>v\<close>; a list is read as it is at that moment.\<close>

datatype step = Item pyval | Stop | Fail error

definition iter_next :: "store \<Rightarrow> pyval \<Rightarrow> nat \<Rightarrow> step" where
  "iter_next h v i =
     (case v of
        PStr s \<Rightarrow> if i < length s then Item (PStr [s ! i]) else Stop
      | PRef a \<Rightarrow>
          (case deref h a of
             None \<Rightarrow> Fail (PyExc SystemError)
           | Some (OList xs) \<Rightarrow> if i < length xs then Item (xs ! i) else Stop
           | Some (ODict d) \<Rightarrow> if i < length d then Item (val_of_key (fst (d ! i))) else Stop)
      | _ \<Rightarrow> Fail (PyExc TypeError))"

subsection \<open>Arithmetic and comparison\<close>

datatype num = NInt int | NFloat real | NCplx complex

fun as_num :: "pyval \<Rightarrow> num option" where
  "as_num (PBool b) = Some (NInt (if b then 1 else 0))"
| "as_num (PInt i) = Some (NInt i)"
| "as_num (PFloat r) = Some (NFloat r)"
| "as_num (PComplex z) = Some (NCplx z)"
| "as_num v = None"

fun num_real :: "num \<Rightarrow> real" where
  "num_real (NInt i) = of_int i"
| "num_real (NFloat r) = r"
| "num_real (NCplx z) = Re z"

fun num_complex :: "num \<Rightarrow> complex" where
  "num_complex (NCplx z) = z"
| "num_complex n = complex_of_real (num_real n)"

fun is_cplx :: "num \<Rightarrow> bool" where
  "is_cplx (NCplx z) = True"
| "is_cplx n = False"

text \<open>\<^verbatim>\<open>+\<close>, \<^verbatim>\<open>-\<close>, \<^verbatim>\<open>*\<close> on numbers: the result has the wider of the two types.\<close>

fun num_arith ::
  "(int \<Rightarrow> int \<Rightarrow> int) \<Rightarrow> (real \<Rightarrow> real \<Rightarrow> real) \<Rightarrow> (complex \<Rightarrow> complex \<Rightarrow> complex) \<Rightarrow>
   num \<Rightarrow> num \<Rightarrow> pyval" where
  "num_arith fi fr fc (NInt x) (NInt y) = PInt (fi x y)"
| "num_arith fi fr fc x y =
     (if is_cplx x \<or> is_cplx y then PComplex (fc (num_complex x) (num_complex y))
      else PFloat (fr (num_real x) (num_real y)))"

definition py_add :: "pyval \<Rightarrow> pyval \<Rightarrow> pyval outcome" where
  "py_add a b =
     (case (as_num a, as_num b) of
        (Some x, Some y) \<Rightarrow> Ok (num_arith (+) (+) (+) x y)
      | _ \<Rightarrow> (case (a, b) of (PStr s, PStr t) \<Rightarrow> Ok (PStr (s @ t)) | _ \<Rightarrow> Raise (PyExc TypeError)))"

definition py_sub :: "pyval \<Rightarrow> pyval \<Rightarrow> pyval outcome" where
  "py_sub a b =
     (case (as_num a, as_num b) of
        (Some x, Some y) \<Rightarrow> Ok (num_arith (-) (-) (-) x y)
      | _ \<Rightarrow> Raise (PyExc TypeError))"

definition py_mul :: "pyval \<Rightarrow> pyval \<Rightarrow> pyval outcome" where
  "py_mul a b =
     (case (as_num a, as_num b) of
        (Some x, Some y) \<Rightarrow> Ok (num_arith (*) (*) (*) x y)
      | _ \<Rightarrow>
        (case (a, py_index b) of
           (PStr s, Some n) \<Rightarrow> Ok (PStr (concat (replicate (nat n) s)))
         | _ \<Rightarrow>
           (case (py_index a, b) of
              (Some n, PStr s) \<Rightarrow> Ok (PStr (concat (replicate (nat n) s)))
            | _ \<Rightarrow> Raise (PyExc TypeError))))"

definition py_truediv :: "pyval \<Rightarrow> pyval \<Rightarrow> pyval outcome" where
  "py_truediv a b =
     (case (as_num a, as_num b) of
        (Some x, Some y) \<Rightarrow>
          (if num_complex y = 0 then Raise (PyExc ZeroDivisionError)
           else if is_cplx x \<or> is_cplx y then Ok (PComplex (num_complex x / num_complex y))
           else Ok (PFloat (num_real x / num_real y)))
      | _ \<Rightarrow> Raise (PyExc TypeError))"

text \<open>\<^verbatim>\<open>z ** w\<close> on complex numbers.\<close>

definition complex_pow :: "complex \<Rightarrow> complex \<Rightarrow> pyval outcome" where
  "complex_pow z w =
     (if w = 0 then Ok (PComplex 1)
      else if z = 0 then
        (if Im w \<noteq> 0 \<or> Re w < 0 then Raise (PyExc ZeroDivisionError) else Ok (PComplex 0))
      else Ok (PComplex (exp (w * Complex (ln (cmod z)) (Arg z)))))"

text \<open>\<^verbatim>\<open>x ** y\<close> on floats: a negative base with a fractional exponent gives a complex number.\<close>

definition float_pow :: "real \<Rightarrow> real \<Rightarrow> pyval outcome" where
  "float_pow x y =
     (if x = 0 \<and> y < 0 then Raise (PyExc ZeroDivisionError)
      else if of_int \<lfloor>y\<rfloor> = y then Ok (PFloat (x powi \<lfloor>y\<rfloor>))
      else if x < 0 then complex_pow (complex_of_real x) (complex_of_real y)
      else Ok (PFloat (x powr y)))"

text \<open>The two functions above go through \<open>exp\<close>, \<open>powr\<close> and \<open>Arg\<close> and cannot be run.\<close>

declare complex_pow_def [code del] float_pow_def [code del]

definition py_pow :: "pyval \<Rightarrow> pyval \<Rightarrow> pyval outcome" where
  "py_pow a b =
     (case (as_num a, as_num b) of
        (Some (NInt x), Some (NInt y)) \<Rightarrow>
          (if 0 \<le> y then Ok (PInt (x ^ nat y)) else float_pow (of_int x) (of_int y))
      | (Some x, Some y) \<Rightarrow>
          (if is_cplx x \<or> is_cplx y then complex_pow (num_complex x) (num_complex y)
           else float_pow (num_real x) (num_real y))
      | _ \<Rightarrow> Raise (PyExc TypeError))"

definition py_neg :: "pyval \<Rightarrow> pyval outcome" where
  "py_neg a =
     (case as_num a of
        Some (NInt x) \<Rightarrow> Ok (PInt (- x))
      | Some (NFloat x) \<Rightarrow> Ok (PFloat (- x))
      | Some (NCplx x) \<Rightarrow> Ok (PComplex (- x))
      | None \<Rightarrow> Raise (PyExc TypeError))"

text \<open>Strings are ordered by their characters' codes.\<close>

fun str_less :: "string \<Rightarrow> string \<Rightarrow> bool" where
  "str_less [] [] = False"
| "str_less [] (d # t) = True"
| "str_less (c # s) [] = False"
| "str_less (c # s) (d # t) = (if c = d then str_less s t else (of_char c :: nat) < of_char d)"

text \<open>\<^verbatim>\<open>a < b\<close>: numbers with numbers (not complex), strings with strings.\<close>

definition py_lt :: "pyval \<Rightarrow> pyval \<Rightarrow> bool outcome" where
  "py_lt a b =
     (case (as_num a, as_num b) of
        (Some x, Some y) \<Rightarrow>
          (if is_cplx x \<or> is_cplx y then Raise (PyExc TypeError) else Ok (num_real x < num_real y))
      | _ \<Rightarrow> (case (a, b) of (PStr s, PStr t) \<Rightarrow> Ok (str_less s t) | _ \<Rightarrow> Raise (PyExc TypeError)))"

definition py_gt :: "pyval \<Rightarrow> pyval \<Rightarrow> bool outcome" where
  "py_gt a b = py_lt b a"

definition py_le :: "pyval \<Rightarrow> pyval \<Rightarrow> bool outcome" where
  "py_le a b = (case py_lt b a of Ok r \<Rightarrow> Ok (\<not> r) | Raise e \<Rightarrow> Raise e | Timeout \<Rightarrow> Timeout)"

definition py_ge :: "pyval \<Rightarrow> pyval \<Rightarrow> bool outcome" where
  "py_ge a b = (case py_lt a b of Ok r \<Rightarrow> Ok (\<not> r) | Raise e \<Rightarrow> Raise e | Timeout \<Rightarrow> Timeout)"

text \<open>
  \<^verbatim>\<open>a == b\<close>. Two references are compared by identity: the interpreter only ever compares
  the results of evaluation and strings, and a result of evaluation is never a container.
\<close>

definition py_eq :: "pyval \<Rightarrow> pyval \<Rightarrow> bool" where
  "py_eq a b =
     (case (as_num a, as_num b) of
        (Some x, Some y) \<Rightarrow> num_complex x = num_complex y
      | _ \<Rightarrow>
        (case (a, b) of
           (PStr s, PStr t) \<Rightarrow> s = t
         | (PNone, PNone) \<Rightarrow> True
         | (PRef p, PRef q) \<Rightarrow> p = q
         | _ \<Rightarrow> False))"


section \<open>The interpreter\<close>

subsection \<open>State\<close>

text \<open>
  An entry of \<^verbatim>\<open>self._fuctions\<close>: the dict \<^verbatim>\<open>{"arguments": {...}, "commands": ...}\<close>. The
  argument dict is created by the interpreter and no other object refers to it, so it is held
  by value, in insertion order; \<open>commands\<close> is the value taken from the tree.
\<close>

record func_data =
  arguments :: "(key \<times> pyval) list"
  commands :: pyval

text \<open>
  What the generator yields: the command node itself (the same object that sits in the tree),
  or a new dict \<^verbatim>\<open>{"name": ..., "value": ...}\<close>.
\<close>

datatype emitted = Node pyval | New_command pyval pyval

text \<open>
  An \<^verbatim>\<open>Interpreter\<close> instance with the store it runs in and the items it has yielded so far.
  The three tables are Python dicts, kept in insertion order.
\<close>

record interpreter =
  variables :: "(key \<times> pyval) list"
  fuctions :: "(key \<times> func_data) list"
  lists :: "(key \<times> pyval) list"
  tree_commands :: pyval
  objects :: store
  yielded :: "emitted list"

definition colors :: "string list" where
  "colors = [''white'', ''black'', ''red'', ''green'', ''blue'', ''cyan'']"

type_synonym 'a comp = "interpreter \<Rightarrow> 'a outcome \<times> interpreter"

definition pure :: "'a \<Rightarrow> 'a comp" where
  "pure x st = (Ok x, st)"

definition raise :: "error \<Rightarrow> 'a comp" where
  "raise e st = (Raise e, st)"

definition lift :: "'a outcome \<Rightarrow> 'a comp" where
  "lift r st = (r, st)"

definition bind :: "'a comp \<Rightarrow> ('a \<Rightarrow> 'b comp) \<Rightarrow> 'b comp" where
  "bind m f st =
     (case m st of
        (Ok x, st') \<Rightarrow> f x st'
      | (Raise e, st') \<Rightarrow> (Raise e, st')
      | (Timeout, st') \<Rightarrow> (Timeout, st'))"

text \<open>\<^verbatim>\<open>try: m except KeyError as err: raise e from err\<close>\<close>

definition try_KeyError :: "error \<Rightarrow> 'a comp \<Rightarrow> 'a comp" where
  "try_KeyError e m st = (case m st of (r, st') \<Rightarrow> (except_KeyError e r, st'))"

text \<open>\<^verbatim>\<open>try: m except Exception as err: raise f(err) from err\<close>\<close>

definition try_Exception :: "(error \<Rightarrow> error) \<Rightarrow> 'a comp \<Rightarrow> 'a comp" where
  "try_Exception f m st =
     (case m st of
        (Raise e, st') \<Rightarrow> (Raise (f e), st')
      | (r, st') \<Rightarrow> (r, st'))"

text \<open>\<^verbatim>\<open>command[k]\<close> for a string \<^verbatim>\<open>k\<close>, \<^verbatim>\<open>v[k]\<close> and \<^verbatim>\<open>v[k] = x\<close> in the current store.\<close>

definition field :: "pyval \<Rightarrow> string \<Rightarrow> pyval comp" where
  "field command k st = (subscript (objects st) command (PStr k), st)"

definition getitem :: "pyval \<Rightarrow> pyval \<Rightarrow> pyval comp" where
  "getitem v k st = (subscript (objects st) v k, st)"

definition setitem :: "pyval \<Rightarrow> pyval \<Rightarrow> pyval \<Rightarrow> unit comp" where
  "setitem v k x st =
     (case store_subscript (objects st) v k x of
        Ok h \<Rightarrow> (Ok (), st\<lparr>objects := h\<rparr>)
      | Raise e \<Rightarrow> (Raise e, st)
      | Timeout \<Rightarrow> (Timeout, st))"

definition len :: "pyval \<Rightarrow> nat comp" where
  "len v st = (py_len (objects st) v, st)"

definition new_list :: "pyval comp" where
  "new_list st = (case alloc (objects st) (OList []) of (h, a) \<Rightarrow> (Ok (PRef a), st\<lparr>objects := h\<rparr>))"

definition yield :: "emitted \<Rightarrow> unit comp" where
  "yield x st = (Ok (), st\<lparr>yielded := yielded st @ [x]\<rparr>)"

text \<open>Reading and writing a table of the interpreter (a Python dict): \<^verbatim>\<open>t[k]\<close>, \<^verbatim>\<open>k in t\<close>.\<close>

definition table_get :: "(key \<times> 'v) list \<Rightarrow> pyval \<Rightarrow> 'v outcome" where
  "table_get t k =
     (case key_of k of
        None \<Rightarrow> Raise (PyExc TypeError)
      | Some kk \<Rightarrow> (case map_of t kk of None \<Rightarrow> Raise (PyExc KeyError) | Some x \<Rightarrow> Ok x))"

definition table_has :: "(key \<times> 'v) list \<Rightarrow> pyval \<Rightarrow> bool outcome" where
  "table_has t k =
     (case key_of k of
        None \<Rightarrow> Raise (PyExc TypeError)
      | Some kk \<Rightarrow> Ok (map_of t kk \<noteq> None))"

definition table_set :: "(key \<times> 'v) list \<Rightarrow> pyval \<Rightarrow> 'v \<Rightarrow> (key \<times> 'v) list outcome" where
  "table_set t k x =
     (case key_of k of
        None \<Rightarrow> Raise (PyExc TypeError)
      | Some kk \<Rightarrow> Ok (AList.update kk x t))"

subsection \<open>List commands and list queries\<close>

text \<open>The local variable \<^verbatim>\<open>xs\<close> of \<^verbatim>\<open>_handle_list\<close> is assigned only when the name is in
  \<^verbatim>\<open>self._lists\<close>; reading it otherwise raises \<^verbatim>\<open>UnboundLocalError\<close>.\<close>

definition local_xs :: "pyval option \<Rightarrow> pyval comp" where
  "local_xs xs = (case xs of None \<Rightarrow> raise (PyExc UnboundLocalError) | Some v \<Rightarrow> pure v)"

text \<open>Looking up a method of \<^verbatim>\<open>list\<close> (\<^verbatim>\<open>insert\<close>, \<^verbatim>\<open>remove\<close>) on \<^verbatim>\<open>xs\<close>.\<close>

definition list_method :: "pyval \<Rightarrow> unit comp" where
  "list_method xs st =
     (case xs of
        PRef a \<Rightarrow>
          (case deref (objects st) a of
             None \<Rightarrow> (Raise (PyExc SystemError), st)
           | Some (OList l) \<Rightarrow> (Ok (), st)
           | Some (ODict d) \<Rightarrow> (Raise (PyExc AttributeError), st))
      | _ \<Rightarrow> (Raise (PyExc AttributeError), st))"

text \<open>\<^verbatim>\<open>xs.insert(i, x)\<close>: an index out of range is clamped.\<close>

definition insert_at :: "int \<Rightarrow> pyval \<Rightarrow> pyval list \<Rightarrow> pyval list" where
  "insert_at i x l =
     (let n = int (length l);
          j = (if i < 0 then max 0 (i + n) else min i n)
      in take (nat j) l @ [x] @ drop (nat j) l)"

definition list_insert :: "pyval \<Rightarrow> int \<Rightarrow> pyval \<Rightarrow> unit comp" where
  "list_insert xs i x st =
     (case xs of
        PRef a \<Rightarrow>
          (case deref (objects st) a of
             Some (OList l) \<Rightarrow> (Ok (), st\<lparr>objects := (objects st)[a := OList (insert_at i x l)]\<rparr>)
           | _ \<Rightarrow> (Raise (PyExc SystemError), st))
      | _ \<Rightarrow> (Raise (PyExc SystemError), st))"

text \<open>\<^verbatim>\<open>xs.pop(i)\<close>, on a list or on a dict (where \<^verbatim>\<open>i\<close> is a key).\<close>

definition pop :: "pyval \<Rightarrow> pyval \<Rightarrow> unit comp" where
  "pop xs command st =
     (case xs of
        PRef a \<Rightarrow>
          (case deref (objects st) a of
             None \<Rightarrow> (Raise (PyExc SystemError), st)
           | Some (OList l) \<Rightarrow>
               (case subscript (objects st) command (PStr ''index'') of
                  Ok idx \<Rightarrow>
                    (case py_int idx of
                       Ok i \<Rightarrow>
                         (case norm_index (length l) i of
                            None \<Rightarrow> (Raise (PyExc IndexError), st)
                          | Some j \<Rightarrow>
                              (Ok (), st\<lparr>objects := (objects st)[a := OList (take j l @ drop (Suc j) l)]\<rparr>))
                     | Raise e \<Rightarrow> (Raise e, st)
                     | Timeout \<Rightarrow> (Timeout, st))
                | Raise e \<Rightarrow> (Raise e, st)
                | Timeout \<Rightarrow> (Timeout, st))
           | Some (ODict d) \<Rightarrow>
               (case subscript (objects st) command (PStr ''index'') of
                  Ok idx \<Rightarrow>
                    (case py_int idx of
                       Ok i \<Rightarrow>
                         (case map_of d (KNum (of_int i)) of
                            None \<Rightarrow> (Raise (PyExc KeyError), st)
                          | Some v \<Rightarrow>
                              (Ok (), st\<lparr>objects := (objects st)[a := ODict (AList.delete (KNum (of_int i)) d)]\<rparr>))
                     | Raise e \<Rightarrow> (Raise e, st)
                     | Timeout \<Rightarrow> (Timeout, st))
                | Raise e \<Rightarrow> (Raise e, st)
                | Timeout \<Rightarrow> (Timeout, st)))
      | _ \<Rightarrow> (Raise (PyExc AttributeError), st))"

text \<open>\<^verbatim>\<open>xs.remove(x)\<close>: the first element equal to \<^verbatim>\<open>x\<close> goes.\<close>

fun remove_first :: "pyval \<Rightarrow> pyval list \<Rightarrow> pyval list option" where
  "remove_first x [] = None"
| "remove_first x (y # l) =
     (if py_eq y x then Some l else map_option ((#) y) (remove_first x l))"

definition list_remove :: "pyval \<Rightarrow> pyval \<Rightarrow> unit comp" where
  "list_remove xs x st =
     (case xs of
        PRef a \<Rightarrow>
          (case deref (objects st) a of
             Some (OList l) \<Rightarrow>
               (case remove_first x l of
                  None \<Rightarrow> (Raise (PyExc ValueError), st)
                | Some l' \<Rightarrow> (Ok (), st\<lparr>objects := (objects st)[a := OList l']\<rparr>))
           | _ \<Rightarrow> (Raise (PyExc SystemError), st))
      | _ \<Rightarrow> (Raise (PyExc SystemError), st))"

text \<open>\<^verbatim>\<open>self._lists[command["list_name"]] = xs\<close>\<close>

definition rebind_list :: "pyval \<Rightarrow> pyval \<Rightarrow> unit comp" where
  "rebind_list command xs =
     bind (field command ''list_name'') (\<lambda>list_name st.
       case table_set (lists st) list_name xs of
         Ok t \<Rightarrow> (Ok (), st\<lparr>lists := t\<rparr>)
       | Raise e \<Rightarrow> (Raise e, st)
       | Timeout \<Rightarrow> (Timeout, st))"

text \<open>
  The \<^verbatim>\<open>match command["function"]\<close> of \<^verbatim>\<open>_handle_list\<close>, with \<^verbatim>\<open>self._evaluate\<close> as the
  parameter \<open>ev\<close> and the local variable \<^verbatim>\<open>xs\<close> as an option. The order of the steps
  is Python's: in \<^verbatim>\<open>xs[int(command["index"])] = self._evaluate(command["value"])\<close> the right-hand
  side is evaluated first, then \<^verbatim>\<open>xs\<close>, then the index; in a method call the method is looked
  up on \<^verbatim>\<open>xs\<close> before the arguments are evaluated from left to right. A branch without
  \<^verbatim>\<open>return\<close> returns \<^verbatim>\<open>None\<close>.
\<close>

definition list_function :: "(pyval \<Rightarrow> pyval comp) \<Rightarrow> pyval \<Rightarrow> pyval option \<Rightarrow> pyval \<Rightarrow> pyval comp" where
  "list_function ev command xs function =
     (if function = PStr ''empty'' then
        bind (local_xs xs) (\<lambda>l st. (Ok (PBool (\<not> truthy (objects st) l)), st))
      else if function = PStr ''len'' then
        bind (local_xs xs) (\<lambda>l. bind (len l) (\<lambda>n. pure (PInt (int n))))
      else if function = PStr ''get'' then
        bind (field command ''index'') (\<lambda>idx.
        bind (ev idx) (\<lambda>v.
        bind (lift (py_int v)) (\<lambda>i.
        bind (local_xs xs) (\<lambda>l. getitem l (PInt i)))))
      else if function = PStr ''set'' then
        bind (field command ''value'') (\<lambda>v.
        bind (ev v) (\<lambda>x.
        bind (local_xs xs) (\<lambda>l.
        bind (field command ''index'') (\<lambda>idx.
        bind (lift (py_int idx)) (\<lambda>i.
        bind (setitem l (PInt i) x) (\<lambda>_.
        bind (rebind_list command l) (\<lambda>_. pure PNone)))))))
      else if function = PStr ''insert'' then
        bind (local_xs xs) (\<lambda>l.
        bind (list_method l) (\<lambda>_.
        bind (field command ''index'') (\<lambda>idx.
        bind (lift (py_int idx)) (\<lambda>i.
        bind (field command ''value'') (\<lambda>v.
        bind (ev v) (\<lambda>x.
        bind (list_insert l i x) (\<lambda>_.
        bind (rebind_list command l) (\<lambda>_. pure PNone))))))))
      else if function = PStr ''remove'' then
        bind (local_xs xs) (\<lambda>l.
        bind (pop l command) (\<lambda>_.
        bind (rebind_list command l) (\<lambda>_. pure PNone)))
      else if function = PStr ''remove_value'' then
        bind (local_xs xs) (\<lambda>l.
        bind (list_method l) (\<lambda>_.
        bind (field command ''value'') (\<lambda>v.
        bind (ev v) (\<lambda>x.
        bind (list_remove l x) (\<lambda>_.
        bind (rebind_list command l) (\<lambda>_. pure PNone))))))
      else raise InterpreterInvalidCommandError)"

text \<open>\<^verbatim>\<open>_handle_list\<close>: the lookup of the list, then the \<^verbatim>\<open>match\<close>, all inside
  \<^verbatim>\<open>try ... except KeyError\<close>.\<close>

definition handle_list :: "(pyval \<Rightarrow> pyval comp) \<Rightarrow> pyval \<Rightarrow> pyval comp" where
  "handle_list ev command =
     try_KeyError InterpreterUnboundVariableListError
       (bind (field command ''list_name'') (\<lambda>list_name.
        bind (\<lambda>st. (table_has (lists st) list_name, st)) (\<lambda>present.
        bind (\<lambda>st. if present
                    then (case table_get (lists st) list_name of
                            Ok v \<Rightarrow> (Ok (Some v), st)
                          | Raise e \<Rightarrow> (Raise e, st)
                          | Timeout \<Rightarrow> (Timeout, st))
                    else (Ok None, st)) (\<lambda>xs.
        bind (field command ''function'') (\<lambda>function.
          list_function ev command xs function)))))"

subsection \<open>Expression evaluation\<close>

text \<open>
  The loop over \<^verbatim>\<open>self._fuctions.values()\<close> in \<^verbatim>\<open>_evaluate\<close>: the first function, in the order
  of definition, whose argument dict has the name decides.
\<close>

fun lookup_argument :: "func_data list \<Rightarrow> key \<Rightarrow> pyval option" where
  "lookup_argument [] k = None"
| "lookup_argument (func_data # rest) k =
     (case map_of (arguments func_data) k of
        Some v \<Rightarrow> Some v
      | None \<Rightarrow> lookup_argument rest k)"

definition evaluate_str :: "string \<Rightarrow> pyval comp" where
  "evaluate_str s st =
     (case lookup_argument (map snd (fuctions st)) (KStr s) of
        Some v \<Rightarrow> (Ok v, st)
      | None \<Rightarrow>
          if s = ''true'' then (Ok (PBool True), st)
          else if s = ''false'' then (Ok (PBool False), st)
          else (case map_of (variables st) (KStr s) of
                  Some v \<Rightarrow> (Ok v, st)
                | None \<Rightarrow> (Raise (InterpreterUnboundVariableError (PStr s)), st)))"

text \<open>\<^verbatim>\<open>self._evaluate(value["left"]) op self._evaluate(value["right"])\<close>\<close>

definition binary ::
  "(pyval \<Rightarrow> pyval comp) \<Rightarrow> pyval \<Rightarrow> (pyval \<Rightarrow> pyval \<Rightarrow> pyval outcome) \<Rightarrow> pyval comp" where
  "binary ev v f =
     bind (field v ''left'') (\<lambda>l.
     bind (ev l) (\<lambda>x.
     bind (field v ''right'') (\<lambda>r.
     bind (ev r) (\<lambda>y. lift (f x y)))))"

definition as_bool :: "bool outcome \<Rightarrow> pyval outcome" where
  "as_bool r = (case r of Ok b \<Rightarrow> Ok (PBool b) | Raise e \<Rightarrow> Raise e | Timeout \<Rightarrow> Timeout)"

text \<open>
  \<^verbatim>\<open>all(self._evaluate(expr) for expr in v)\<close> and \<^verbatim>\<open>any(...)\<close>: the generator is consumed until
  the first operand that decides. The first argument bounds the number of operands visited.
\<close>

primrec all_loop :: "(pyval \<Rightarrow> pyval comp) \<Rightarrow> nat \<Rightarrow> pyval \<Rightarrow> nat \<Rightarrow> pyval comp" where
  "all_loop ev 0 v i = (\<lambda>st. (Timeout, st))"
| "all_loop ev (Suc k) v i =
     (\<lambda>st. case iter_next (objects st) v i of
              Fail e \<Rightarrow> (Raise e, st)
            | Stop \<Rightarrow> (Ok (PBool True), st)
            | Item expr \<Rightarrow>
                bind (ev expr) (\<lambda>x st'.
                  if truthy (objects st') x then all_loop ev k v (Suc i) st'
                  else (Ok (PBool False), st')) st)"

primrec any_loop :: "(pyval \<Rightarrow> pyval comp) \<Rightarrow> nat \<Rightarrow> pyval \<Rightarrow> nat \<Rightarrow> pyval comp" where
  "any_loop ev 0 v i = (\<lambda>st. (Timeout, st))"
| "any_loop ev (Suc k) v i =
     (\<lambda>st. case iter_next (objects st) v i of
              Fail e \<Rightarrow> (Raise e, st)
            | Stop \<Rightarrow> (Ok (PBool False), st)
            | Item expr \<Rightarrow>
                bind (ev expr) (\<lambda>x st'.
                  if truthy (objects st') x then (Ok (PBool True), st')
                  else any_loop ev k v (Suc i) st') st)"

text \<open>The \<^verbatim>\<open>match op\<close> of \<^verbatim>\<open>_evaluate\<close>, inside its \<^verbatim>\<open>try ... except KeyError\<close>.\<close>

definition evaluate_op :: "(pyval \<Rightarrow> pyval comp) \<Rightarrow> nat \<Rightarrow> pyval \<Rightarrow> pyval comp" where
  "evaluate_op ev k v =
     try_KeyError InterpreterInvalidTreeError
       (bind (field v ''op'') (\<lambda>op.
          if op = PStr ''+'' then binary ev v py_add
          else if op = PStr ''-'' then binary ev v py_sub
          else if op = PStr ''*'' then binary ev v py_mul
          else if op = PStr ''/'' then binary ev v py_truediv
          else if op = PStr ''^'' then binary ev v py_pow
          else if op = PStr ''neg'' then
            bind (field v ''value'') (\<lambda>e. bind (ev e) (\<lambda>x. lift (py_neg x)))
          else if op = PStr ''>'' then binary ev v (\<lambda>x y. as_bool (py_gt x y))
          else if op = PStr ''>='' then binary ev v (\<lambda>x y. as_bool (py_ge x y))
          else if op = PStr ''<'' then binary ev v (\<lambda>x y. as_bool (py_lt x y))
          else if op = PStr ''<='' then binary ev v (\<lambda>x y. as_bool (py_le x y))
          else if op = PStr ''='' then binary ev v (\<lambda>x y. Ok (PBool (py_eq x y)))
          else if op = PStr ''<>'' then binary ev v (\<lambda>x y. Ok (PBool (\<not> py_eq x y)))
          else if op = PStr ''and'' then bind (field v ''list'') (\<lambda>l. all_loop ev k l 0)
          else if op = PStr ''or'' then bind (field v ''list'') (\<lambda>l. any_loop ev k l 0)
          else if op = PStr ''not'' then
            bind (field v ''expr'') (\<lambda>e.
            bind (ev e) (\<lambda>x st. (Ok (PBool (\<not> truthy (objects st) x)), st)))
          else raise InterpreterInvalidCommandError))"

text \<open>\<^verbatim>\<open>"name" in value and value["name"] == "list"\<close>\<close>

definition is_list_query :: "(key \<times> pyval) list \<Rightarrow> bool" where
  "is_list_query d =
     (case map_of d (KStr ''name'') of None \<Rightarrow> False | Some nm \<Rightarrow> py_eq nm (PStr ''list''))"

text \<open>
  \<^verbatim>\<open>_evaluate\<close>. The first argument bounds the depth of the recursion through nested
  expressions.
\<close>

primrec evaluate :: "nat \<Rightarrow> pyval \<Rightarrow> pyval comp" where
  "evaluate 0 v = (\<lambda>st. (Timeout, st))"
| "evaluate (Suc n) v =
     (case v of
        PFloat r \<Rightarrow> pure v
      | PStr s \<Rightarrow> evaluate_str s
      | PRef a \<Rightarrow>
          (\<lambda>st. case deref (objects st) a of
                   None \<Rightarrow> (Raise (PyExc SystemError), st)
                 | Some (OList l) \<Rightarrow> (Raise InterpreterInvalidTreeError, st)
                 | Some (ODict d) \<Rightarrow>
                     if is_list_query d then handle_list (evaluate n) v st
                     else evaluate_op (evaluate n) n v st)
      | _ \<Rightarrow> raise InterpreterInvalidTreeError)"


subsection \<open>Command handlers\<close>

text \<open>
  The handlers take \<^verbatim>\<open>self._evaluate\<close> as \<open>ev\<close> and \<^verbatim>\<open>self._interpret\<close> as \<open>interp\<close>.
  A \<^verbatim>\<open>yield\<close> appends to \<open>yielded\<close>; what was yielded before an exception stays yielded,
  and so does every write to the tables and the store.
\<close>

definition set_fuctions :: "pyval \<Rightarrow> func_data \<Rightarrow> unit comp" where
  "set_fuctions func_name fd st =
     (case table_set (fuctions st) func_name fd of
        Ok t \<Rightarrow> (Ok (), st\<lparr>fuctions := t\<rparr>)
      | Raise e \<Rightarrow> (Raise e, st)
      | Timeout \<Rightarrow> (Timeout, st))"

definition get_fuctions :: "pyval \<Rightarrow> func_data comp" where
  "get_fuctions func_name st = (table_get (fuctions st) func_name, st)"

text \<open>\<^verbatim>\<open>self._fuctions[func_name]["arguments"][argument] = x\<close>\<close>

definition set_argument :: "pyval \<Rightarrow> pyval \<Rightarrow> pyval \<Rightarrow> unit comp" where
  "set_argument func_name argument x =
     bind (get_fuctions func_name) (\<lambda>fd.
     bind (lift (table_set (arguments fd) argument x)) (\<lambda>args.
     set_fuctions func_name (fd\<lparr>arguments := args\<rparr>)))"

fun declare_arguments :: "pyval \<Rightarrow> pyval list \<Rightarrow> unit comp" where
  "declare_arguments func_name [] = pure ()"
| "declare_arguments func_name (argument # rest) =
     bind (set_argument func_name argument (PStr [])) (\<lambda>_. declare_arguments func_name rest)"

definition handle_func_def :: "pyval \<Rightarrow> unit comp" where
  "handle_func_def command =
     bind (field command ''func_name'') (\<lambda>func_name.
     bind (field command ''arguments'') (\<lambda>args.
     bind (field command ''commands'') (\<lambda>cmds.
     bind new_list (\<lambda>empty_list.
     bind (set_fuctions func_name \<lparr>arguments = [], commands = empty_list\<rparr>) (\<lambda>_.
     bind (\<lambda>st. (iter_items (objects st) args, st)) (\<lambda>items.
     bind (declare_arguments func_name items) (\<lambda>_.
     bind (get_fuctions func_name) (\<lambda>fd.
     set_fuctions func_name (fd\<lparr>commands := cmds\<rparr>)))))))))"

text \<open>
  The loop \<^verbatim>\<open>for i in range(len(arguments))\<close> of \<^verbatim>\<open>_handle_func_call\<close>; \<open>keys\<close> is what is left
  of \<^verbatim>\<open>list(self._fuctions[func_name]["arguments"])\<close> from index \<open>i\<close> on (the two lengths are
  equal once the arity check has passed).
\<close>

fun bind_arguments ::
  "(pyval \<Rightarrow> pyval comp) \<Rightarrow> pyval \<Rightarrow> pyval \<Rightarrow> key list \<Rightarrow> nat \<Rightarrow> unit comp" where
  "bind_arguments ev func_name args [] i = pure ()"
| "bind_arguments ev func_name args (arg_name # keys) i =
     bind (getitem args (PInt (int i))) (\<lambda>a.
     bind (ev a) (\<lambda>evaluated_value.
     bind (set_argument func_name (val_of_key arg_name) evaluated_value) (\<lambda>_.
     bind_arguments ev func_name args keys (Suc i))))"

definition handle_func_call ::
  "(pyval \<Rightarrow> pyval comp) \<Rightarrow> (pyval \<Rightarrow> unit comp) \<Rightarrow> pyval \<Rightarrow> unit comp" where
  "handle_func_call ev interp command =
     bind (field command ''func_name'') (\<lambda>func_name.
     bind (field command ''arguments'') (\<lambda>args.
     try_KeyError (InterpreterUndefinedFunctionError func_name)
       (bind (get_fuctions func_name) (\<lambda>fd.
        bind (len args) (\<lambda>input_args_num.
          if length (arguments fd) \<noteq> input_args_num then
            raise (InterpreterInvalidFunctionArgumentsError func_name
                     (length (arguments fd)) input_args_num)
          else
            bind (bind_arguments ev func_name args (map fst (arguments fd)) 0) (\<lambda>_.
            bind (get_fuctions func_name) (\<lambda>fd'.
            try_Exception (InterpreterFunctionExecutionError func_name)
              (interp (commands fd')))))))))"

definition handle_make :: "(pyval \<Rightarrow> pyval comp) \<Rightarrow> pyval \<Rightarrow> unit comp" where
  "handle_make ev command =
     bind (field command ''var_name'') (\<lambda>var_name.
     bind (field command ''value'') (\<lambda>v.
     bind (ev v) (\<lambda>x st.
       case table_set (variables st) var_name x of
         Ok t \<Rightarrow> (Ok (), st\<lparr>variables := t\<rparr>)
       | Raise e \<Rightarrow> (Raise e, st)
       | Timeout \<Rightarrow> (Timeout, st))))"

text \<open>\<^verbatim>\<open>for i in range(n): value[i] = self._evaluate(value[i])\<close>, from index \<open>i\<close> on.\<close>

fun evaluate_items :: "(pyval \<Rightarrow> pyval comp) \<Rightarrow> pyval \<Rightarrow> nat \<Rightarrow> nat \<Rightarrow> unit comp" where
  "evaluate_items ev v i 0 = pure ()"
| "evaluate_items ev v i (Suc k) =
     bind (getitem v (PInt (int i))) (\<lambda>item.
     bind (ev item) (\<lambda>x.
     bind (setitem v (PInt (int i)) x) (\<lambda>_.
     evaluate_items ev v (Suc i) k)))"

definition handle_list_make :: "(pyval \<Rightarrow> pyval comp) \<Rightarrow> pyval \<Rightarrow> unit comp" where
  "handle_list_make ev command =
     bind (field command ''list_name'') (\<lambda>list_name.
     bind (field command ''list'') (\<lambda>v0.
     bind (if py_eq v0 (PStr ''empty'') then new_list else pure v0) (\<lambda>v.
     bind (len v) (\<lambda>n.
     bind (evaluate_items ev v 0 n) (\<lambda>_ st.
       case table_set (lists st) list_name v of
         Ok t \<Rightarrow> (Ok (), st\<lparr>lists := t\<rparr>)
       | Raise e \<Rightarrow> (Raise e, st)
       | Timeout \<Rightarrow> (Timeout, st))))))"

text \<open>\<^verbatim>\<open>for _ in range(k): yield from self._interpret(command["commands"])\<close>\<close>

fun repeat_loop :: "(pyval \<Rightarrow> unit comp) \<Rightarrow> pyval \<Rightarrow> nat \<Rightarrow> unit comp" where
  "repeat_loop interp command 0 = pure ()"
| "repeat_loop interp command (Suc k) =
     bind (field command ''commands'') (\<lambda>body.
     bind (interp body) (\<lambda>_. repeat_loop interp command k))"

definition handle_repeat ::
  "(pyval \<Rightarrow> pyval comp) \<Rightarrow> (pyval \<Rightarrow> unit comp) \<Rightarrow> pyval \<Rightarrow> unit comp" where
  "handle_repeat ev interp command =
     bind (field command ''value'') (\<lambda>v.
     bind (ev v) (\<lambda>x.
     bind (lift (py_int x)) (\<lambda>n. repeat_loop interp command (nat n))))"

definition handle_if ::
  "(pyval \<Rightarrow> pyval comp) \<Rightarrow> (pyval \<Rightarrow> unit comp) \<Rightarrow> pyval \<Rightarrow> unit comp" where
  "handle_if ev interp command =
     bind (field command ''condition'') (\<lambda>c.
     bind (ev c) (\<lambda>condition st.
       if truthy (objects st) condition
       then bind (field command ''commands'') interp st
       else bind (field command ''else_commands'') interp st))"

text \<open>\<^verbatim>\<open>_handle_movement\<close>, \<^verbatim>\<open>_handle_setpensize\<close> and \<^verbatim>\<open>_handle_print\<close> have the same body.\<close>

definition handle_movement :: "(pyval \<Rightarrow> pyval comp) \<Rightarrow> pyval \<Rightarrow> unit comp" where
  "handle_movement ev command =
     bind (field command ''name'') (\<lambda>nm.
     bind (field command ''value'') (\<lambda>v.
     bind (ev v) (\<lambda>x. yield (New_command nm x))))"

definition handle_setpensize :: "(pyval \<Rightarrow> pyval comp) \<Rightarrow> pyval \<Rightarrow> unit comp" where
  "handle_setpensize ev command =
     bind (field command ''name'') (\<lambda>nm.
     bind (field command ''value'') (\<lambda>v.
     bind (ev v) (\<lambda>x. yield (New_command nm x))))"

definition handle_print :: "(pyval \<Rightarrow> pyval comp) \<Rightarrow> pyval \<Rightarrow> unit comp" where
  "handle_print ev command =
     bind (field command ''name'') (\<lambda>nm.
     bind (field command ''value'') (\<lambda>v.
     bind (ev v) (\<lambda>x. yield (New_command nm x))))"

text \<open>The \<^verbatim>\<open>case "setpos"\<close> branch of \<^verbatim>\<open>_interpret\<close>.\<close>

definition handle_setpos :: "(pyval \<Rightarrow> pyval comp) \<Rightarrow> pyval \<Rightarrow> unit comp" where
  "handle_setpos ev command =
     bind (field command ''x'') (\<lambda>x.
     bind (ev x) (\<lambda>vx.
     bind (setitem command (PStr ''x'') vx) (\<lambda>_.
     bind (field command ''y'') (\<lambda>y.
     bind (ev y) (\<lambda>vy.
     bind (setitem command (PStr ''y'') vy) (\<lambda>_.
     yield (Node command)))))))"

text \<open>\<^verbatim>\<open>command["color"] not in self._colors\<close> compares with \<^verbatim>\<open>==\<close>.\<close>

definition handle_setpencolor :: "pyval \<Rightarrow> unit comp" where
  "handle_setpencolor command =
     bind (field command ''color'') (\<lambda>color.
       if \<not> list_ex (\<lambda>c. py_eq color (PStr c)) colors then
         bind (field command ''color'') (\<lambda>color'. raise (InterpreterInvalidColorError color' colors))
       else yield (Node command))"

text \<open>The body of the \<^verbatim>\<open>for\<close> loop of \<^verbatim>\<open>_interpret\<close>: one command.\<close>

definition interpret_one ::
  "(pyval \<Rightarrow> pyval comp) \<Rightarrow> (pyval \<Rightarrow> unit comp) \<Rightarrow> pyval \<Rightarrow> unit comp" where
  "interpret_one ev interp command =
     bind (field command ''name'') (\<lambda>name.
       if name = PStr ''func_def'' then handle_func_def command
       else if name = PStr ''func_call'' then handle_func_call ev interp command
       else if name = PStr ''make'' then handle_make ev command
       else if name = PStr ''list_make'' then handle_list_make ev command
       else if name = PStr ''list'' then bind (handle_list ev command) (\<lambda>_. pure ())
       else if name = PStr ''repeat'' then handle_repeat ev interp command
       else if name = PStr ''if'' then handle_if ev interp command
       else if name \<in> set (map PStr [''forward'', ''backward'', ''left'', ''right''])
         then handle_movement ev command
       else if name \<in> set (map PStr [''hideturtle'', ''showturtle'', ''penup'', ''pendown''])
         then yield (Node command)
       else if name = PStr ''setpos'' then handle_setpos ev command
       else if name = PStr ''setpencolor'' then handle_setpencolor command
       else if name = PStr ''setpensize'' then handle_setpensize ev command
       else if name = PStr ''print'' then handle_print ev command
       else raise InterpreterInvalidCommandError)"

text \<open>
  \<^verbatim>\<open>for command in commands\<close>, standing at index \<open>i\<close>. The first argument bounds the number of
  commands the loop visits.
\<close>

primrec for_commands :: "(pyval \<Rightarrow> unit comp) \<Rightarrow> nat \<Rightarrow> pyval \<Rightarrow> nat \<Rightarrow> unit comp" where
  "for_commands body 0 cmds i = (\<lambda>st. (Timeout, st))"
| "for_commands body (Suc k) cmds i =
     (\<lambda>st. case iter_next (objects st) cmds i of
              Fail e \<Rightarrow> (Raise e, st)
            | Stop \<Rightarrow> (Ok (), st)
            | Item command \<Rightarrow> bind (body command) (\<lambda>_. for_commands body k cmds (Suc i)) st)"

text \<open>
  \<^verbatim>\<open>_interpret\<close>. The first argument bounds the depth of nested bodies and calls, the depth
  of the expressions evaluated and the number of commands of one body.
\<close>

primrec interpret_commands :: "nat \<Rightarrow> pyval \<Rightarrow> unit comp" where
  "interpret_commands 0 cmds = (\<lambda>st. (Timeout, st))"
| "interpret_commands (Suc n) cmds =
     try_KeyError InterpreterInvalidTreeError
       (for_commands (interpret_one (evaluate n) (interpret_commands n)) (Suc n) cmds 0)"

text \<open>\<^verbatim>\<open>Interpreter(tree)\<close>, in the store \<open>h\<close>.\<close>

definition Interpreter :: "store \<Rightarrow> pyval \<Rightarrow> interpreter outcome" where
  "Interpreter h tree =
     (case subscript h tree (PStr ''tokens'') of
        Ok cmds \<Rightarrow>
          Ok \<lparr>variables = [], fuctions = [], lists = [], tree_commands = cmds,
              objects = h, yielded = []\<rparr>
      | Raise e \<Rightarrow>
          if e = PyExc KeyError \<or> e = PyExc TypeError then Raise InterpreterInvalidTreeError
          else Raise e
      | Timeout \<Rightarrow> Timeout)"

text \<open>\<^verbatim>\<open>__iter__\<close>, consumed to its end.\<close>

definition iter :: "nat \<Rightarrow> unit comp" where
  "iter n st = interpret_commands n (tree_commands st) st"

text \<open>\<^verbatim>\<open>list(Interpreter(tree))\<close>: the outcome, and the interpreter where one was built.\<close>

definition run :: "nat \<Rightarrow> store \<Rightarrow> pyval \<Rightarrow> unit outcome \<times> interpreter option" where
  "run n h tree =
     (case Interpreter h tree of
        Ok st \<Rightarrow> (case iter n st of (r, st') \<Rightarrow> (r, Some st'))
      | Raise e \<Rightarrow> (Raise e, None)
      | Timeout \<Rightarrow> (Timeout, None))"



subsection \<open>The bound on the recursion\<close>

text \<open>
  The first argument of \<open>evaluate\<close> and of \<open>interpret_commands\<close> bounds the depth of the
  recursion and the number of iterations; where it is used up the outcome is \<open>Timeout\<close>.
  A computation \<open>m'\<close> extends \<open>m\<close> when it gives every outcome of \<open>m\<close> other than \<open>Timeout\<close>,
  with the same interpreter.
\<close>

definition extends :: "'a comp \<Rightarrow> 'a comp \<Rightarrow> bool" where
  "extends m m' = (\<forall>st r st'. m st = (r, st') \<longrightarrow> r \<noteq> Timeout \<longrightarrow> m' st = (r, st'))"



section \<open>Notions of the specification\<close>

text \<open>
  ``\<open>k\<close> successive interpretations against the same execution context'': the computation
  \<open>m\<close> run \<open>k\<close> times, each run starting in the interpreter the run before it left, and
  stopping at the first run that raises.
\<close>

fun successive :: "unit comp \<Rightarrow> nat \<Rightarrow> unit comp" where
  "successive m 0 = pure ()"
| "successive m (Suc k) = bind m (\<lambda>_. successive m k)"

text \<open>
  The argument table of a function declared with the parameter names \<open>ks\<close>: every name once, in
  the order of its first declaration, bound to the empty string.
\<close>

definition declared :: "key list \<Rightarrow> (key \<times> pyval) list" where
  "declared ks = foldl (\<lambda>al k. AList.update k (PStr []) al) [] ks"

text \<open>The command names that \<^verbatim>\<open>_interpret\<close> recognizes.\<close>

definition recognised :: "string list" where
  "recognised =
     [''func_def'', ''func_call'', ''make'', ''list_make'', ''list'', ''repeat'', ''if'',
      ''forward'', ''backward'', ''left'', ''right'',
      ''hideturtle'', ''showturtle'', ''penup'', ''pendown'',
      ''setpos'', ''setpencolor'', ''setpensize'', ''print'']"

text \<open>
  For each command name, the fields that its handler reads before it evaluates, writes or
  yields anything.
\<close>

definition read_first :: "(string \<times> string) list" where
  "read_first =
     [(''func_def'', ''func_name''), (''func_def'', ''arguments''), (''func_def'', ''commands''),
      (''func_call'', ''func_name''), (''func_call'', ''arguments''),
      (''make'', ''var_name''), (''make'', ''value''),
      (''list_make'', ''list_name''), (''list_make'', ''list''),
      (''repeat'', ''value''), (''if'', ''condition''),
      (''forward'', ''value''), (''backward'', ''value''), (''left'', ''value''),
      (''right'', ''value''),
      (''setpos'', ''x''), (''setpencolor'', ''color''),
      (''setpensize'', ''value''), (''print'', ''value'')]"


section \<open>Example trees\<close>

text \<open>
  Each example is a store holding a tree as the parser hands it over: object 0 is the dict
  \<^verbatim>\<open>{"tokens": [...]}\<close>, the other objects are its lists and command nodes.
\<close>

text \<open>\<^verbatim>\<open>setpencolor "red  setpencolor "purple\<close>\<close>

definition color_tree :: store where
  "color_tree =
     [ODict [(KStr ''tokens'', PRef 1)],
      OList [PRef 2, PRef 3],
      ODict [(KStr ''name'', PStr ''setpencolor''), (KStr ''color'', PStr ''red'')],
      ODict [(KStr ''name'', PStr ''setpencolor''), (KStr ''color'', PStr ''purple'')]]"

definition color_start :: interpreter where
  "color_start =
     \<lparr>variables = [], fuctions = [], lists = [], tree_commands = PRef 1,
      objects = color_tree, yielded = []\<rparr>"


text \<open>\<^verbatim>\<open>repeat 3 [forward 10]\<close>\<close>

definition repeat_tree :: store where
  "repeat_tree =
     [ODict [(KStr ''tokens'', PRef 1)],
      OList [PRef 2],
      ODict [(KStr ''name'', PStr ''repeat''), (KStr ''value'', PFloat 3),
             (KStr ''commands'', PRef 3)],
      OList [PRef 4],
      ODict [(KStr ''name'', PStr ''forward''), (KStr ''value'', PFloat 10)]]"

definition repeat_start :: interpreter where
  "repeat_start =
     \<lparr>variables = [], fuctions = [], lists = [], tree_commands = PRef 1,
      objects = repeat_tree, yielded = []\<rparr>"

text \<open>
  \<^verbatim>\<open>list_make "L [1 2 3]  print get L 1  insert L 0 9  print get L 0  remove_value L 9
  print len L  print empty L\<close>
\<close>

definition roundtrip_tree :: store where
  "roundtrip_tree =
     [ODict [(KStr ''tokens'', PRef 1)],
      OList [PRef 2, PRef 4, PRef 6, PRef 7, PRef 9, PRef 10, PRef 12],
      ODict [(KStr ''name'', PStr ''list_make''), (KStr ''list_name'', PStr ''L''),
             (KStr ''list'', PRef 3)],
      OList [PFloat 1, PFloat 2, PFloat 3],
      ODict [(KStr ''name'', PStr ''print''), (KStr ''value'', PRef 5)],
      ODict [(KStr ''name'', PStr ''list''), (KStr ''list_name'', PStr ''L''),
             (KStr ''function'', PStr ''get''), (KStr ''index'', PFloat 1)],
      ODict [(KStr ''name'', PStr ''list''), (KStr ''list_name'', PStr ''L''),
             (KStr ''function'', PStr ''insert''), (KStr ''index'', PFloat 0),
             (KStr ''value'', PFloat 9)],
      ODict [(KStr ''name'', PStr ''print''), (KStr ''value'', PRef 8)],
      ODict [(KStr ''name'', PStr ''list''), (KStr ''list_name'', PStr ''L''),
             (KStr ''function'', PStr ''get''), (KStr ''index'', PFloat 0)],
      ODict [(KStr ''name'', PStr ''list''), (KStr ''list_name'', PStr ''L''),
             (KStr ''function'', PStr ''remove_value''), (KStr ''value'', PFloat 9)],
      ODict [(KStr ''name'', PStr ''print''), (KStr ''value'', PRef 11)],
      ODict [(KStr ''name'', PStr ''list''), (KStr ''list_name'', PStr ''L''),
             (KStr ''function'', PStr ''len'')],
      ODict [(KStr ''name'', PStr ''print''), (KStr ''value'', PRef 13)],
      ODict [(KStr ''name'', PStr ''list''), (KStr ''list_name'', PStr ''L''),
             (KStr ''function'', PStr ''empty'')]]"

text \<open>
  Three trees in one store. At 0: \<^verbatim>\<open>f\<close> (a call of a function that was never defined).
  At 4: \<^verbatim>\<open>to f :a forward :a end  f 1 2\<close>. At 12: \<^verbatim>\<open>to g setpencolor "purple end  g\<close>.
\<close>

definition call_trees :: store where
  "call_trees =
     [ODict [(KStr ''tokens'', PRef 1)],
      OList [PRef 2],
      ODict [(KStr ''name'', PStr ''func_call''), (KStr ''func_name'', PStr ''f''),
             (KStr ''arguments'', PRef 3)],
      OList [],
      ODict [(KStr ''tokens'', PRef 5)],
      OList [PRef 6, PRef 10],
      ODict [(KStr ''name'', PStr ''func_def''), (KStr ''func_name'', PStr ''f''),
             (KStr ''arguments'', PRef 7), (KStr ''commands'', PRef 8)],
      OList [PStr ''a''],
      OList [PRef 9],
      ODict [(KStr ''name'', PStr ''forward''), (KStr ''value'', PStr ''a'')],
      ODict [(KStr ''name'', PStr ''func_call''), (KStr ''func_name'', PStr ''f''),
             (KStr ''arguments'', PRef 11)],
      OList [PFloat 1, PFloat 2],
      ODict [(KStr ''tokens'', PRef 13)],
      OList [PRef 14, PRef 18],
      ODict [(KStr ''name'', PStr ''func_def''), (KStr ''func_name'', PStr ''g''),
             (KStr ''arguments'', PRef 15), (KStr ''commands'', PRef 16)],
      OList [],
      OList [PRef 17],
      ODict [(KStr ''name'', PStr ''setpencolor''), (KStr ''color'', PStr ''purple'')],
      ODict [(KStr ''name'', PStr ''func_call''), (KStr ''func_name'', PStr ''g''),
             (KStr ''arguments'', PRef 19)],
      OList []]"

text \<open>
  Two trees in one store, with the same definition \<^verbatim>\<open>to f :a :a forward :a end\<close>, which
  declares the parameter \<^verbatim>\<open>a\<close> twice. At 0: the definition, then \<^verbatim>\<open>f 1\<close>. At 8: the definition,
  then \<^verbatim>\<open>f 1 2\<close>.
\<close>

definition duplicate_trees :: store where
  "duplicate_trees =
     [ODict [(KStr ''tokens'', PRef 1)],
      OList [PRef 2, PRef 6],
      ODict [(KStr ''name'', PStr ''func_def''), (KStr ''func_name'', PStr ''f''),
             (KStr ''arguments'', PRef 3), (KStr ''commands'', PRef 4)],
      OList [PStr ''a'', PStr ''a''],
      OList [PRef 5],
      ODict [(KStr ''name'', PStr ''forward''), (KStr ''value'', PStr ''a'')],
      ODict [(KStr ''name'', PStr ''func_call''), (KStr ''func_name'', PStr ''f''),
             (KStr ''arguments'', PRef 7)],
      OList [PFloat 1],
      ODict [(KStr ''tokens'', PRef 9)],
      OList [PRef 2, PRef 10],
      ODict [(KStr ''name'', PStr ''func_call''), (KStr ''func_name'', PStr ''f''),
             (KStr ''arguments'', PRef 11)],
      OList [PFloat 1, PFloat 2]]"

text \<open>The new interpreter of the first of the two trees.\<close>

definition duplicate_start :: interpreter where
  "duplicate_start =
     \<lparr>variables = [], fuctions = [], lists = [], tree_commands = PRef 1,
      objects = duplicate_trees, yielded = []\<rparr>"

text \<open>\<^verbatim>\<open>to f :a  if :a [f false] []  print :a  end  f true\<close>\<close>

definition scope_tree :: store where
  "scope_tree =
     [ODict [(KStr ''tokens'', PRef 1)],
      OList [PRef 2, PRef 11],
      ODict [(KStr ''name'', PStr ''func_def''), (KStr ''func_name'', PStr ''f''),
             (KStr ''arguments'', PRef 3), (KStr ''commands'', PRef 4)],
      OList [PStr ''a''],
      OList [PRef 5, PRef 10],
      ODict [(KStr ''name'', PStr ''if''), (KStr ''condition'', PStr ''a''),
             (KStr ''commands'', PRef 6), (KStr ''else_commands'', PRef 9)],
      OList [PRef 7],
      ODict [(KStr ''name'', PStr ''func_call''), (KStr ''func_name'', PStr ''f''),
             (KStr ''arguments'', PRef 8)],
      OList [PStr ''false''],
      OList [],
      ODict [(KStr ''name'', PStr ''print''), (KStr ''value'', PStr ''a'')],
      ODict [(KStr ''name'', PStr ''func_call''), (KStr ''func_name'', PStr ''f''),
             (KStr ''arguments'', PRef 12)],
      OList [PStr ''true'']]"

text \<open>\<^verbatim>\<open>to f :a print :a end  to g :a print :a end  f 1  g 2\<close>\<close>

definition shadow_tree :: store where
  "shadow_tree =
     [ODict [(KStr ''tokens'', PRef 1)],
      OList [PRef 2, PRef 6, PRef 10, PRef 12],
      ODict [(KStr ''name'', PStr ''func_def''), (KStr ''func_name'', PStr ''f''),
             (KStr ''arguments'', PRef 3), (KStr ''commands'', PRef 4)],
      OList [PStr ''a''],
      OList [PRef 5],
      ODict [(KStr ''name'', PStr ''print''), (KStr ''value'', PStr ''a'')],
      ODict [(KStr ''name'', PStr ''func_def''), (KStr ''func_name'', PStr ''g''),
             (KStr ''arguments'', PRef 7), (KStr ''commands'', PRef 8)],
      OList [PStr ''a''],
      OList [PRef 9],
      ODict [(KStr ''name'', PStr ''print''), (KStr ''value'', PStr ''a'')],
      ODict [(KStr ''name'', PStr ''func_call''), (KStr ''func_name'', PStr ''f''),
             (KStr ''arguments'', PRef 11)],
      OList [PFloat 1],
      ODict [(KStr ''name'', PStr ''func_call''), (KStr ''func_name'', PStr ''g''),
             (KStr ''arguments'', PRef 13)],
      OList [PFloat 2]]"

text \<open>Two trees. At 0: \<^verbatim>\<open>len L\<close> as a command. At 3: \<^verbatim>\<open>print empty L\<close>. No list is ever made.\<close>

definition unbound_list_trees :: store where
  "unbound_list_trees =
     [ODict [(KStr ''tokens'', PRef 1)],
      OList [PRef 2],
      ODict [(KStr ''name'', PStr ''list''), (KStr ''list_name'', PStr ''L''),
             (KStr ''function'', PStr ''len'')],
      ODict [(KStr ''tokens'', PRef 4)],
      OList [PRef 5],
      ODict [(KStr ''name'', PStr ''print''), (KStr ''value'', PRef 6)],
      ODict [(KStr ''name'', PStr ''list''), (KStr ''list_name'', PStr ''L''),
             (KStr ''function'', PStr ''empty'')]]"

text \<open>\<^verbatim>\<open>list_make "L [1 2 3]  insert L 0 9  print len L\<close>\<close>

definition shared_tree :: store where
  "shared_tree =
     [ODict [(KStr ''tokens'', PRef 1)],
      OList [PRef 2, PRef 4, PRef 5],
      ODict [(KStr ''name'', PStr ''list_make''), (KStr ''list_name'', PStr ''L''),
             (KStr ''list'', PRef 3)],
      OList [PFloat 1, PFloat 2, PFloat 3],
      ODict [(KStr ''name'', PStr ''list''), (KStr ''list_name'', PStr ''L''),
             (KStr ''function'', PStr ''insert''), (KStr ''index'', PFloat 0),
             (KStr ''value'', PFloat 9)],
      ODict [(KStr ''name'', PStr ''print''), (KStr ''value'', PRef 6)],
      ODict [(KStr ''name'', PStr ''list''), (KStr ''list_name'', PStr ''L''),
             (KStr ''function'', PStr ''len'')]]"

text \<open>
  Malformed trees. At 0: \<^verbatim>\<open>to f <node without name> end  f\<close>. At 8: an \<^verbatim>\<open>if\<close> whose condition
  is true and whose else-branch holds a node without a name. At 14: a dict without
  \<^verbatim>\<open>tokens\<close>. Object 15 is a list of three bad nodes: one without \<^verbatim>\<open>name\<close>, a \<^verbatim>\<open>forward\<close>
  without \<^verbatim>\<open>value\<close>, and a node named \<^verbatim>\<open>jump\<close>.
\<close>

definition malformed_trees :: store where
  "malformed_trees =
     [ODict [(KStr ''tokens'', PRef 1)],
      OList [PRef 2, PRef 6],
      ODict [(KStr ''name'', PStr ''func_def''), (KStr ''func_name'', PStr ''f''),
             (KStr ''arguments'', PRef 3), (KStr ''commands'', PRef 4)],
      OList [],
      OList [PRef 5],
      ODict [(KStr ''value'', PFloat 10)],
      ODict [(KStr ''name'', PStr ''func_call''), (KStr ''func_name'', PStr ''f''),
             (KStr ''arguments'', PRef 7)],
      OList [],
      ODict [(KStr ''tokens'', PRef 9)],
      OList [PRef 10],
      ODict [(KStr ''name'', PStr ''if''), (KStr ''condition'', PStr ''true''),
             (KStr ''commands'', PRef 11), (KStr ''else_commands'', PRef 12)],
      OList [],
      OList [PRef 13],
      ODict [(KStr ''value'', PFloat 10)],
      ODict [(KStr ''commands'', PRef 11)],
      OList [PRef 5, PRef 16, PRef 17],
      ODict [(KStr ''name'', PStr ''forward'')],
      ODict [(KStr ''name'', PStr ''jump'')]]"

definition malformed_start :: interpreter where
  "malformed_start =
     \<lparr>variables = [], fuctions = [], lists = [], tree_commands = PRef 15,
      objects = malformed_trees, yielded = []\<rparr>"

text \<open>
  \<^verbatim>\<open>list_make "L [1 2 3]  make "i 0  print get L :i\<close>, then a \<^verbatim>\<open>set\<close>, an \<^verbatim>\<open>insert\<close> and a
  \<^verbatim>\<open>remove\<close> whose index is the identifier \<^verbatim>\<open>i\<close>; at 10 \<^verbatim>\<open>make "j 2\<close>, at 11 a
  \<^verbatim>\<open>remove_value\<close> whose value is the identifier \<^verbatim>\<open>j\<close>, at 12 a \<^verbatim>\<open>set\<close> whose index is the
  string of a no-break space, the digit \<^verbatim>\<open>1\<close> and a space, at 13 a \<^verbatim>\<open>remove\<close> whose index is
  the number \<open>0\<close>, and at 14 an \<^verbatim>\<open>insert\<close> of the identifier \<^verbatim>\<open>j\<close> at the index \<open>0\<close>.
\<close>

definition index_tree :: store where
  "index_tree =
     [ODict [(KStr ''tokens'', PRef 1)],
      OList [PRef 2, PRef 4, PRef 10, PRef 5, PRef 7, PRef 8, PRef 9, PRef 11, PRef 12, PRef 13,
             PRef 14],
      ODict [(KStr ''name'', PStr ''list_make''), (KStr ''list_name'', PStr ''L''),
             (KStr ''list'', PRef 3)],
      OList [PFloat 1, PFloat 2, PFloat 3],
      ODict [(KStr ''name'', PStr ''make''), (KStr ''var_name'', PStr ''i''),
             (KStr ''value'', PFloat 0)],
      ODict [(KStr ''name'', PStr ''print''), (KStr ''value'', PRef 6)],
      ODict [(KStr ''name'', PStr ''list''), (KStr ''list_name'', PStr ''L''),
             (KStr ''function'', PStr ''get''), (KStr ''index'', PStr ''i'')],
      ODict [(KStr ''name'', PStr ''list''), (KStr ''list_name'', PStr ''L''),
             (KStr ''function'', PStr ''set''), (KStr ''index'', PStr ''i''),
             (KStr ''value'', PFloat 5)],
      ODict [(KStr ''name'', PStr ''list''), (KStr ''list_name'', PStr ''L''),
             (KStr ''function'', PStr ''insert''), (KStr ''index'', PStr ''i''),
             (KStr ''value'', PFloat 5)],
      ODict [(KStr ''name'', PStr ''list''), (KStr ''list_name'', PStr ''L''),
             (KStr ''function'', PStr ''remove''), (KStr ''index'', PStr ''i'')],
      ODict [(KStr ''name'', PStr ''make''), (KStr ''var_name'', PStr ''j''),
             (KStr ''value'', PFloat 2)],
      ODict [(KStr ''name'', PStr ''list''), (KStr ''list_name'', PStr ''L''),
             (KStr ''function'', PStr ''remove_value''), (KStr ''value'', PStr ''j'')],
      ODict [(KStr ''name'', PStr ''list''), (KStr ''list_name'', PStr ''L''),
             (KStr ''function'', PStr ''set''), (KStr ''index'', PStr [CHR 0xA0, CHR ''1'', CHR '' '']),
             (KStr ''value'', PFloat 5)],
      ODict [(KStr ''name'', PStr ''list''), (KStr ''list_name'', PStr ''L''),
             (KStr ''function'', PStr ''remove''), (KStr ''index'', PFloat 0)],
      ODict [(KStr ''name'', PStr ''list''), (KStr ''list_name'', PStr ''L''),
             (KStr ''function'', PStr ''insert''), (KStr ''index'', PFloat 0),
             (KStr ''value'', PStr ''j'')]]"

text \<open>The interpreter of \<open>index_tree\<close> once the list and the two variables are made.\<close>

definition index_state :: interpreter where
  "index_state =
     \<lparr>variables = [(KStr ''i'', PFloat 0), (KStr ''j'', PFloat 2)], fuctions = [],
      lists = [(KStr ''L'', PRef 3)],
      tree_commands = PRef 1, objects = index_tree, yielded = []\<rparr>"

text \<open>\<^verbatim>\<open>make "x 7  setpos :x 2  forward :x\<close>\<close>

definition setpos_tree :: store where
  "setpos_tree =
     [ODict [(KStr ''tokens'', PRef 1)],
      OList [PRef 2, PRef 3, PRef 4],
      ODict [(KStr ''name'', PStr ''make''), (KStr ''var_name'', PStr ''x''),
             (KStr ''value'', PFloat 7)],
      ODict [(KStr ''name'', PStr ''setpos''), (KStr ''x'', PStr ''x''), (KStr ''y'', PFloat 2)],
      ODict [(KStr ''name'', PStr ''forward''), (KStr ''value'', PStr ''x'')]]"

text \<open>The interpreter of \<open>setpos_tree\<close> once the variable is made.\<close>

definition setpos_state :: interpreter where
  "setpos_state =
     \<lparr>variables = [(KStr ''x'', PFloat 7)], fuctions = [], lists = [], tree_commands = PRef 1,
      objects = setpos_tree, yielded = []\<rparr>"


text \<open>The interpreter of \<open>roundtrip_tree\<close> at the end of the run; the list is \<^verbatim>\<open>[1, 2, 3]\<close> again.\<close>

definition roundtrip_end :: interpreter where
  "roundtrip_end =
     \<lparr>variables = [], fuctions = [], lists = [(KStr ''L'', PRef 3)], tree_commands = PRef 1,
      objects = roundtrip_tree,
      yielded = [New_command (PStr ''print'') (PFloat 2), New_command (PStr ''print'') (PFloat 9),
                 New_command (PStr ''print'') (PInt 3), New_command (PStr ''print'') (PBool False)]\<rparr>"

text \<open>
  The interpreters of the three trees of \<open>call_trees\<close> when the loop reaches the call: the
  first is new, the other two have registered their function (the last object of their store is
  the empty list that \<^verbatim>\<open>_handle_func_def\<close> creates as a placeholder).
\<close>

definition call_undefined :: interpreter where
  "call_undefined =
     \<lparr>variables = [], fuctions = [], lists = [], tree_commands = PRef 1,
      objects = call_trees, yielded = []\<rparr>"

definition call_arity :: interpreter where
  "call_arity =
     \<lparr>variables = [],
      fuctions = [(KStr ''f'', \<lparr>arguments = [(KStr ''a'', PStr [])], commands = PRef 8\<rparr>)],
      lists = [], tree_commands = PRef 5,
      objects = call_trees @ [OList []], yielded = []\<rparr>"

definition call_body :: interpreter where
  "call_body =
     \<lparr>variables = [],
      fuctions = [(KStr ''g'', \<lparr>arguments = [], commands = PRef 16\<rparr>)],
      lists = [], tree_commands = PRef 13,
      objects = call_trees @ [OList []], yielded = []\<rparr>"

text \<open>The store that a complete run over \<open>shared_tree\<close> leaves behind.\<close>

definition shared_tree_after :: store where
  "shared_tree_after =
     [ODict [(KStr ''tokens'', PRef 1)],
      OList [PRef 2, PRef 4, PRef 5],
      ODict [(KStr ''name'', PStr ''list_make''), (KStr ''list_name'', PStr ''L''),
             (KStr ''list'', PRef 3)],
      OList [PFloat 9, PFloat 1, PFloat 2, PFloat 3],
      ODict [(KStr ''name'', PStr ''list''), (KStr ''list_name'', PStr ''L''),
             (KStr ''function'', PStr ''insert''), (KStr ''index'', PFloat 0),
             (KStr ''value'', PFloat 9)],
      ODict [(KStr ''name'', PStr ''print''), (KStr ''value'', PRef 6)],
      ODict [(KStr ''name'', PStr ''list''), (KStr ''list_name'', PStr ''L''),
             (KStr ''function'', PStr ''len'')]]"


section \<open>Properties\<close>

subsection \<open>The bound on the recursion\<close>

lemma extendsI:
  "(\<And>st r st'. m st = (r, st') \<Longrightarrow> r \<noteq> Timeout \<Longrightarrow> m' st = (r, st')) \<Longrightarrow> extends m m'"
  by (simp add: extends_def)

lemma extendsD: "extends m m' \<Longrightarrow> m st = (r, st') \<Longrightarrow> r \<noteq> Timeout \<Longrightarrow> m' st = (r, st')"
  by (simp add: extends_def)

lemma extends_refl: "extends m m"
  by (simp add: extends_def)

lemma extends_trans: "extends a b \<Longrightarrow> extends b c \<Longrightarrow> extends a c"
  by (simp add: extends_def)

lemma extends_bind:
  assumes m: "extends m m'" and f: "\<And>x. extends (f x) (f' x)"
  shows "extends (bind m f) (bind m' f')"
proof (rule extendsI)
  fix st r st'
  assume b: "bind m f st = (r, st')" and r: "r \<noteq> Timeout"
  obtain r1 s1 where ms: "m st = (r1, s1)" by (cases "m st")
  show "bind m' f' st = (r, st')"
  proof (cases r1)
    case (Ok x)
    with b ms have fx: "f x s1 = (r, st')" by (simp add: bind_def)
    from extendsD[OF m ms] Ok have "m' st = (Ok x, s1)" by simp
    moreover from extendsD[OF f fx r] have "f' x s1 = (r, st')" .
    ultimately show ?thesis by (simp add: bind_def)
  next
    case (Raise e)
    with b ms have "r = Raise e" "st' = s1" by (simp_all add: bind_def)
    moreover from extendsD[OF m ms] Raise have "m' st = (Raise e, s1)" by simp
    ultimately show ?thesis by (simp add: bind_def)
  next
    case Timeout
    with b ms r show ?thesis by (simp add: bind_def)
  qed
qed

lemma extends_try_KeyError:
  assumes "extends m m'"
  shows "extends (try_KeyError e m) (try_KeyError e m')"
proof (rule extendsI)
  fix st r st'
  assume b: "try_KeyError e m st = (r, st')" and r: "r \<noteq> Timeout"
  obtain r1 s1 where ms: "m st = (r1, s1)" by (cases "m st")
  with b r have "r1 \<noteq> Timeout"
    by (auto simp: try_KeyError_def except_KeyError_def)
  from extendsD[OF assms ms this] b ms show "try_KeyError e m' st = (r, st')"
    by (simp add: try_KeyError_def)
qed

lemma extends_try_Exception:
  assumes "extends m m'"
  shows "extends (try_Exception f m) (try_Exception f m')"
proof (rule extendsI)
  fix st r st'
  assume b: "try_Exception f m st = (r, st')" and r: "r \<noteq> Timeout"
  obtain r1 s1 where ms: "m st = (r1, s1)" by (cases "m st")
  with b r have "r1 \<noteq> Timeout"
    by (auto simp: try_Exception_def split: outcome.splits)
  from extendsD[OF assms ms this] b ms show "try_Exception f m' st = (r, st')"
    by (simp add: try_Exception_def)
qed

lemma extends_if:
  "(c \<Longrightarrow> extends a a') \<Longrightarrow> (\<not> c \<Longrightarrow> extends b b') \<Longrightarrow>
   extends (if c then a else b) (if c then a' else b')"
  by simp

lemma extends_timeout: "extends (\<lambda>st. (Timeout, st)) m"
  by (simp add: extends_def)

lemmas extends_intros =
  extends_bind extends_try_KeyError extends_try_Exception extends_if extends_refl

lemma all_loop_extends:
  assumes ev: "\<And>v. extends (ev v) (ev' v)"
  shows "k \<le> k' \<Longrightarrow> extends (all_loop ev k v i) (all_loop ev' k' v i)"
proof (induction k arbitrary: k' i)
  case 0
  show ?case by (simp add: extends_timeout)
next
  case (Suc k)
  then obtain j where k': "k' = Suc j" and kj: "k \<le> j" by (cases k') auto
  have rec: "extends (all_loop ev k v (Suc i)) (all_loop ev' j v (Suc i))"
    using Suc.IH[OF kj] .
  show ?case
  proof (rule extendsI)
    fix st r st'
    assume b: "all_loop ev (Suc k) v i st = (r, st')" and r: "r \<noteq> Timeout"
    show "all_loop ev' k' v i st = (r, st')"
    proof (cases "iter_next (objects st) v i")
      case (Item expr)
      have "extends
          (bind (ev expr) (\<lambda>x st'. if truthy (objects st') x then all_loop ev k v (Suc i) st'
                  else (Ok (PBool False), st')))
          (bind (ev' expr) (\<lambda>x st'. if truthy (objects st') x then all_loop ev' j v (Suc i) st'
                  else (Ok (PBool False), st')))"
        using rec by (intro extends_bind ev) (auto simp: extends_def)
      from extendsD[OF this _ r] b Item show ?thesis by (simp add: k')
    next
      case Stop
      with b show ?thesis by (simp add: k')
    next
      case (Fail e)
      with b show ?thesis by (simp add: k')
    qed
  qed
qed

lemma any_loop_extends:
  assumes ev: "\<And>v. extends (ev v) (ev' v)"
  shows "k \<le> k' \<Longrightarrow> extends (any_loop ev k v i) (any_loop ev' k' v i)"
proof (induction k arbitrary: k' i)
  case 0
  show ?case by (simp add: extends_timeout)
next
  case (Suc k)
  then obtain j where k': "k' = Suc j" and kj: "k \<le> j" by (cases k') auto
  have rec: "extends (any_loop ev k v (Suc i)) (any_loop ev' j v (Suc i))"
    using Suc.IH[OF kj] .
  show ?case
  proof (rule extendsI)
    fix st r st'
    assume b: "any_loop ev (Suc k) v i st = (r, st')" and r: "r \<noteq> Timeout"
    show "any_loop ev' k' v i st = (r, st')"
    proof (cases "iter_next (objects st) v i")
      case (Item expr)
      have "extends
          (bind (ev expr) (\<lambda>x st'. if truthy (objects st') x then (Ok (PBool True), st')
                  else any_loop ev k v (Suc i) st'))
          (bind (ev' expr) (\<lambda>x st'. if truthy (objects st') x then (Ok (PBool True), st')
                  else any_loop ev' j v (Suc i) st'))"
        using rec by (intro extends_bind ev) (auto simp: extends_def)
      from extendsD[OF this _ r] b Item show ?thesis by (simp add: k')
    next
      case Stop
      with b show ?thesis by (simp add: k')
    next
      case (Fail e)
      with b show ?thesis by (simp add: k')
    qed
  qed
qed

lemma for_commands_extends:
  assumes body: "\<And>c. extends (body c) (body' c)"
  shows "k \<le> k' \<Longrightarrow> extends (for_commands body k cmds i) (for_commands body' k' cmds i)"
proof (induction k arbitrary: k' i)
  case 0
  show ?case by (simp add: extends_timeout)
next
  case (Suc k)
  then obtain j where k': "k' = Suc j" and kj: "k \<le> j" by (cases k') auto
  have rec: "extends (for_commands body k cmds (Suc i)) (for_commands body' j cmds (Suc i))"
    using Suc.IH[OF kj] .
  show ?case
  proof (rule extendsI)
    fix st r st'
    assume b: "for_commands body (Suc k) cmds i st = (r, st')" and r: "r \<noteq> Timeout"
    show "for_commands body' k' cmds i st = (r, st')"
    proof (cases "iter_next (objects st) cmds i")
      case (Item c)
      have "extends (bind (body c) (\<lambda>_. for_commands body k cmds (Suc i)))
                    (bind (body' c) (\<lambda>_. for_commands body' j cmds (Suc i)))"
        using rec by (intro extends_bind body)
      from extendsD[OF this _ r] b Item show ?thesis by (simp add: k')
    next
      case Stop
      with b show ?thesis by (simp add: k')
    next
      case (Fail e)
      with b show ?thesis by (simp add: k')
    qed
  qed
qed

lemma list_function_extends:
  assumes ev: "\<And>v. extends (ev v) (ev' v)"
  shows "extends (list_function ev c xs f) (list_function ev' c xs f)"
  unfolding list_function_def
  by (intro extends_intros ev)

lemma handle_list_extends:
  assumes ev: "\<And>v. extends (ev v) (ev' v)"
  shows "extends (handle_list ev c) (handle_list ev' c)"
  unfolding handle_list_def
  by (intro extends_intros list_function_extends ev)

lemma binary_extends:
  assumes ev: "\<And>v. extends (ev v) (ev' v)"
  shows "extends (binary ev v f) (binary ev' v f)"
  unfolding binary_def
  by (intro extends_intros ev)

lemma evaluate_op_extends:
  assumes ev: "\<And>v. extends (ev v) (ev' v)" and k: "k \<le> k'"
  shows "extends (evaluate_op ev k v) (evaluate_op ev' k' v)"
  unfolding evaluate_op_def
  by (intro extends_intros binary_extends all_loop_extends any_loop_extends ev k)

lemma evaluate_Suc: "extends (evaluate n v) (evaluate (Suc n) v)"
proof (induction n arbitrary: v)
  case 0
  show ?case by (simp add: extends_timeout)
next
  case (Suc n)
  have hl: "extends (handle_list (evaluate n) v) (handle_list (evaluate (Suc n)) v)"
    by (rule handle_list_extends) (rule Suc.IH)
  have op: "extends (evaluate_op (evaluate n) n v) (evaluate_op (evaluate (Suc n)) (Suc n) v)"
    by (rule evaluate_op_extends) (rule Suc.IH, simp)
  show ?case
  proof (rule extendsI)
    fix st r st'
    assume b: "evaluate (Suc n) v st = (r, st')" and r: "r \<noteq> Timeout"
    show "evaluate (Suc (Suc n)) v st = (r, st')"
    proof (cases v)
      case (PRef a)
      show ?thesis
      proof (cases "deref (objects st) a")
        case None
        with b PRef show ?thesis by simp
      next
        case (Some ob)
        show ?thesis
        proof (cases ob)
          case (OList l)
          with b PRef Some show ?thesis by simp
        next
          case (ODict d)
          show ?thesis
          proof (cases "is_list_query d")
            case True
            with b PRef Some ODict have "handle_list (evaluate n) v st = (r, st')" by simp
            from extendsD[OF hl this r] True PRef Some ODict show ?thesis by simp
          next
            case False
            with b PRef Some ODict have "evaluate_op (evaluate n) n v st = (r, st')" by simp
            from extendsD[OF op this r] False PRef Some ODict show ?thesis by simp
          qed
        qed
      qed
    qed (use b in simp_all)
  qed
qed

lemma evaluate_mono: "n \<le> m \<Longrightarrow> extends (evaluate n v) (evaluate m v)"
proof (induction m)
  case 0
  then show ?case by (simp add: extends_refl)
next
  case (Suc m)
  show ?case
  proof (cases "n = Suc m")
    case True
    then show ?thesis by (simp add: extends_refl)
  next
    case False
    with Suc have "extends (evaluate n v) (evaluate m v)" by simp
    then show ?thesis using evaluate_Suc by (rule extends_trans)
  qed
qed


lemma bind_arguments_extends:
  assumes ev: "\<And>v. extends (ev v) (ev' v)"
  shows "extends (bind_arguments ev f args keys i) (bind_arguments ev' f args keys i)"
proof (induction keys arbitrary: i)
  case Nil
  show ?case by (simp add: extends_refl)
next
  case (Cons k keys)
  show ?case
    unfolding bind_arguments.simps
    by (intro extends_intros ev Cons.IH)
qed

lemma evaluate_items_extends:
  assumes ev: "\<And>v. extends (ev v) (ev' v)"
  shows "extends (evaluate_items ev v i k) (evaluate_items ev' v i k)"
proof (induction k arbitrary: i)
  case 0
  show ?case by (simp add: extends_refl)
next
  case (Suc k)
  show ?case
    unfolding evaluate_items.simps
    by (intro extends_intros ev Suc.IH)
qed

lemma repeat_loop_extends:
  assumes interp: "\<And>c. extends (interp c) (interp' c)"
  shows "extends (repeat_loop interp command k) (repeat_loop interp' command k)"
proof (induction k)
  case 0
  show ?case by (simp add: extends_refl)
next
  case (Suc k)
  show ?case
    unfolding repeat_loop.simps
    by (intro extends_intros interp Suc.IH)
qed

lemma handle_func_call_extends:
  assumes ev: "\<And>v. extends (ev v) (ev' v)" and interp: "\<And>c. extends (interp c) (interp' c)"
  shows "extends (handle_func_call ev interp c) (handle_func_call ev' interp' c)"
  unfolding handle_func_call_def
  by (intro extends_intros bind_arguments_extends ev interp)

lemma handle_make_extends:
  assumes ev: "\<And>v. extends (ev v) (ev' v)"
  shows "extends (handle_make ev c) (handle_make ev' c)"
  unfolding handle_make_def
  by (intro extends_intros ev)

lemma handle_list_make_extends:
  assumes ev: "\<And>v. extends (ev v) (ev' v)"
  shows "extends (handle_list_make ev c) (handle_list_make ev' c)"
  unfolding handle_list_make_def
  by (intro extends_intros evaluate_items_extends ev)

lemma handle_repeat_extends:
  assumes ev: "\<And>v. extends (ev v) (ev' v)" and interp: "\<And>c. extends (interp c) (interp' c)"
  shows "extends (handle_repeat ev interp c) (handle_repeat ev' interp' c)"
  unfolding handle_repeat_def
  by (intro extends_intros repeat_loop_extends ev interp)

lemma handle_if_extends:
  assumes ev: "\<And>v. extends (ev v) (ev' v)" and interp: "\<And>c. extends (interp c) (interp' c)"
  shows "extends (handle_if ev interp c) (handle_if ev' interp' c)"
proof -
  have br: "extends (bind (field c k) interp) (bind (field c k) interp')" for k
    by (intro extends_intros interp)
  have "extends
      (\<lambda>st. if truthy (objects st) x then bind (field c ''commands'') interp st
             else bind (field c ''else_commands'') interp st)
      (\<lambda>st. if truthy (objects st) x then bind (field c ''commands'') interp' st
             else bind (field c ''else_commands'') interp' st)" for x
    using br[of "''commands''"] br[of "''else_commands''"] by (auto simp: extends_def)
  then show ?thesis
    unfolding handle_if_def
    by (intro extends_intros ev)
qed

lemma handle_movement_extends:
  assumes ev: "\<And>v. extends (ev v) (ev' v)"
  shows "extends (handle_movement ev c) (handle_movement ev' c)"
  unfolding handle_movement_def
  by (intro extends_intros ev)

lemma handle_setpensize_extends:
  assumes ev: "\<And>v. extends (ev v) (ev' v)"
  shows "extends (handle_setpensize ev c) (handle_setpensize ev' c)"
  unfolding handle_setpensize_def
  by (intro extends_intros ev)

lemma handle_print_extends:
  assumes ev: "\<And>v. extends (ev v) (ev' v)"
  shows "extends (handle_print ev c) (handle_print ev' c)"
  unfolding handle_print_def
  by (intro extends_intros ev)

lemma handle_setpos_extends:
  assumes ev: "\<And>v. extends (ev v) (ev' v)"
  shows "extends (handle_setpos ev c) (handle_setpos ev' c)"
  unfolding handle_setpos_def
  by (intro extends_intros ev)

lemma interpret_one_extends:
  assumes ev: "\<And>v. extends (ev v) (ev' v)" and interp: "\<And>c. extends (interp c) (interp' c)"
  shows "extends (interpret_one ev interp c) (interpret_one ev' interp' c)"
  unfolding interpret_one_def
  by (intro extends_intros handle_func_call_extends handle_make_extends handle_list_make_extends
      handle_list_extends handle_repeat_extends handle_if_extends handle_movement_extends
      handle_setpensize_extends handle_print_extends handle_setpos_extends ev interp)

lemma interpret_commands_Suc:
  "extends (interpret_commands n cmds) (interpret_commands (Suc n) cmds)"
proof (induction n arbitrary: cmds)
  case 0
  show ?case by (simp add: extends_timeout)
next
  case (Suc n)
  have "extends
      (try_KeyError InterpreterInvalidTreeError
        (for_commands (interpret_one (evaluate n) (interpret_commands n)) (Suc n) cmds 0))
      (try_KeyError InterpreterInvalidTreeError
        (for_commands (interpret_one (evaluate (Suc n)) (interpret_commands (Suc n)))
          (Suc (Suc n)) cmds 0))"
    by (intro extends_try_KeyError for_commands_extends interpret_one_extends evaluate_Suc Suc.IH)
       simp
  then show ?case by simp
qed

text \<open>
  A result reached with some fuel is the result with any more fuel: \<open>Timeout\<close> is the only
  outcome that depends on the bound.
\<close>

lemma interpret_commands_mono:
  "n \<le> m \<Longrightarrow> extends (interpret_commands n cmds) (interpret_commands m cmds)"
proof (induction m)
  case 0
  then show ?case by (simp add: extends_refl)
next
  case (Suc m)
  show ?case
  proof (cases "n = Suc m")
    case True
    then show ?thesis by (simp add: extends_refl)
  next
    case False
    with Suc have "extends (interpret_commands n cmds) (interpret_commands m cmds)" by simp
    then show ?thesis using interpret_commands_Suc by (rule extends_trans)
  qed
qed

lemma run_mono:
  assumes "run n h tree = (r, st)" and "r \<noteq> Timeout" and "n \<le> m"
  shows "run m h tree = (r, st)"
proof (cases "Interpreter h tree")
  case (Ok s)
  obtain r1 s1 where i: "interpret_commands n (tree_commands s) s = (r1, s1)"
    by (cases "interpret_commands n (tree_commands s) s")
  with assms(1) Ok have e: "r = r1" "st = Some s1"
    by (simp_all add: run_def iter_def)
  with assms(2) i interpret_commands_mono[OF assms(3), of "tree_commands s"]
  have "interpret_commands m (tree_commands s) s = (r1, s1)"
    by (simp add: extends_def)
  with Ok e show ?thesis by (simp add: run_def iter_def)
next
  case (Raise e)
  with assms(1) show ?thesis by (simp add: run_def)
next
  case Timeout
  with assms(1) show ?thesis by (simp add: run_def)
qed


subsection \<open>Reading the fields of a node\<close>

lemma py_eq_PStr: "py_eq v (PStr s) = (v = PStr s)"
  by (cases v) (simp_all add: py_eq_def)

lemma py_int_not_KeyError: "py_int v \<noteq> Raise (PyExc KeyError)"
  by (cases v) (simp_all split: option.splits)

lemma field_dict:
  "deref (objects st) a = Some (ODict d) \<Longrightarrow>
   field (PRef a) k st =
     ((case map_of d (KStr k) of None \<Rightarrow> Raise (PyExc KeyError) | Some x \<Rightarrow> Ok x), st)"
  by (simp add: field_def subscript_def)

lemma field_node:
  "deref (objects st) a = Some (ODict d) \<Longrightarrow> map_of d (KStr k) = Some x \<Longrightarrow>
   field (PRef a) k st = (Ok x, st)"
  by (simp add: field_dict)

lemma bind_field:
  "deref (objects st) a = Some (ODict d) \<Longrightarrow>
   bind (field (PRef a) k) g st =
     (case map_of d (KStr k) of None \<Rightarrow> (Raise (PyExc KeyError), st) | Some x \<Rightarrow> g x st)"
  by (simp add: bind_def field_dict split: option.splits)

lemma bind_lift:
  "bind (lift r) f st =
     (case r of Ok x \<Rightarrow> f x st | Raise e \<Rightarrow> (Raise e, st) | Timeout \<Rightarrow> (Timeout, st))"
  by (simp add: bind_def lift_def split: outcome.splits)

lemma bind_pure: "bind (pure x) f st = f x st"
  by (simp add: bind_def pure_def)

lemma setitem_node:
  "deref (objects st) a = Some (ODict d) \<Longrightarrow>
   setitem (PRef a) (PStr k) x st =
     (Ok (), st\<lparr>objects := (objects st)[a := ODict (AList.update (KStr k) x d)]\<rparr>)"
  by (simp add: setitem_def store_subscript_def)

lemma deref_update_same:
  "deref h a = Some ob \<Longrightarrow> deref (h[a := ob']) a = Some ob'"
  by (simp add: deref_def split: if_splits)

lemma list_ex_colors: "list_ex (\<lambda>c. py_eq color (PStr c)) colors = (color \<in> PStr ` set colors)"
  by (auto simp: py_eq_PStr list_ex_iff)

subsection \<open>Pen colours\<close>

text \<open>
  C7. A \<^verbatim>\<open>setpencolor\<close> command whose colour is not one of white, black, red, green, blue, cyan
  fails with \<^verbatim>\<open>InterpreterInvalidColorError\<close> carrying the colour and the palette, and the
  interpreter is left as it was; with a colour of the palette the command node itself is
  yielded, and nothing else of the interpreter or the store changes.
\<close>

theorem setpencolor_palette:
  assumes "deref (objects st) a = Some (ODict d)"
      and "map_of d (KStr ''name'') = Some (PStr ''setpencolor'')"
      and "map_of d (KStr ''color'') = Some color"
  shows "interpret_one ev interp (PRef a) st =
           (if color \<in> PStr ` {''white'', ''black'', ''red'', ''green'', ''blue'', ''cyan''}
            then (Ok (), st\<lparr>yielded := yielded st @ [Node (PRef a)]\<rparr>)
            else (Raise (InterpreterInvalidColorError color
                    [''white'', ''black'', ''red'', ''green'', ''blue'', ''cyan'']), st))"
proof -
  have f1: "field (PRef a) ''name'' st = (Ok (PStr ''setpencolor''), st)"
    using assms by (simp add: field_dict)
  have f2: "field (PRef a) ''color'' st = (Ok color, st)"
    using assms by (simp add: field_dict)
  have c: "set colors = {''white'', ''black'', ''red'', ''green'', ''blue'', ''cyan''}"
    by (simp add: colors_def)
  have "interpret_one ev interp (PRef a) st = handle_setpencolor (PRef a) st"
    by (simp add: interpret_one_def bind_def f1)
  also have "\<dots> = (if color \<in> PStr ` set colors
            then (Ok (), st\<lparr>yielded := yielded st @ [Node (PRef a)]\<rparr>)
            else (Raise (InterpreterInvalidColorError color colors), st))"
    by (simp add: handle_setpencolor_def bind_def f2 list_ex_colors yield_def raise_def)
  finally show ?thesis unfolding c by (simp add: colors_def)
qed

theorem setpencolor_palette_witness:
  "interpret_one (evaluate 1) (interpret_commands 1) (PRef 2) color_start =
     (Ok (), color_start\<lparr>yielded := [Node (PRef 2)]\<rparr>)
   \<and> interpret_one (evaluate 1) (interpret_commands 1) (PRef 3) color_start =
     (Raise (InterpreterInvalidColorError (PStr ''purple'')
        [''white'', ''black'', ''red'', ''green'', ''blue'', ''cyan'']), color_start)"
  using
    setpencolor_palette [of color_start 2
      "[(KStr ''name'', PStr ''setpencolor''), (KStr ''color'', PStr ''red'')]" "PStr ''red''"
      "evaluate 1" "interpret_commands 1"]
    setpencolor_palette [of color_start 3
      "[(KStr ''name'', PStr ''setpencolor''), (KStr ''color'', PStr ''purple'')]"
      "PStr ''purple''" "evaluate 1" "interpret_commands 1"]
  by (simp add: color_start_def color_tree_def deref_def)

subsection \<open>Repetition\<close>

lemma repeat_loop_successive:
  "repeat_loop interp command k = successive (bind (field command ''commands'') interp) k"
  by (induction k) (simp_all add: bind_def fun_eq_iff split: prod.splits outcome.splits)

text \<open>
  C5. Let the count of a \<^verbatim>\<open>repeat\<close> command evaluate to \<open>x\<close> and \<^verbatim>\<open>int(x)\<close> be \<open>n\<close>. Then
  interpreting the command is \<open>n\<close> successive interpretations of \<^verbatim>\<open>command["commands"]\<close>,
  each starting in the interpreter (tables, store and items yielded so far) that the one
  before it left, the first in the interpreter that the evaluation of the count left.
  A negative \<open>n\<close> gives no interpretation at all.
\<close>

theorem repeat_successive:
  assumes "deref (objects st) a = Some (ODict d)"
      and "map_of d (KStr ''name'') = Some (PStr ''repeat'')"
      and "map_of d (KStr ''value'') = Some v"
      and "ev v st = (Ok x, st1)"
      and "py_int x = Ok n"
  shows "interpret_one ev interp (PRef a) st =
           successive (bind (field (PRef a) ''commands'') interp) (nat n) st1"
proof -
  have f1: "field (PRef a) ''name'' st = (Ok (PStr ''repeat''), st)"
    using assms by (simp add: field_dict)
  have f2: "field (PRef a) ''value'' st = (Ok v, st)"
    using assms by (simp add: field_dict)
  have "interpret_one ev interp (PRef a) st = handle_repeat ev interp (PRef a) st"
    by (simp add: interpret_one_def bind_def f1)
  also have "\<dots> = repeat_loop interp (PRef a) (nat n) st1"
    using assms(4,5) by (simp add: handle_repeat_def bind_def f2 lift_def)
  finally show ?thesis by (simp add: repeat_loop_successive)
qed

text \<open>\<^verbatim>\<open>repeat 3 [forward 10]\<close> yields three times \<^verbatim>\<open>forward 10\<close>.\<close>

theorem repeat_successive_witness:
  "interpret_one (evaluate 2) (interpret_commands 2) (PRef 2) repeat_start =
     (Ok (), repeat_start\<lparr>yielded :=
        [New_command (PStr ''forward'') (PFloat 10),
         New_command (PStr ''forward'') (PFloat 10),
         New_command (PStr ''forward'') (PFloat 10)]\<rparr>)
   \<and> run 4 repeat_tree (PRef 0) =
     (Ok (), Some (repeat_start\<lparr>yielded :=
        [New_command (PStr ''forward'') (PFloat 10),
         New_command (PStr ''forward'') (PFloat 10),
         New_command (PStr ''forward'') (PFloat 10)]\<rparr>))"
proof -
  have node: "deref (objects repeat_start) 2 =
      Some (ODict [(KStr ''name'', PStr ''repeat''), (KStr ''value'', PFloat 3),
                   (KStr ''commands'', PRef 3)])"
    by code_simp
  have ev: "evaluate 2 (PFloat 3) repeat_start = (Ok (PFloat 3), repeat_start)"
    by code_simp
  have n: "py_int (PFloat 3) = Ok 3"
    by (simp add: trunc_def)
  have s: "successive (bind (field (PRef 2) ''commands'') (interpret_commands 2)) (nat 3)
             repeat_start =
      (Ok (), repeat_start\<lparr>yielded :=
        [New_command (PStr ''forward'') (PFloat 10),
         New_command (PStr ''forward'') (PFloat 10),
         New_command (PStr ''forward'') (PFloat 10)]\<rparr>)"
    by code_simp
  have r: "run 4 repeat_tree (PRef 0) =
     (Ok (), Some (repeat_start\<lparr>yielded :=
        [New_command (PStr ''forward'') (PFloat 10),
         New_command (PStr ''forward'') (PFloat 10),
         New_command (PStr ''forward'') (PFloat 10)]\<rparr>))"
    by code_simp
  from repeat_successive [where st = repeat_start and a = 2 and ev = "evaluate 2"
      and interp = "interpret_commands 2", OF node _ _ ev n] s r
  show ?thesis by simp
qed

subsection \<open>Lists\<close>

lemma handle_list_lookup:
  assumes node: "deref (objects st) a = Some (ODict d)"
      and fn: "map_of d (KStr ''function'') = Some fn"
  shows "handle_list ev (PRef a) st =
           (case map_of d (KStr ''list_name'') of
              None \<Rightarrow> (Raise InterpreterUnboundVariableListError, st)
            | Some nm \<Rightarrow>
                (case key_of nm of
                   None \<Rightarrow> (Raise (PyExc TypeError), st)
                 | Some k \<Rightarrow>
                     try_KeyError InterpreterUnboundVariableListError
                       (list_function ev (PRef a) (map_of (lists st) k) fn) st))"
  using node fn
  by (simp add: handle_list_def try_KeyError_def bind_def field_dict table_has_def table_get_def
      except_KeyError_def split: option.splits)

lemma list_query_empty:
  assumes "deref (objects st) a = Some (ODict d)"
      and "map_of d (KStr ''list_name'') = Some (PStr nm)"
      and "map_of d (KStr ''function'') = Some (PStr ''empty'')"
      and "map_of (lists st) (KStr nm) = Some (PRef p)"
      and "deref (objects st) p = Some (OList l)"
  shows "handle_list ev (PRef a) st = (Ok (PBool (l = [])), st)"
  using assms
  by (simp add: handle_list_lookup try_KeyError_def list_function_def bind_pure
      local_xs_def truthy_def except_KeyError_def)

lemma list_query_len:
  assumes "deref (objects st) a = Some (ODict d)"
      and "map_of d (KStr ''list_name'') = Some (PStr nm)"
      and "map_of d (KStr ''function'') = Some (PStr ''len'')"
      and "map_of (lists st) (KStr nm) = Some (PRef p)"
      and "deref (objects st) p = Some (OList l)"
  shows "handle_list ev (PRef a) st = (Ok (PInt (int (length l))), st)"
  using assms
  by (simp add: handle_list_lookup try_KeyError_def list_function_def bind_pure
      local_xs_def bind_def[of "len (PRef p)"] len_def py_len_def pure_def except_KeyError_def)

text \<open>
  C6. In the program \<^verbatim>\<open>list_make "L [1 2 3]  print get L 1  insert L 0 9  print get L 0
  remove_value L 9  print len L  print empty L\<close> the four queries evaluate to \<open>2\<close>, \<open>9\<close>, \<open>3\<close>
  and false. And for any list: \<^verbatim>\<open>empty\<close> evaluates to whether it has no elements, \<^verbatim>\<open>len\<close>
  to the number of its elements, so \<^verbatim>\<open>empty\<close> is true exactly when \<^verbatim>\<open>len\<close> is \<open>0\<close>.
\<close>

theorem list_round_trip:
  assumes "deref (objects st) a = Some (ODict da)"
      and "map_of da (KStr ''list_name'') = Some (PStr nm)"
      and "map_of da (KStr ''function'') = Some (PStr ''empty'')"
      and "deref (objects st) b = Some (ODict db)"
      and "map_of db (KStr ''list_name'') = Some (PStr nm)"
      and "map_of db (KStr ''function'') = Some (PStr ''len'')"
      and "map_of (lists st) (KStr nm) = Some (PRef p)"
      and "deref (objects st) p = Some (OList l)"
  shows "run 8 roundtrip_tree (PRef 0) = (Ok (), Some roundtrip_end)
       \<and> handle_list ev (PRef a) st = (Ok (PBool (l = [])), st)
       \<and> handle_list ev (PRef b) st = (Ok (PInt (int (length l))), st)
       \<and> ((fst (handle_list ev (PRef a) st) = Ok (PBool True))
            = (fst (handle_list ev (PRef b) st) = Ok (PInt 0)))"
proof -
  have r: "run 8 roundtrip_tree (PRef 0) = (Ok (), Some roundtrip_end)"
    by code_simp
  have e: "handle_list ev (PRef a) st = (Ok (PBool (l = [])), st)"
    using assms by (simp add: list_query_empty)
  have n: "handle_list ev (PRef b) st = (Ok (PInt (int (length l))), st)"
    using assms by (simp add: list_query_len)
  show ?thesis by (simp add: r e n)
qed

theorem list_round_trip_witness:
  "run 8 roundtrip_tree (PRef 0) = (Ok (), Some roundtrip_end)
   \<and> yielded roundtrip_end =
       [New_command (PStr ''print'') (PFloat 2), New_command (PStr ''print'') (PFloat 9),
        New_command (PStr ''print'') (PInt 3), New_command (PStr ''print'') (PBool False)]
   \<and> handle_list (evaluate 1) (PRef 13) roundtrip_end = (Ok (PBool False), roundtrip_end)
   \<and> handle_list (evaluate 1) (PRef 11) roundtrip_end = (Ok (PInt 3), roundtrip_end)"
proof -
  have a: "deref (objects roundtrip_end) 13 =
      Some (ODict [(KStr ''name'', PStr ''list''), (KStr ''list_name'', PStr ''L''),
             (KStr ''function'', PStr ''empty'')])"
    by code_simp
  have b: "deref (objects roundtrip_end) 11 =
      Some (ODict [(KStr ''name'', PStr ''list''), (KStr ''list_name'', PStr ''L''),
             (KStr ''function'', PStr ''len'')])"
    by code_simp
  have l: "map_of (lists roundtrip_end) (KStr ''L'') = Some (PRef 3)"
    by code_simp
  have p: "deref (objects roundtrip_end) 3 = Some (OList [PFloat 1, PFloat 2, PFloat 3])"
    by code_simp
  from list_round_trip [where st = roundtrip_end and ev = "evaluate 1", OF a _ _ b _ _ l p]
  show ?thesis by (simp add: roundtrip_end_def)
qed


subsection \<open>Function calls\<close>

lemma foldl_update_keys:
  "distinct (map fst al) \<Longrightarrow>
   distinct (map fst (foldl (\<lambda>al k. AList.update k v al) al ks))
   \<and> set (map fst (foldl (\<lambda>al k. AList.update k v al) al ks)) = set (map fst al) \<union> set ks"
  by (induction ks arbitrary: al) (auto simp: distinct_update dom_update)

lemma declared_names:
  "distinct (map fst (declared ks))" "set (map fst (declared ks)) = set ks"
  "length (declared ks) = card (set ks)"
proof -
  from foldl_update_keys[of "[]" "PStr []" ks]
  show d: "distinct (map fst (declared ks))" and s: "set (map fst (declared ks)) = set ks"
    by (simp_all add: declared_def)
  from distinct_card[OF d] s show "length (declared ks) = card (set ks)" by simp
qed

lemma set_argument_entry:
  assumes "key_of func_name = Some kf" and "map_of (fuctions st) kf = Some fd"
      and "key_of argument = Some k"
  shows "set_argument func_name argument x st =
           (Ok (), st\<lparr>fuctions := AList.update kf (fd\<lparr>arguments := AList.update k x (arguments fd)\<rparr>)
                                      (fuctions st)\<rparr>)"
  using assms
  by (simp add: set_argument_def bind_def get_fuctions_def table_get_def lift_def table_set_def
      set_fuctions_def)

lemma declare_arguments_entry:
  assumes "key_of func_name = Some kf" and "map_of (fuctions st) kf = Some fd"
      and "map key_of items = map Some ks"
  shows "declare_arguments func_name items st =
           (Ok (), st\<lparr>fuctions :=
                        AList.update kf
                          (fd\<lparr>arguments := foldl (\<lambda>al k. AList.update k (PStr []) al) (arguments fd) ks\<rparr>)
                          (fuctions st)\<rparr>)"
  using assms
proof (induction items arbitrary: st fd ks)
  case Nil
  then show ?case by (simp add: pure_def update_triv)
next
  case (Cons item items)
  from Cons.prems(3) obtain k ks' where ks: "ks = k # ks'" and k: "key_of item = Some k"
    and rest: "map key_of items = map Some ks'" by (cases ks) auto
  let ?fd = "fd\<lparr>arguments := AList.update k (PStr []) (arguments fd)\<rparr>"
  let ?st = "st\<lparr>fuctions := AList.update kf ?fd (fuctions st)\<rparr>"
  have s: "set_argument func_name item (PStr []) st = (Ok (), ?st)"
    using Cons.prems(1,2) k by (rule set_argument_entry)
  have m: "map_of (fuctions ?st) kf = Some ?fd" by (simp add: update_conv')
  from Cons.IH[OF Cons.prems(1) m rest] s ks show ?case
    by (simp add: bind_def)
qed

lemma handle_func_def_entry:
  assumes node: "deref (objects st) b = Some (ODict db)"
      and fn: "map_of db (KStr ''func_name'') = Some (PStr f)"
      and ar: "map_of db (KStr ''arguments'') = Some (PRef q)"
      and items: "deref (objects st) q = Some (OList items)"
      and ks: "map key_of items = map Some ks"
      and cm: "map_of db (KStr ''commands'') = Some cmds"
  shows "handle_func_def (PRef b) st =
           (Ok (), st\<lparr>objects := objects st @ [OList []],
                      fuctions := AList.update (KStr f) \<lparr>arguments = declared ks, commands = cmds\<rparr>
                                    (fuctions st)\<rparr>)"
proof -
  note bf = bind_field[OF node]
  let ?e = "\<lparr>arguments = [], commands = PRef (length (objects st))\<rparr>"
  let ?s2 = "st\<lparr>objects := objects st @ [OList []],
                fuctions := AList.update (KStr f) ?e (fuctions st)\<rparr>"
  have it: "iter_items (objects ?s2) (PRef q) = Ok items"
    using items by (auto simp: iter_items_def deref_def nth_append split: if_splits)
  have m: "map_of (fuctions ?s2) (KStr f) = Some ?e" by (simp add: update_conv')
  have d: "declare_arguments (PStr f) items ?s2 =
             (Ok (), ?s2\<lparr>fuctions := AList.update (KStr f) (?e\<lparr>arguments := declared ks\<rparr>)
                                         (fuctions ?s2)\<rparr>)"
    using declare_arguments_entry[OF _ m ks, of "PStr f"] by (simp add: declared_def)
  show ?thesis
    using fn ar cm it d
    by (simp add: handle_func_def_def bf bind_def[of new_list] new_list_def alloc_def
        bind_def[of "set_fuctions _ _"] set_fuctions_def table_set_def
        bind_def[of "\<lambda>st. (iter_items (objects st) _, st)"]
        bind_def[of "declare_arguments _ _"] bind_def[of "get_fuctions _"] get_fuctions_def
        table_get_def update_conv')
qed


lemma deref_append: "deref h a = Some ob \<Longrightarrow> deref (h @ ex) a = Some ob"
  by (auto simp: deref_def nth_append split: if_splits)

lemma py_len_append: "py_len h v = Ok m \<Longrightarrow> py_len (h @ ex) v = Ok m"
  by (cases v) (auto simp: py_len_def deref_def nth_append split: if_splits option.splits obj.splits)

text \<open>
  C3. For a \<^verbatim>\<open>func_call\<close> command with a function name \<open>f\<close> and arguments: if \<open>f\<close> is not in the
  function table, the call fails with \<^verbatim>\<open>InterpreterUndefinedFunctionError\<close> carrying \<open>f\<close>; if
  it is, and the number of arguments supplied is not the size of the argument table of its
  entry, the call fails with \<^verbatim>\<open>InterpreterInvalidFunctionArgumentsError\<close> carrying \<open>f\<close>, that
  size and the number supplied, in both cases leaving the interpreter as it was; and if the
  numbers agree, the arguments are bound, and interpreting the body then raises \<open>e\<close>, the call
  fails with \<^verbatim>\<open>InterpreterFunctionExecutionError\<close> carrying \<open>f\<close> and \<open>e\<close>. The argument table
  is the one that \<^verbatim>\<open>func_def\<close> has registered: a \<^verbatim>\<open>func_def\<close> command for \<open>f\<close> whose parameter
  names are \<open>ks\<close> registers the table \<open>declared ks\<close>, with one entry for each distinct name. So
  the number expected is the number of distinct names declared: the definition followed by a
  call with \<open>m\<close> arguments, \<open>m\<close> not that number, fails with
  \<^verbatim>\<open>InterpreterInvalidFunctionArgumentsError\<close> carrying \<open>f\<close>, the number of distinct names and \<open>m\<close>.
\<close>

theorem func_call_errors:
  assumes node: "deref (objects st) a = Some (ODict d)"
      and nm: "map_of d (KStr ''name'') = Some (PStr ''func_call'')"
      and fn: "map_of d (KStr ''func_name'') = Some (PStr f)"
      and ar: "map_of d (KStr ''arguments'') = Some args"
  shows "(map_of (fuctions st) (KStr f) = None \<longrightarrow>
            interpret_one ev interp (PRef a) st =
              (Raise (InterpreterUndefinedFunctionError (PStr f)), st))
       \<and> (\<forall>fd m. map_of (fuctions st) (KStr f) = Some fd \<and> py_len (objects st) args = Ok m
                  \<and> length (arguments fd) \<noteq> m \<longrightarrow>
            interpret_one ev interp (PRef a) st =
              (Raise (InterpreterInvalidFunctionArgumentsError (PStr f) (length (arguments fd)) m),
               st))
       \<and> (\<forall>fd fd' st1 st2 e.
              map_of (fuctions st) (KStr f) = Some fd
            \<and> py_len (objects st) args = Ok (length (arguments fd))
            \<and> bind_arguments ev (PStr f) args (map fst (arguments fd)) 0 st = (Ok (), st1)
            \<and> map_of (fuctions st1) (KStr f) = Some fd'
            \<and> interp (commands fd') st1 = (Raise e, st2) \<longrightarrow>
            interpret_one ev interp (PRef a) st =
              (Raise (InterpreterFunctionExecutionError (PStr f) e), st2))
       \<and> (\<forall>b db q items ks cmds.
              deref (objects st) b = Some (ODict db)
            \<and> map_of db (KStr ''name'') = Some (PStr ''func_def'')
            \<and> map_of db (KStr ''func_name'') = Some (PStr f)
            \<and> map_of db (KStr ''arguments'') = Some (PRef q)
            \<and> deref (objects st) q = Some (OList items)
            \<and> map key_of items = map Some ks
            \<and> map_of db (KStr ''commands'') = Some cmds \<longrightarrow>
            interpret_one ev interp (PRef b) st =
              (Ok (), st\<lparr>objects := objects st @ [OList []],
                         fuctions := AList.update (KStr f)
                                       \<lparr>arguments = declared ks, commands = cmds\<rparr> (fuctions st)\<rparr>)
            \<and> length (declared ks) = card (set ks)
            \<and> (\<forall>m. py_len (objects st) args = Ok m \<and> card (set ks) \<noteq> m \<longrightarrow>
                 bind (interpret_one ev interp (PRef b)) (\<lambda>_. interpret_one ev interp (PRef a)) st =
                   (Raise (InterpreterInvalidFunctionArgumentsError (PStr f) (card (set ks)) m),
                    st\<lparr>objects := objects st @ [OList []],
                       fuctions := AList.update (KStr f)
                                     \<lparr>arguments = declared ks, commands = cmds\<rparr> (fuctions st)\<rparr>)))"
proof -
  have call: "(map_of (fuctions s) (KStr f) = None \<longrightarrow>
            interpret_one ev interp (PRef a) s =
              (Raise (InterpreterUndefinedFunctionError (PStr f)), s))
       \<and> (\<forall>fd m. map_of (fuctions s) (KStr f) = Some fd \<and> py_len (objects s) args = Ok m
                  \<and> length (arguments fd) \<noteq> m \<longrightarrow>
            interpret_one ev interp (PRef a) s =
              (Raise (InterpreterInvalidFunctionArgumentsError (PStr f) (length (arguments fd)) m),
               s))
       \<and> (\<forall>fd fd' st1 st2 e.
              map_of (fuctions s) (KStr f) = Some fd
            \<and> py_len (objects s) args = Ok (length (arguments fd))
            \<and> bind_arguments ev (PStr f) args (map fst (arguments fd)) 0 s = (Ok (), st1)
            \<and> map_of (fuctions st1) (KStr f) = Some fd'
            \<and> interp (commands fd') st1 = (Raise e, st2) \<longrightarrow>
            interpret_one ev interp (PRef a) s =
              (Raise (InterpreterFunctionExecutionError (PStr f) e), st2))"
    if node': "deref (objects s) a = Some (ODict d)" for s
  proof -
    have step: "interpret_one ev interp (PRef a) s = handle_func_call ev interp (PRef a) s"
      using node' nm by (simp add: interpret_one_def bind_def field_node)
    have f1: "field (PRef a) ''func_name'' s = (Ok (PStr f), s)"
      using node' fn by (rule field_node)
    have f2: "field (PRef a) ''arguments'' s = (Ok args, s)"
      using node' ar by (rule field_node)
    show ?thesis
      unfolding step
      by (auto simp: handle_func_call_def bind_def f1 f2 try_KeyError_def get_fuctions_def
          table_get_def except_KeyError_def len_def raise_def try_Exception_def)
  qed
  have defn: "interpret_one ev interp (PRef b) st =
              (Ok (), st\<lparr>objects := objects st @ [OList []],
                         fuctions := AList.update (KStr f)
                                       \<lparr>arguments = declared ks, commands = cmds\<rparr> (fuctions st)\<rparr>)
            \<and> length (declared ks) = card (set ks)
            \<and> (\<forall>m. py_len (objects st) args = Ok m \<and> card (set ks) \<noteq> m \<longrightarrow>
                 bind (interpret_one ev interp (PRef b)) (\<lambda>_. interpret_one ev interp (PRef a)) st =
                   (Raise (InterpreterInvalidFunctionArgumentsError (PStr f) (card (set ks)) m),
                    st\<lparr>objects := objects st @ [OList []],
                       fuctions := AList.update (KStr f)
                                     \<lparr>arguments = declared ks, commands = cmds\<rparr> (fuctions st)\<rparr>))"
    if h: "deref (objects st) b = Some (ODict db)
            \<and> map_of db (KStr ''name'') = Some (PStr ''func_def'')
            \<and> map_of db (KStr ''func_name'') = Some (PStr f)
            \<and> map_of db (KStr ''arguments'') = Some (PRef q)
            \<and> deref (objects st) q = Some (OList items)
            \<and> map key_of items = map Some ks
            \<and> map_of db (KStr ''commands'') = Some cmds"
    for b db q items ks cmds
  proof -
    let ?s1 = "st\<lparr>objects := objects st @ [OList []],
                  fuctions := AList.update (KStr f)
                                \<lparr>arguments = declared ks, commands = cmds\<rparr> (fuctions st)\<rparr>"
    from h have "interpret_one ev interp (PRef b) st = handle_func_def (PRef b) st"
      by (simp add: interpret_one_def bind_def field_node)
    with h have d: "interpret_one ev interp (PRef b) st = (Ok (), ?s1)"
      by (simp add: handle_func_def_entry)
    have n: "length (declared ks) = card (set ks)" by (rule declared_names)
    have c: "bind (interpret_one ev interp (PRef b)) (\<lambda>_. interpret_one ev interp (PRef a)) st =
               (Raise (InterpreterInvalidFunctionArgumentsError (PStr f) (card (set ks)) m), ?s1)"
      if m: "py_len (objects st) args = Ok m \<and> card (set ks) \<noteq> m" for m
    proof -
      have node1: "deref (objects ?s1) a = Some (ODict d)"
        using node by (simp add: deref_append)
      have e: "map_of (fuctions ?s1) (KStr f) = Some \<lparr>arguments = declared ks, commands = cmds\<rparr>"
        by (simp add: update_conv')
      have l: "py_len (objects ?s1) args = Ok m"
        using m by (simp add: py_len_append)
      from call[OF node1, THEN conjunct2, THEN conjunct1, rule_format, of _ m] e l m n
      have "interpret_one ev interp (PRef a) ?s1 =
              (Raise (InterpreterInvalidFunctionArgumentsError (PStr f) (card (set ks)) m), ?s1)"
        by simp
      with d show ?thesis by (simp add: bind_def)
    qed
    from d n c show ?thesis by blast
  qed
  from call[OF node] defn show ?thesis by blast
qed

text \<open>
  The three failures on the trees of \<open>call_trees\<close>: \<^verbatim>\<open>f\<close> undefined; \<^verbatim>\<open>f\<close> defined with one
  parameter and called with two arguments; \<^verbatim>\<open>g\<close> whose body sets the pen colour purple. And
  on \<open>duplicate_trees\<close>: the definition \<^verbatim>\<open>to f :a :a\<close> registers one parameter, and the call
  \<^verbatim>\<open>f 1 2\<close> after it fails with the numbers 1 and 2.
\<close>

theorem func_call_errors_witness:
  "interpret_one (evaluate 2) (interpret_commands 2) (PRef 2) call_undefined =
     (Raise (InterpreterUndefinedFunctionError (PStr ''f'')), call_undefined)
   \<and> interpret_one (evaluate 2) (interpret_commands 2) (PRef 10) call_arity =
     (Raise (InterpreterInvalidFunctionArgumentsError (PStr ''f'') 1 2), call_arity)
   \<and> interpret_one (evaluate 2) (interpret_commands 2) (PRef 18) call_body =
     (Raise (InterpreterFunctionExecutionError (PStr ''g'')
        (InterpreterInvalidColorError (PStr ''purple'')
           [''white'', ''black'', ''red'', ''green'', ''blue'', ''cyan''])), call_body)
   \<and> run 4 call_trees (PRef 0) =
     (Raise (InterpreterUndefinedFunctionError (PStr ''f'')), Some call_undefined)
   \<and> run 4 call_trees (PRef 4) =
     (Raise (InterpreterInvalidFunctionArgumentsError (PStr ''f'') 1 2), Some call_arity)
   \<and> run 4 call_trees (PRef 12) =
     (Raise (InterpreterFunctionExecutionError (PStr ''g'')
        (InterpreterInvalidColorError (PStr ''purple'')
           [''white'', ''black'', ''red'', ''green'', ''blue'', ''cyan''])), Some call_body)
   \<and> interpret_one (evaluate 2) (interpret_commands 2) (PRef 2) duplicate_start =
     (Ok (), duplicate_start
        \<lparr>objects := duplicate_trees @ [OList []],
         fuctions := [(KStr ''f'', \<lparr>arguments = [(KStr ''a'', PStr [])], commands = PRef 4\<rparr>)]\<rparr>)
   \<and> bind (interpret_one (evaluate 2) (interpret_commands 2) (PRef 2))
        (\<lambda>_. interpret_one (evaluate 2) (interpret_commands 2) (PRef 10)) duplicate_start =
     (Raise (InterpreterInvalidFunctionArgumentsError (PStr ''f'') 1 2), duplicate_start
        \<lparr>objects := duplicate_trees @ [OList []],
         fuctions := [(KStr ''f'', \<lparr>arguments = [(KStr ''a'', PStr [])], commands = PRef 4\<rparr>)]\<rparr>)"
proof -
  have n1: "deref (objects call_undefined) 2 =
      Some (ODict [(KStr ''name'', PStr ''func_call''), (KStr ''func_name'', PStr ''f''),
             (KStr ''arguments'', PRef 3)])"
    by code_simp
  have u: "map_of (fuctions call_undefined) (KStr ''f'') = None"
    by code_simp
  have c1: "interpret_one (evaluate 2) (interpret_commands 2) (PRef 2) call_undefined =
     (Raise (InterpreterUndefinedFunctionError (PStr ''f'')), call_undefined)"
    using func_call_errors [where st = call_undefined and a = 2 and f = "''f''"
        and args = "PRef 3" and ev = "evaluate 2" and interp = "interpret_commands 2", OF n1] u
    by simp
  have n2: "deref (objects call_arity) 10 =
      Some (ODict [(KStr ''name'', PStr ''func_call''), (KStr ''func_name'', PStr ''f''),
             (KStr ''arguments'', PRef 11)])"
    by code_simp
  have h2: "map_of (fuctions call_arity) (KStr ''f'') =
             Some \<lparr>arguments = [(KStr ''a'', PStr [])], commands = PRef 8\<rparr>
          \<and> py_len (objects call_arity) (PRef 11) = Ok 2
          \<and> length (arguments \<lparr>arguments = [(KStr ''a'', PStr [])], commands = PRef 8\<rparr>) \<noteq> 2"
    by code_simp
  have c2: "interpret_one (evaluate 2) (interpret_commands 2) (PRef 10) call_arity =
     (Raise (InterpreterInvalidFunctionArgumentsError (PStr ''f'') 1 2), call_arity)"
    using func_call_errors [where st = call_arity and a = 10 and f = "''f''"
        and args = "PRef 11" and ev = "evaluate 2" and interp = "interpret_commands 2", OF n2,
        THEN conjunct2, THEN conjunct1, rule_format, OF _ _ _ h2]
    by simp
  have n3: "deref (objects call_body) 18 =
      Some (ODict [(KStr ''name'', PStr ''func_call''), (KStr ''func_name'', PStr ''g''),
             (KStr ''arguments'', PRef 19)])"
    by code_simp
  have h3: "map_of (fuctions call_body) (KStr ''g'') = Some \<lparr>arguments = [], commands = PRef 16\<rparr>
          \<and> py_len (objects call_body) (PRef 19) =
              Ok (length (arguments \<lparr>arguments = [], commands = PRef 16\<rparr>))
          \<and> bind_arguments (evaluate 2) (PStr ''g'') (PRef 19)
               (map fst (arguments \<lparr>arguments = [], commands = PRef 16\<rparr>)) 0 call_body =
              (Ok (), call_body)
          \<and> map_of (fuctions call_body) (KStr ''g'') = Some \<lparr>arguments = [], commands = PRef 16\<rparr>
          \<and> interpret_commands 2 (commands \<lparr>arguments = [], commands = PRef 16\<rparr>) call_body =
              (Raise (InterpreterInvalidColorError (PStr ''purple'')
                 [''white'', ''black'', ''red'', ''green'', ''blue'', ''cyan'']), call_body)"
    by code_simp
  have c3: "interpret_one (evaluate 2) (interpret_commands 2) (PRef 18) call_body =
     (Raise (InterpreterFunctionExecutionError (PStr ''g'')
        (InterpreterInvalidColorError (PStr ''purple'')
           [''white'', ''black'', ''red'', ''green'', ''blue'', ''cyan''])), call_body)"
    using func_call_errors [where st = call_body and a = 18 and f = "''g''"
        and args = "PRef 19" and ev = "evaluate 2" and interp = "interpret_commands 2", OF n3,
        THEN conjunct2, THEN conjunct2, THEN conjunct1, rule_format, OF _ _ _ h3]
    by simp
  have r1: "run 4 call_trees (PRef 0) =
     (Raise (InterpreterUndefinedFunctionError (PStr ''f'')), Some call_undefined)"
    by code_simp
  have r2: "run 4 call_trees (PRef 4) =
     (Raise (InterpreterInvalidFunctionArgumentsError (PStr ''f'') 1 2), Some call_arity)"
    by code_simp
  have r3: "run 4 call_trees (PRef 12) =
     (Raise (InterpreterFunctionExecutionError (PStr ''g'')
        (InterpreterInvalidColorError (PStr ''purple'')
           [''white'', ''black'', ''red'', ''green'', ''blue'', ''cyan''])), Some call_body)"
    by code_simp
  have n4: "deref (objects duplicate_start) 10 =
      Some (ODict [(KStr ''name'', PStr ''func_call''), (KStr ''func_name'', PStr ''f''),
             (KStr ''arguments'', PRef 11)])"
    by code_simp
  have h4: "deref (objects duplicate_start) 2 =
             Some (ODict [(KStr ''name'', PStr ''func_def''), (KStr ''func_name'', PStr ''f''),
                    (KStr ''arguments'', PRef 3), (KStr ''commands'', PRef 4)])
          \<and> deref (objects duplicate_start) 3 = Some (OList [PStr ''a'', PStr ''a''])
          \<and> map key_of [PStr ''a'', PStr ''a''] = map Some [KStr ''a'', KStr ''a'']
          \<and> py_len (objects duplicate_start) (PRef 11) = Ok 2"
    by code_simp
  have d4: "declared [KStr ''a'', KStr ''a''] = [(KStr ''a'', PStr [])]"
    by (simp add: declared_def)
  have s4: "fuctions duplicate_start = [] \<and> objects duplicate_start = duplicate_trees"
    by (simp add: duplicate_start_def)
  note t4 = func_call_errors [where st = duplicate_start and a = 10 and f = "''f''"
        and args = "PRef 11" and ev = "evaluate 2" and interp = "interpret_commands 2", OF n4,
        THEN conjunct2, THEN conjunct2, THEN conjunct2, rule_format,
        of 2 "[(KStr ''name'', PStr ''func_def''), (KStr ''func_name'', PStr ''f''),
                (KStr ''arguments'', PRef 3), (KStr ''commands'', PRef 4)]"
           3 "[PStr ''a'', PStr ''a'']" "[KStr ''a'', KStr ''a'']" "PRef 4"]
  have c4: "interpret_one (evaluate 2) (interpret_commands 2) (PRef 2) duplicate_start =
     (Ok (), duplicate_start
        \<lparr>objects := duplicate_trees @ [OList []],
         fuctions := [(KStr ''f'', \<lparr>arguments = [(KStr ''a'', PStr [])], commands = PRef 4\<rparr>)]\<rparr>)"
    using t4 [THEN conjunct1] h4 d4 s4 by simp
  have c5: "bind (interpret_one (evaluate 2) (interpret_commands 2) (PRef 2))
        (\<lambda>_. interpret_one (evaluate 2) (interpret_commands 2) (PRef 10)) duplicate_start =
     (Raise (InterpreterInvalidFunctionArgumentsError (PStr ''f'') 1 2), duplicate_start
        \<lparr>objects := duplicate_trees @ [OList []],
         fuctions := [(KStr ''f'', \<lparr>arguments = [(KStr ''a'', PStr [])], commands = PRef 4\<rparr>)]\<rparr>)"
    using t4 [THEN conjunct2, THEN conjunct2, rule_format, of 2] h4 d4 s4 by simp
  from c1 c2 c3 r1 r2 r3 c4 c5 show ?thesis by simp
qed

text \<open>
  C3 as it is stated counts the parameters that were declared. \<^verbatim>\<open>to f :a :a forward :a end\<close>
  declares two. The call \<^verbatim>\<open>f 1\<close>, with one argument, does not fail: the run ends normally
  and yields \<^verbatim>\<open>forward 1\<close>. The call \<^verbatim>\<open>f 1 2\<close>, with two, fails with
  \<^verbatim>\<open>InterpreterInvalidFunctionArgumentsError\<close>, and the number it carries as expected is 1.
\<close>

theorem duplicate_parameter_counterexample:
  "fst (run 5 duplicate_trees (PRef 0)) = Ok ()
   \<and> map_option yielded (snd (run 5 duplicate_trees (PRef 0))) =
       Some [New_command (PStr ''forward'') (PFloat 1)]
   \<and> fst (run 5 duplicate_trees (PRef 8)) =
       Raise (InterpreterInvalidFunctionArgumentsError (PStr ''f'') 1 2)"
  by code_simp

subsection \<open>The operands of a list operation\<close>

lemma list_function_remove:
  "list_function ev c xs (PStr ''remove'') = list_function ev' c xs (PStr ''remove'')"
  by (simp add: list_function_def)

lemma list_function_value:
  assumes node: "deref (objects st) a = Some (ODict d)"
      and ev: "\<And>v. map_of d (KStr ''value'') = Some v \<Longrightarrow> ev v = ev' v"
      and fn: "fn \<in> {''set'', ''insert'', ''remove_value''}"
  shows "list_function ev (PRef a) xs (PStr fn) st = list_function ev' (PRef a) xs (PStr fn) st"
proof -
  have v: "bind (field (PRef a) ''value'') (\<lambda>v. bind (ev v) (g v)) st =
           bind (field (PRef a) ''value'') (\<lambda>v. bind (ev' v) (g v)) st"
    for g :: "pyval \<Rightarrow> pyval \<Rightarrow> 'b comp"
    using node ev by (simp add: bind_def field_dict split: option.splits)
  have set: "list_function ev (PRef a) xs (PStr ''set'') st =
             list_function ev' (PRef a) xs (PStr ''set'') st"
    unfolding list_function_def by (simp add: v)
  have m: "list_method l s = (r, s') \<Longrightarrow> s' = s" for l s r s'
    by (auto simp: list_method_def split: pyval.splits option.splits obj.splits)
  have ins: "list_function ev (PRef a) xs (PStr ''insert'') st =
             list_function ev' (PRef a) xs (PStr ''insert'') st"
  proof (cases xs)
    case None
    then show ?thesis by (simp add: list_function_def local_xs_def bind_def raise_def)
  next
    case (Some l)
    obtain r s' where lm: "list_method l st = (r, s')" by (cases "list_method l st")
    with m have s': "s' = st" by simp
    have i: "field (PRef a) ''index'' st =
      ((case map_of d (KStr ''index'') of None \<Rightarrow> Raise (PyExc KeyError) | Some x \<Rightarrow> Ok x), st)"
      using node by (simp add: field_dict)
    show ?thesis
      using lm s'
        v [of "\<lambda>v x. bind (list_insert l i x)
                       (\<lambda>_. bind (rebind_list (PRef a) l) (\<lambda>_. pure PNone))" for i]
      by (simp add: list_function_def local_xs_def bind_pure Some
          bind_def[of "list_method l"] bind_def[of "field (PRef a) ''index''"] i bind_lift
          split: outcome.splits option.splits)
  qed
  have rv: "list_function ev (PRef a) xs (PStr ''remove_value'') st =
            list_function ev' (PRef a) xs (PStr ''remove_value'') st"
  proof (cases xs)
    case None
    then show ?thesis by (simp add: list_function_def local_xs_def bind_def raise_def)
  next
    case (Some l)
    obtain r s' where lm: "list_method l st = (r, s')" by (cases "list_method l st")
    with m have s': "s' = st" by simp
    show ?thesis
      using lm s'
        v [of "\<lambda>v x. bind (list_remove l x)
                       (\<lambda>_. bind (rebind_list (PRef a) l) (\<lambda>_. pure PNone))"]
      by (simp add: list_function_def local_xs_def bind_pure Some
          bind_def[of "list_method l"]
          split: outcome.splits)
  qed
  from fn set ins rv show ?thesis by auto
qed

lemma list_function_get:
  assumes node: "deref (objects st) a = Some (ODict d)"
      and ev: "\<And>i. map_of d (KStr ''index'') = Some i \<Longrightarrow> ev i = ev' i"
  shows "list_function ev (PRef a) xs (PStr ''get'') st =
         list_function ev' (PRef a) xs (PStr ''get'') st"
proof -
  have v: "bind (field (PRef a) ''index'') (\<lambda>v. bind (ev v) (g v)) st =
           bind (field (PRef a) ''index'') (\<lambda>v. bind (ev' v) (g v)) st"
    for g :: "pyval \<Rightarrow> pyval \<Rightarrow> 'b comp"
    using node ev by (simp add: bind_def field_dict split: option.splits)
  show ?thesis unfolding list_function_def by (simp add: v)
qed

lemma index_coerced:
  assumes node: "deref (objects st) a = Some (ODict d)"
      and fn: "map_of d (KStr ''function'') = Some (PStr fn)"
      and nm: "map_of d (KStr ''list_name'') = Some (PStr nm)"
      and xs: "map_of (lists st) (KStr nm) = Some (PRef p)"
      and l: "deref (objects st) p = Some (OList l)"
      and idx: "map_of d (KStr ''index'') = Some idx"
      and e: "py_int idx = Raise e"
      and f: "fn = ''insert'' \<or> fn = ''remove''
              \<or> (fn = ''set'' \<and> (\<exists>v x. map_of d (KStr ''value'') = Some v \<and> ev v st = (Ok x, st)))"
  shows "handle_list ev (PRef a) st = (Raise e, st)"
proof -
  note bf = bind_field[OF node]
  from e have ne: "e \<noteq> PyExc KeyError"
    using py_int_not_KeyError[of idx] by auto
  have ins: "list_function ev (PRef a) (Some (PRef p)) (PStr ''insert'') st = (Raise e, st)"
    using l idx e
    by (simp add: list_function_def local_xs_def bind_pure bind_def[of "list_method (PRef p)"]
        list_method_def bf bind_lift)
  have rem: "list_function ev (PRef a) (Some (PRef p)) (PStr ''remove'') st = (Raise e, st)"
    using l idx e node
    by (simp add: list_function_def local_xs_def bind_pure bind_def[of "pop (PRef p) (PRef a)"]
        pop_def subscript_def)
  have set: "list_function ev (PRef a) (Some (PRef p)) (PStr ''set'') st = (Raise e, st)"
    if "map_of d (KStr ''value'') = Some v" "ev v st = (Ok x, st)" for v x
    using that idx e
    by (simp add: list_function_def local_xs_def bind_pure bf bind_def[of "ev v"] bind_lift)
  from f ins rem set
  have "list_function ev (PRef a) (Some (PRef p)) (PStr fn) st = (Raise e, st)"
    by auto
  then show ?thesis
    using nm xs ne
    by (simp add: handle_list_lookup[OF node fn] try_KeyError_def except_KeyError_def
        split: error.splits pyexc.splits)
qed

lemma handle_list_keyed:
  assumes node: "deref (objects st) a = Some (ODict d)"
      and fn: "map_of d (KStr ''function'') = Some (PStr fn)"
      and nm: "map_of d (KStr ''list_name'') = Some nm"
      and k: "key_of nm = Some k"
  shows "handle_list ev (PRef a) st =
           try_KeyError InterpreterUnboundVariableListError
             (list_function ev (PRef a) (map_of (lists st) k) (PStr fn)) st"
  using nm k by (simp add: handle_list_lookup[OF node fn])

lemma try_KeyError_cong: "m st = m' st \<Longrightarrow> try_KeyError e m st = try_KeyError e m' st"
  by (simp add: try_KeyError_def)

lemma local_xs_cong:
  "(\<And>l. f l st = g l st) \<Longrightarrow> bind (local_xs xs) f st = bind (local_xs xs) g st"
  by (cases xs) (simp_all add: local_xs_def bind_def pure_def raise_def)

lemma list_method_cong:
  "(\<And>u. f u st = g u st) \<Longrightarrow> bind (list_method l) f st = bind (list_method l) g st"
  by (auto simp: bind_def list_method_def split: pyval.splits option.splits obj.splits)

lemma operand_get:
  assumes node: "deref (objects st) a = Some (ODict d)"
      and fn: "map_of d (KStr ''function'') = Some (PStr ''get'')"
      and nm: "map_of d (KStr ''list_name'') = Some nm"
      and k: "key_of nm = Some k"
      and idx: "map_of d (KStr ''index'') = Some idx"
  shows "handle_list ev (PRef a) st =
           try_KeyError InterpreterUnboundVariableListError
             (bind (ev idx) (\<lambda>v. bind (lift (py_int v))
                (\<lambda>i. bind (local_xs (map_of (lists st) k)) (\<lambda>l. getitem l (PInt i))))) st"
  unfolding handle_list_keyed[OF node fn nm k]
  using idx
  by (intro try_KeyError_cong) (simp add: list_function_def bind_field[OF node])

lemma operand_remove_value:
  assumes node: "deref (objects st) a = Some (ODict d)"
      and fn: "map_of d (KStr ''function'') = Some (PStr ''remove_value'')"
      and nm: "map_of d (KStr ''list_name'') = Some nm"
      and k: "key_of nm = Some k"
      and v: "map_of d (KStr ''value'') = Some v"
  shows "handle_list ev (PRef a) st =
           try_KeyError InterpreterUnboundVariableListError
             (bind (local_xs (map_of (lists st) k)) (\<lambda>l. bind (list_method l)
                (\<lambda>_. bind (ev v) (\<lambda>x. bind (list_remove l x)
                (\<lambda>_. bind (rebind_list (PRef a) l) (\<lambda>_. pure PNone)))))) st"
  unfolding handle_list_keyed[OF node fn nm k]
  using v
  by (intro try_KeyError_cong)
     (simp add: list_function_def, intro local_xs_cong list_method_cong,
      simp add: bind_field[OF node])

lemma operand_set:
  assumes node: "deref (objects st) a = Some (ODict d)"
      and fn: "map_of d (KStr ''function'') = Some (PStr ''set'')"
      and nm: "map_of d (KStr ''list_name'') = Some nm"
      and k: "key_of nm = Some k"
      and v: "map_of d (KStr ''value'') = Some v"
  shows "handle_list ev (PRef a) st =
           try_KeyError InterpreterUnboundVariableListError
             (bind (ev v) (\<lambda>x. bind (local_xs (map_of (lists st) k))
                (\<lambda>l. bind (field (PRef a) ''index'') (\<lambda>idx. bind (lift (py_int idx))
                (\<lambda>i. bind (setitem l (PInt i) x)
                (\<lambda>_. bind (rebind_list (PRef a) l) (\<lambda>_. pure PNone))))))) st"
  unfolding handle_list_keyed[OF node fn nm k]
  using v
  by (intro try_KeyError_cong) (simp add: list_function_def bind_field[OF node])

lemma operand_insert:
  assumes node: "deref (objects st) a = Some (ODict d)"
      and fn: "map_of d (KStr ''function'') = Some (PStr ''insert'')"
      and nm: "map_of d (KStr ''list_name'') = Some nm"
      and k: "key_of nm = Some k"
      and idx: "map_of d (KStr ''index'') = Some idx"
      and v: "map_of d (KStr ''value'') = Some v"
  shows "handle_list ev (PRef a) st =
           try_KeyError InterpreterUnboundVariableListError
             (bind (local_xs (map_of (lists st) k)) (\<lambda>l. bind (list_method l)
                (\<lambda>_. bind (lift (py_int idx)) (\<lambda>i. bind (ev v) (\<lambda>x. bind (list_insert l i x)
                (\<lambda>_. bind (rebind_list (PRef a) l) (\<lambda>_. pure PNone))))))) st"
  unfolding handle_list_keyed[OF node fn nm k]
  using v idx
  by (intro try_KeyError_cong)
     (simp add: list_function_def, intro local_xs_cong list_method_cong,
      simp add: bind_field[OF node] bind_lift split: outcome.splits)

lemma operand_remove:
  assumes node: "deref (objects st) a = Some (ODict d)"
      and fn: "map_of d (KStr ''function'') = Some (PStr ''remove'')"
      and nm: "map_of d (KStr ''list_name'') = Some nm"
      and k: "key_of nm = Some k"
      and xs: "map_of (lists st) k = Some (PRef p)"
      and l: "deref (objects st) p = Some (OList l)"
      and idx: "map_of d (KStr ''index'') = Some idx"
      and i: "py_int idx = Ok i"
      and j: "norm_index (length l) i = Some j"
  shows "handle_list ev (PRef a) st =
           (Ok PNone, st\<lparr>objects := (objects st)[p := OList (take j l @ drop (Suc j) l)],
                         lists := AList.update k (PRef p) (lists st)\<rparr>)"
proof -
  let ?s1 = "st\<lparr>objects := (objects st)[p := OList (take j l @ drop (Suc j) l)]\<rparr>"
  have p: "pop (PRef p) (PRef a) st = (Ok (), ?s1)"
    using node l idx i j by (simp add: pop_def subscript_def)
  from node l have "a \<noteq> p" by auto
  with node have node1: "deref (objects ?s1) a = Some (ODict d)"
    by (auto simp: deref_def split: if_splits)
  have r: "rebind_list (PRef a) (PRef p) ?s1 =
             (Ok (), ?s1\<lparr>lists := AList.update k (PRef p) (lists st)\<rparr>)"
    using nm k by (simp add: rebind_list_def bind_field[OF node1] table_set_def)
  show ?thesis
    unfolding handle_list_keyed[OF node fn nm k]
    using p r xs
    by (simp add: try_KeyError_def list_function_def local_xs_def bind_def
        pure_def except_KeyError_def)
qed

text \<open>
  C8. What a list operation does with its operands, said through the evaluator \<open>ev\<close> it is
  given. First, what it does not evaluate: \<^verbatim>\<open>remove\<close> does not depend on the evaluator at
  all; \<^verbatim>\<open>set\<close>, \<^verbatim>\<open>insert\<close> and \<^verbatim>\<open>remove_value\<close> depend on it only through what it does to
  the \<^verbatim>\<open>value\<close> field; \<^verbatim>\<open>get\<close> only through what it does to the \<^verbatim>\<open>index\<close> field. And the
  index of \<^verbatim>\<open>set\<close>, \<^verbatim>\<open>insert\<close> and \<^verbatim>\<open>remove\<close> goes to \<^verbatim>\<open>int\<close> as it stands in the tree: when
  \<^verbatim>\<open>int\<close> rejects it (an identifier, an expression), the operation fails with that exception
  of \<^verbatim>\<open>int\<close>, whatever the evaluator would have made of it (for \<^verbatim>\<open>set\<close>, once the value has
  been evaluated, here without a change to the interpreter). Then, what it does evaluate, as
  an equation for each operation, on every node that has a hashable list name and the
  operand, whether the list is bound or not:
  \<^verbatim>\<open>get\<close> runs the evaluator on the \<^verbatim>\<open>index\<close> field, passes the result to \<^verbatim>\<open>int\<close>, and then reads
  \<^verbatim>\<open>xs\<close> and subscripts it; \<^verbatim>\<open>remove_value\<close> reads \<^verbatim>\<open>xs\<close> and its method, then runs the
  evaluator on the \<^verbatim>\<open>value\<close> field and removes the result from the list; \<^verbatim>\<open>set\<close> runs the
  evaluator on the \<^verbatim>\<open>value\<close> field, reads \<^verbatim>\<open>xs\<close>, then passes the \<^verbatim>\<open>index\<close> field to \<^verbatim>\<open>int\<close> and
  stores the value there; \<^verbatim>\<open>insert\<close> reads \<^verbatim>\<open>xs\<close> and its method, passes the \<^verbatim>\<open>index\<close> field to
  \<^verbatim>\<open>int\<close>, then runs the evaluator on the \<^verbatim>\<open>value\<close> field and inserts the result; and
  \<^verbatim>\<open>remove\<close> with an index that \<^verbatim>\<open>int\<close> takes to a position of the list removes the element at
  that position.
\<close>

theorem list_op_operands:
  assumes node: "deref (objects st) a = Some (ODict d)"
      and fn: "map_of d (KStr ''function'') = Some (PStr fn)"
  shows "(fn = ''remove'' \<longrightarrow> handle_list ev (PRef a) st = handle_list ev' (PRef a) st)
       \<and> (fn \<in> {''set'', ''insert'', ''remove_value''}
            \<and> (\<forall>v. map_of d (KStr ''value'') = Some v \<longrightarrow> ev v = ev' v) \<longrightarrow>
          handle_list ev (PRef a) st = handle_list ev' (PRef a) st)
       \<and> (fn = ''get'' \<and> (\<forall>i. map_of d (KStr ''index'') = Some i \<longrightarrow> ev i = ev' i) \<longrightarrow>
          handle_list ev (PRef a) st = handle_list ev' (PRef a) st)
       \<and> (\<forall>nm p l idx e.
              map_of d (KStr ''list_name'') = Some (PStr nm)
            \<and> map_of (lists st) (KStr nm) = Some (PRef p)
            \<and> deref (objects st) p = Some (OList l)
            \<and> map_of d (KStr ''index'') = Some idx
            \<and> py_int idx = Raise e
            \<and> (fn = ''insert'' \<or> fn = ''remove''
                \<or> (fn = ''set''
                    \<and> (\<exists>v x. map_of d (KStr ''value'') = Some v \<and> ev v st = (Ok x, st)))) \<longrightarrow>
          handle_list ev (PRef a) st = (Raise e, st))
       \<and> (\<forall>nm k idx.
              fn = ''get''
            \<and> map_of d (KStr ''list_name'') = Some nm \<and> key_of nm = Some k
            \<and> map_of d (KStr ''index'') = Some idx \<longrightarrow>
          handle_list ev (PRef a) st =
            try_KeyError InterpreterUnboundVariableListError
              (bind (ev idx) (\<lambda>v. bind (lift (py_int v))
                 (\<lambda>i. bind (local_xs (map_of (lists st) k)) (\<lambda>l. getitem l (PInt i))))) st)
       \<and> (\<forall>nm k v.
              fn = ''remove_value''
            \<and> map_of d (KStr ''list_name'') = Some nm \<and> key_of nm = Some k
            \<and> map_of d (KStr ''value'') = Some v \<longrightarrow>
          handle_list ev (PRef a) st =
            try_KeyError InterpreterUnboundVariableListError
              (bind (local_xs (map_of (lists st) k)) (\<lambda>l. bind (list_method l)
                 (\<lambda>_. bind (ev v) (\<lambda>x. bind (list_remove l x)
                 (\<lambda>_. bind (rebind_list (PRef a) l) (\<lambda>_. pure PNone)))))) st)
       \<and> (\<forall>nm k v.
              fn = ''set''
            \<and> map_of d (KStr ''list_name'') = Some nm \<and> key_of nm = Some k
            \<and> map_of d (KStr ''value'') = Some v \<longrightarrow>
          handle_list ev (PRef a) st =
            try_KeyError InterpreterUnboundVariableListError
              (bind (ev v) (\<lambda>x. bind (local_xs (map_of (lists st) k))
                 (\<lambda>l. bind (field (PRef a) ''index'') (\<lambda>idx. bind (lift (py_int idx))
                 (\<lambda>i. bind (setitem l (PInt i) x)
                 (\<lambda>_. bind (rebind_list (PRef a) l) (\<lambda>_. pure PNone))))))) st)
       \<and> (\<forall>nm k idx v.
              fn = ''insert''
            \<and> map_of d (KStr ''list_name'') = Some nm \<and> key_of nm = Some k
            \<and> map_of d (KStr ''index'') = Some idx
            \<and> map_of d (KStr ''value'') = Some v \<longrightarrow>
          handle_list ev (PRef a) st =
            try_KeyError InterpreterUnboundVariableListError
              (bind (local_xs (map_of (lists st) k)) (\<lambda>l. bind (list_method l)
                 (\<lambda>_. bind (lift (py_int idx)) (\<lambda>i. bind (ev v) (\<lambda>x. bind (list_insert l i x)
                 (\<lambda>_. bind (rebind_list (PRef a) l) (\<lambda>_. pure PNone))))))) st)
       \<and> (\<forall>nm k p l idx i j.
              fn = ''remove''
            \<and> map_of d (KStr ''list_name'') = Some nm \<and> key_of nm = Some k
            \<and> map_of (lists st) k = Some (PRef p)
            \<and> deref (objects st) p = Some (OList l)
            \<and> map_of d (KStr ''index'') = Some idx
            \<and> py_int idx = Ok i
            \<and> norm_index (length l) i = Some j \<longrightarrow>
          handle_list ev (PRef a) st =
            (Ok PNone, st\<lparr>objects := (objects st)[p := OList (take j l @ drop (Suc j) l)],
                          lists := AList.update k (PRef p) (lists st)\<rparr>))"
proof -
  have p1: "fn = ''remove'' \<longrightarrow> handle_list ev (PRef a) st = handle_list ev' (PRef a) st"
    using list_function_remove[of ev "PRef a" _ ev']
    by (simp add: handle_list_lookup[OF node fn] try_KeyError_def split: option.splits)
  have p2: "fn \<in> {''set'', ''insert'', ''remove_value''}
            \<and> (\<forall>v. map_of d (KStr ''value'') = Some v \<longrightarrow> ev v = ev' v) \<longrightarrow>
          handle_list ev (PRef a) st = handle_list ev' (PRef a) st"
  proof
    assume h: "fn \<in> {''set'', ''insert'', ''remove_value''}
            \<and> (\<forall>v. map_of d (KStr ''value'') = Some v \<longrightarrow> ev v = ev' v)"
    then have "list_function ev (PRef a) xs (PStr fn) st =
               list_function ev' (PRef a) xs (PStr fn) st" for xs
      using list_function_value[OF node, of ev ev' fn xs] by blast
    then show "handle_list ev (PRef a) st = handle_list ev' (PRef a) st"
      by (simp add: handle_list_lookup[OF node fn] try_KeyError_def split: option.splits)
  qed
  have p3: "fn = ''get'' \<and> (\<forall>i. map_of d (KStr ''index'') = Some i \<longrightarrow> ev i = ev' i) \<longrightarrow>
          handle_list ev (PRef a) st = handle_list ev' (PRef a) st"
  proof
    assume h: "fn = ''get'' \<and> (\<forall>i. map_of d (KStr ''index'') = Some i \<longrightarrow> ev i = ev' i)"
    then have "list_function ev (PRef a) xs (PStr ''get'') st =
               list_function ev' (PRef a) xs (PStr ''get'') st" for xs
      using list_function_get[OF node, of ev ev' xs] by blast
    with h show "handle_list ev (PRef a) st = handle_list ev' (PRef a) st"
      by (simp add: handle_list_lookup[OF node fn] try_KeyError_def split: option.splits)
  qed
  have p4: "\<forall>nm p l idx e.
              map_of d (KStr ''list_name'') = Some (PStr nm)
            \<and> map_of (lists st) (KStr nm) = Some (PRef p)
            \<and> deref (objects st) p = Some (OList l)
            \<and> map_of d (KStr ''index'') = Some idx
            \<and> py_int idx = Raise e
            \<and> (fn = ''insert'' \<or> fn = ''remove''
                \<or> (fn = ''set''
                    \<and> (\<exists>v x. map_of d (KStr ''value'') = Some v \<and> ev v st = (Ok x, st)))) \<longrightarrow>
          handle_list ev (PRef a) st = (Raise e, st)"
    using index_coerced[OF node fn, of _ _ _ _ _ ev] by blast
  have p5: "\<forall>nm k idx.
              fn = ''get''
            \<and> map_of d (KStr ''list_name'') = Some nm \<and> key_of nm = Some k
            \<and> map_of d (KStr ''index'') = Some idx \<longrightarrow>
          handle_list ev (PRef a) st =
            try_KeyError InterpreterUnboundVariableListError
              (bind (ev idx) (\<lambda>v. bind (lift (py_int v))
                 (\<lambda>i. bind (local_xs (map_of (lists st) k)) (\<lambda>l. getitem l (PInt i))))) st"
    using operand_get[OF node, of _ _ _ ev] fn by blast
  have p6: "\<forall>nm k v.
              fn = ''remove_value''
            \<and> map_of d (KStr ''list_name'') = Some nm \<and> key_of nm = Some k
            \<and> map_of d (KStr ''value'') = Some v \<longrightarrow>
          handle_list ev (PRef a) st =
            try_KeyError InterpreterUnboundVariableListError
              (bind (local_xs (map_of (lists st) k)) (\<lambda>l. bind (list_method l)
                 (\<lambda>_. bind (ev v) (\<lambda>x. bind (list_remove l x)
                 (\<lambda>_. bind (rebind_list (PRef a) l) (\<lambda>_. pure PNone)))))) st"
    using operand_remove_value[OF node, of _ _ _ ev] fn by blast
  have p7: "\<forall>nm k v.
              fn = ''set''
            \<and> map_of d (KStr ''list_name'') = Some nm \<and> key_of nm = Some k
            \<and> map_of d (KStr ''value'') = Some v \<longrightarrow>
          handle_list ev (PRef a) st =
            try_KeyError InterpreterUnboundVariableListError
              (bind (ev v) (\<lambda>x. bind (local_xs (map_of (lists st) k))
                 (\<lambda>l. bind (field (PRef a) ''index'') (\<lambda>idx. bind (lift (py_int idx))
                 (\<lambda>i. bind (setitem l (PInt i) x)
                 (\<lambda>_. bind (rebind_list (PRef a) l) (\<lambda>_. pure PNone))))))) st"
    using operand_set[OF node, of _ _ _ ev] fn by blast
  have p8: "\<forall>nm k idx v.
              fn = ''insert''
            \<and> map_of d (KStr ''list_name'') = Some nm \<and> key_of nm = Some k
            \<and> map_of d (KStr ''index'') = Some idx
            \<and> map_of d (KStr ''value'') = Some v \<longrightarrow>
          handle_list ev (PRef a) st =
            try_KeyError InterpreterUnboundVariableListError
              (bind (local_xs (map_of (lists st) k)) (\<lambda>l. bind (list_method l)
                 (\<lambda>_. bind (lift (py_int idx)) (\<lambda>i. bind (ev v) (\<lambda>x. bind (list_insert l i x)
                 (\<lambda>_. bind (rebind_list (PRef a) l) (\<lambda>_. pure PNone))))))) st"
    using operand_insert[OF node, of _ _ _ _ ev] fn by blast
  have p9: "\<forall>nm k p l idx i j.
              fn = ''remove''
            \<and> map_of d (KStr ''list_name'') = Some nm \<and> key_of nm = Some k
            \<and> map_of (lists st) k = Some (PRef p)
            \<and> deref (objects st) p = Some (OList l)
            \<and> map_of d (KStr ''index'') = Some idx
            \<and> py_int idx = Ok i
            \<and> norm_index (length l) i = Some j \<longrightarrow>
          handle_list ev (PRef a) st =
            (Ok PNone, st\<lparr>objects := (objects st)[p := OList (take j l @ drop (Suc j) l)],
                          lists := AList.update k (PRef p) (lists st)\<rparr>)"
    using operand_remove[OF node, of _ _ _ _ _ _ _ ev] fn by blast
  from p1 p2 p3 p4 p5 p6 p7 p8 p9 show ?thesis by (intro conjI)
qed

text \<open>
  In \<open>index_state\<close> the variable \<^verbatim>\<open>i\<close> is \<open>0\<close>, the variable \<^verbatim>\<open>j\<close> is \<open>2\<close> and the list \<^verbatim>\<open>L\<close> is
  \<^verbatim>\<open>[1, 2, 3]\<close>. With the identifier \<^verbatim>\<open>i\<close> as index, \<^verbatim>\<open>get\<close> returns the first element, and
  \<^verbatim>\<open>set\<close>, \<^verbatim>\<open>insert\<close> and \<^verbatim>\<open>remove\<close> fail with the \<^verbatim>\<open>ValueError\<close> of \<^verbatim>\<open>int("i")\<close>. An evaluator
  that refuses the identifier \<^verbatim>\<open>i\<close> changes nothing for \<^verbatim>\<open>set\<close> and \<^verbatim>\<open>remove\<close>, and makes \<^verbatim>\<open>get\<close>
  fail. With the identifier \<^verbatim>\<open>j\<close> as value, \<^verbatim>\<open>remove_value\<close> removes the \<open>2\<close> from the list, and
  an evaluator that refuses everything makes it fail. A \<^verbatim>\<open>set\<close> whose index is a string that
  \<^verbatim>\<open>int\<close> reads as \<open>1\<close> writes the second element, a \<^verbatim>\<open>remove\<close> with the index \<open>0\<close> removes
  the first, and an \<^verbatim>\<open>insert\<close> of the identifier \<^verbatim>\<open>j\<close> at \<open>0\<close> puts a \<open>2\<close> in front.
\<close>

theorem list_op_operands_witness:
  "handle_list (evaluate 2) (PRef 6) index_state = (Ok (PFloat 1), index_state)
   \<and> handle_list (evaluate 2) (PRef 7) index_state = (Raise (PyExc ValueError), index_state)
   \<and> handle_list (evaluate 2) (PRef 8) index_state = (Raise (PyExc ValueError), index_state)
   \<and> handle_list (evaluate 2) (PRef 9) index_state = (Raise (PyExc ValueError), index_state)
   \<and> handle_list (\<lambda>v. if v = PStr ''i'' then raise InterpreterInvalidTreeError else evaluate 2 v)
        (PRef 7) index_state = handle_list (evaluate 2) (PRef 7) index_state
   \<and> handle_list (\<lambda>v. raise InterpreterInvalidTreeError) (PRef 9) index_state =
        handle_list (evaluate 2) (PRef 9) index_state
   \<and> handle_list (\<lambda>v. if v = PStr ''i'' then raise InterpreterInvalidTreeError else evaluate 2 v)
        (PRef 6) index_state = (Raise InterpreterInvalidTreeError, index_state)
   \<and> handle_list (evaluate 2) (PRef 11) index_state =
        (Ok PNone, index_state\<lparr>objects := index_tree[3 := OList [PFloat 1, PFloat 3]]\<rparr>)
   \<and> handle_list (\<lambda>v. raise InterpreterInvalidTreeError) (PRef 11) index_state =
        (Raise InterpreterInvalidTreeError, index_state)
   \<and> handle_list (evaluate 2) (PRef 12) index_state =
        (Ok PNone, index_state\<lparr>objects := index_tree[3 := OList [PFloat 1, PFloat 5, PFloat 3]]\<rparr>)
   \<and> handle_list (evaluate 2) (PRef 13) index_state =
        (Ok PNone, index_state\<lparr>objects := index_tree[3 := OList [PFloat 2, PFloat 3]]\<rparr>)
   \<and> handle_list (evaluate 2) (PRef 14) index_state =
        (Ok PNone, index_state\<lparr>objects := index_tree[3 := OList [PFloat 2, PFloat 1, PFloat 2, PFloat 3]]\<rparr>)
   \<and> py_int (PStr [CHR 0xA0, CHR ''1'', CHR '' '']) = Ok 1"
proof -
  let ?ev' = "\<lambda>v. if v = PStr ''i'' then raise InterpreterInvalidTreeError else evaluate 2 v"
  let ?no = "\<lambda>v. raise InterpreterInvalidTreeError :: pyval comp"
  have n6: "deref (objects index_state) 6 =
      Some (ODict [(KStr ''name'', PStr ''list''), (KStr ''list_name'', PStr ''L''),
             (KStr ''function'', PStr ''get''), (KStr ''index'', PStr ''i'')])"
    by code_simp
  have n7: "deref (objects index_state) 7 =
      Some (ODict [(KStr ''name'', PStr ''list''), (KStr ''list_name'', PStr ''L''),
             (KStr ''function'', PStr ''set''), (KStr ''index'', PStr ''i''),
             (KStr ''value'', PFloat 5)])"
    by code_simp
  have n8: "deref (objects index_state) 8 =
      Some (ODict [(KStr ''name'', PStr ''list''), (KStr ''list_name'', PStr ''L''),
             (KStr ''function'', PStr ''insert''), (KStr ''index'', PStr ''i''),
             (KStr ''value'', PFloat 5)])"
    by code_simp
  have n9: "deref (objects index_state) 9 =
      Some (ODict [(KStr ''name'', PStr ''list''), (KStr ''list_name'', PStr ''L''),
             (KStr ''function'', PStr ''remove''), (KStr ''index'', PStr ''i'')])"
    by code_simp
  have n11: "deref (objects index_state) 11 =
      Some (ODict [(KStr ''name'', PStr ''list''), (KStr ''list_name'', PStr ''L''),
             (KStr ''function'', PStr ''remove_value''), (KStr ''value'', PStr ''j'')])"
    by code_simp
  have n12: "deref (objects index_state) 12 =
      Some (ODict [(KStr ''name'', PStr ''list''), (KStr ''list_name'', PStr ''L''),
             (KStr ''function'', PStr ''set''),
             (KStr ''index'', PStr [CHR 0xA0, CHR ''1'', CHR '' '']), (KStr ''value'', PFloat 5)])"
    by code_simp
  have n13: "deref (objects index_state) 13 =
      Some (ODict [(KStr ''name'', PStr ''list''), (KStr ''list_name'', PStr ''L''),
             (KStr ''function'', PStr ''remove''), (KStr ''index'', PFloat 0)])"
    by code_simp
  have n14: "deref (objects index_state) 14 =
      Some (ODict [(KStr ''name'', PStr ''list''), (KStr ''list_name'', PStr ''L''),
             (KStr ''function'', PStr ''insert''), (KStr ''index'', PFloat 0),
             (KStr ''value'', PStr ''j'')])"
    by code_simp
  have l: "map_of (lists index_state) (KStr ''L'') = Some (PRef 3)
         \<and> deref (objects index_state) 3 = Some (OList [PFloat 1, PFloat 2, PFloat 3])"
    by code_simp
  have i: "py_int (PStr ''i'') = Raise (PyExc ValueError)"
    by code_simp
  have sp: "py_int (PStr [CHR 0xA0, CHR ''1'', CHR '' '']) = Ok 1"
    by code_simp
  have v: "evaluate 2 (PFloat 5) index_state = (Ok (PFloat 5), index_state)"
    by code_simp
  have get_rhs: "try_KeyError InterpreterUnboundVariableListError
              (bind (evaluate 2 (PStr ''i'')) (\<lambda>v. bind (lift (py_int v))
                 (\<lambda>i. bind (local_xs (map_of (lists index_state) (KStr ''L'')))
                 (\<lambda>l. getitem l (PInt i))))) index_state = (Ok (PFloat 1), index_state)"
    by code_simp
  have get: "handle_list (evaluate 2) (PRef 6) index_state = (Ok (PFloat 1), index_state)"
    using list_op_operands [where st = index_state and a = 6 and fn = "''get''"
        and ev = "evaluate 2", OF n6, THEN conjunct2, THEN conjunct2, THEN conjunct2,
        THEN conjunct2, THEN conjunct1, rule_format, of "PStr ''L''" "KStr ''L''" "PStr ''i''"]
      get_rhs
    by simp
  have get'_rhs: "try_KeyError InterpreterUnboundVariableListError
              (bind (?ev' (PStr ''i'')) (\<lambda>v. bind (lift (py_int v))
                 (\<lambda>i. bind (local_xs (map_of (lists index_state) (KStr ''L'')))
                 (\<lambda>l. getitem l (PInt i))))) index_state =
            (Raise InterpreterInvalidTreeError, index_state)"
    by (simp add: bind_def raise_def try_KeyError_def except_KeyError_def)
  have get': "handle_list ?ev' (PRef 6) index_state = (Raise InterpreterInvalidTreeError, index_state)"
    using list_op_operands [where st = index_state and a = 6 and fn = "''get''"
        and ev = ?ev', OF n6, THEN conjunct2, THEN conjunct2, THEN conjunct2,
        THEN conjunct2, THEN conjunct1, rule_format, of "PStr ''L''" "KStr ''L''" "PStr ''i''"]
      get'_rhs
    by simp
  have set: "handle_list (evaluate 2) (PRef 7) index_state = (Raise (PyExc ValueError), index_state)"
    using list_op_operands [where st = index_state and a = 7 and fn = "''set''"
        and ev = "evaluate 2", OF n7, THEN conjunct2, THEN conjunct2, THEN conjunct2,
        THEN conjunct1, rule_format,
        of "''L''" 3 "[PFloat 1, PFloat 2, PFloat 3]" "PStr ''i''" "PyExc ValueError"]
      l i v
    by auto
  have ins: "handle_list (evaluate 2) (PRef 8) index_state = (Raise (PyExc ValueError), index_state)"
    using list_op_operands [where st = index_state and a = 8 and fn = "''insert''"
        and ev = "evaluate 2", OF n8, THEN conjunct2, THEN conjunct2, THEN conjunct2,
        THEN conjunct1, rule_format,
        of "''L''" 3 "[PFloat 1, PFloat 2, PFloat 3]" "PStr ''i''" "PyExc ValueError"]
      l i
    by simp
  have rem: "handle_list (evaluate 2) (PRef 9) index_state = (Raise (PyExc ValueError), index_state)"
    using list_op_operands [where st = index_state and a = 9 and fn = "''remove''"
        and ev = "evaluate 2", OF n9, THEN conjunct2, THEN conjunct2, THEN conjunct2,
        THEN conjunct1, rule_format,
        of "''L''" 3 "[PFloat 1, PFloat 2, PFloat 3]" "PStr ''i''" "PyExc ValueError"]
      l i
    by simp
  have set': "handle_list ?ev' (PRef 7) index_state = handle_list (evaluate 2) (PRef 7) index_state"
    using list_op_operands [where st = index_state and a = 7 and fn = "''set''"
        and ev = ?ev' and ev' = "evaluate 2", OF n7, THEN conjunct2, THEN conjunct1]
    by simp
  have rem': "handle_list ?no (PRef 9) index_state = handle_list (evaluate 2) (PRef 9) index_state"
    using list_op_operands [where st = index_state and a = 9 and fn = "''remove''"
        and ev = ?no and ev' = "evaluate 2", OF n9, THEN conjunct1]
    by simp
  have rv_rhs: "try_KeyError InterpreterUnboundVariableListError
              (bind (local_xs (map_of (lists index_state) (KStr ''L''))) (\<lambda>l. bind (list_method l)
                 (\<lambda>_. bind (evaluate 2 (PStr ''j'')) (\<lambda>x. bind (list_remove l x)
                 (\<lambda>_. bind (rebind_list (PRef 11) l) (\<lambda>_. pure PNone)))))) index_state =
            (Ok PNone, index_state\<lparr>objects := index_tree[3 := OList [PFloat 1, PFloat 3]]\<rparr>)"
    by code_simp
  have rv: "handle_list (evaluate 2) (PRef 11) index_state =
        (Ok PNone, index_state\<lparr>objects := index_tree[3 := OList [PFloat 1, PFloat 3]]\<rparr>)"
    using list_op_operands [where st = index_state and a = 11 and fn = "''remove_value''"
        and ev = "evaluate 2", OF n11, THEN conjunct2, THEN conjunct2, THEN conjunct2,
        THEN conjunct2, THEN conjunct2, THEN conjunct1, rule_format,
        of "PStr ''L''" "KStr ''L''" "PStr ''j''"]
      rv_rhs
    by simp
  have rv'_rhs: "try_KeyError InterpreterUnboundVariableListError
              (bind (local_xs (map_of (lists index_state) (KStr ''L''))) (\<lambda>l. bind (list_method l)
                 (\<lambda>_. bind (?no (PStr ''j'')) (\<lambda>x. bind (list_remove l x)
                 (\<lambda>_. bind (rebind_list (PRef 11) l) (\<lambda>_. pure PNone)))))) index_state =
            (Raise InterpreterInvalidTreeError, index_state)"
    using l
    by (simp add: bind_def raise_def try_KeyError_def except_KeyError_def local_xs_def pure_def
        list_method_def)
  have rv': "handle_list ?no (PRef 11) index_state = (Raise InterpreterInvalidTreeError, index_state)"
    using list_op_operands [where st = index_state and a = 11 and fn = "''remove_value''"
        and ev = ?no, OF n11, THEN conjunct2, THEN conjunct2, THEN conjunct2,
        THEN conjunct2, THEN conjunct2, THEN conjunct1, rule_format,
        of "PStr ''L''" "KStr ''L''" "PStr ''j''"]
      rv'_rhs
    by simp
  have st_rhs: "try_KeyError InterpreterUnboundVariableListError
              (bind (evaluate 2 (PFloat 5)) (\<lambda>x. bind (local_xs (map_of (lists index_state) (KStr ''L'')))
                 (\<lambda>l. bind (field (PRef 12) ''index'') (\<lambda>idx. bind (lift (py_int idx))
                 (\<lambda>i. bind (setitem l (PInt i) x)
                 (\<lambda>_. bind (rebind_list (PRef 12) l) (\<lambda>_. pure PNone))))))) index_state =
            (Ok PNone, index_state\<lparr>objects := index_tree[3 := OList [PFloat 1, PFloat 5, PFloat 3]]\<rparr>)"
    by code_simp
  have st12: "handle_list (evaluate 2) (PRef 12) index_state =
        (Ok PNone, index_state\<lparr>objects := index_tree[3 := OList [PFloat 1, PFloat 5, PFloat 3]]\<rparr>)"
    using list_op_operands [where st = index_state and a = 12 and fn = "''set''"
        and ev = "evaluate 2", OF n12, THEN conjunct2, THEN conjunct2, THEN conjunct2,
        THEN conjunct2, THEN conjunct2, THEN conjunct2, THEN conjunct1, rule_format,
        of "PStr ''L''" "KStr ''L''" "PFloat 5"]
      st_rhs
    by simp
  have in_rhs: "try_KeyError InterpreterUnboundVariableListError
              (bind (local_xs (map_of (lists index_state) (KStr ''L''))) (\<lambda>l. bind (list_method l)
                 (\<lambda>_. bind (lift (py_int (PFloat 0))) (\<lambda>i. bind (evaluate 2 (PStr ''j''))
                 (\<lambda>x. bind (list_insert l i x)
                 (\<lambda>_. bind (rebind_list (PRef 14) l) (\<lambda>_. pure PNone))))))) index_state =
            (Ok PNone, index_state\<lparr>objects := index_tree[3 := OList [PFloat 2, PFloat 1, PFloat 2, PFloat 3]]\<rparr>)"
    by code_simp
  have in14: "handle_list (evaluate 2) (PRef 14) index_state =
        (Ok PNone, index_state\<lparr>objects := index_tree[3 := OList [PFloat 2, PFloat 1, PFloat 2, PFloat 3]]\<rparr>)"
    using list_op_operands [where st = index_state and a = 14 and fn = "''insert''"
        and ev = "evaluate 2", OF n14, THEN conjunct2, THEN conjunct2, THEN conjunct2,
        THEN conjunct2, THEN conjunct2, THEN conjunct2, THEN conjunct2, THEN conjunct1,
        rule_format, of "PStr ''L''" "KStr ''L''" "PFloat 0" "PStr ''j''"]
      in_rhs
    by simp
  have h13: "py_int (PFloat 0) = Ok 0 \<and> norm_index (length [PFloat 1, PFloat 2, PFloat 3]) 0 = Some 0"
    by code_simp
  have e13: "index_state\<lparr>objects := (objects index_state)[3 := OList (take 0 [PFloat 1, PFloat 2, PFloat 3]
                  @ drop (Suc 0) [PFloat 1, PFloat 2, PFloat 3])],
                lists := AList.update (KStr ''L'') (PRef 3) (lists index_state)\<rparr> =
             index_state\<lparr>objects := index_tree[3 := OList [PFloat 2, PFloat 3]]\<rparr>"
    by (simp add: index_state_def)
  have rm13: "handle_list (evaluate 2) (PRef 13) index_state =
        (Ok PNone, index_state\<lparr>objects := index_tree[3 := OList [PFloat 2, PFloat 3]]\<rparr>)"
    using list_op_operands [where st = index_state and a = 13 and fn = "''remove''"
        and ev = "evaluate 2", OF n13, THEN conjunct2, THEN conjunct2, THEN conjunct2,
        THEN conjunct2, THEN conjunct2, THEN conjunct2, THEN conjunct2, THEN conjunct2,
        rule_format,
        of "PStr ''L''" "KStr ''L''" 3 "[PFloat 1, PFloat 2, PFloat 3]" "PFloat 0" 0 0]
      l h13 e13
    by simp
  from get set ins rem set' rem' get' rv rv' st12 rm13 in14 sp show ?thesis by simp
qed


subsection \<open>What interpretation writes into the tree\<close>

text \<open>
  C10. A \<^verbatim>\<open>setpos\<close> command whose \<^verbatim>\<open>x\<close> and \<^verbatim>\<open>y\<close> evaluate (without a change to the
  interpreter) to \<open>vx\<close> and \<open>vy\<close> leaves its node in the store with \<^verbatim>\<open>x\<close> and \<^verbatim>\<open>y\<close> overwritten
  by \<open>vx\<close> and \<open>vy\<close>, and yields that node itself; when \<open>vx\<close> or \<open>vy\<close> is not what stood in the
  field, the node is not what it was. A \<^verbatim>\<open>forward\<close>, \<^verbatim>\<open>backward\<close>, \<^verbatim>\<open>left\<close>, \<^verbatim>\<open>right\<close>,
  \<^verbatim>\<open>setpensize\<close> or \<^verbatim>\<open>print\<close> command yields a new record of its name and the value, and
  leaves the interpreter and the store as the evaluation of the value left them.
\<close>

theorem setpos_writes_node:
  assumes node: "deref (objects st) a = Some (ODict d)"
      and nm: "map_of d (KStr ''name'') = Some (PStr nm)"
  shows "(nm = ''setpos'' \<and> map_of d (KStr ''x'') = Some x0 \<and> map_of d (KStr ''y'') = Some y0
          \<and> ev x0 st = (Ok vx, st)
          \<and> ev y0 (st\<lparr>objects := (objects st)[a := ODict (AList.update (KStr ''x'') vx d)]\<rparr>) =
               (Ok vy, st\<lparr>objects := (objects st)[a := ODict (AList.update (KStr ''x'') vx d)]\<rparr>)
          \<longrightarrow>
            interpret_one ev interp (PRef a) st =
              (Ok (), st\<lparr>objects := (objects st)[a := ODict
                          (AList.update (KStr ''y'') vy (AList.update (KStr ''x'') vx d))],
                        yielded := yielded st @ [Node (PRef a)]\<rparr>)
          \<and> (vx \<noteq> x0 \<or> vy \<noteq> y0 \<longrightarrow>
               deref (objects (snd (interpret_one ev interp (PRef a) st))) a
                 \<noteq> deref (objects st) a))
       \<and> (nm \<in> {''forward'', ''backward'', ''left'', ''right'', ''setpensize'', ''print''}
          \<and> map_of d (KStr ''value'') = Some v \<and> ev v st = (Ok x, st1) \<longrightarrow>
            interpret_one ev interp (PRef a) st =
              (Ok (), st1\<lparr>yielded := yielded st1 @ [New_command (PStr nm) x]\<rparr>))"
proof (intro conjI impI)
  assume h: "nm = ''setpos'' \<and> map_of d (KStr ''x'') = Some x0 \<and> map_of d (KStr ''y'') = Some y0
          \<and> ev x0 st = (Ok vx, st)
          \<and> ev y0 (st\<lparr>objects := (objects st)[a := ODict (AList.update (KStr ''x'') vx d)]\<rparr>) =
               (Ok vy, st\<lparr>objects := (objects st)[a := ODict (AList.update (KStr ''x'') vx d)]\<rparr>)"
  let ?d1 = "AList.update (KStr ''x'') vx d"
  let ?st1 = "st\<lparr>objects := (objects st)[a := ODict ?d1]\<rparr>"
  have step: "interpret_one ev interp (PRef a) st = handle_setpos ev (PRef a) st"
    using node nm h by (simp add: interpret_one_def bind_def field_node)
  have fx: "field (PRef a) ''x'' st = (Ok x0, st)"
    using node h by (simp add: field_node)
  have sx: "setitem (PRef a) (PStr ''x'') vx st = (Ok (), ?st1)"
    using node by (rule setitem_node)
  have node1: "deref (objects ?st1) a = Some (ODict ?d1)"
    using node by (simp add: deref_update_same)
  have y1: "map_of ?d1 (KStr ''y'') = Some y0"
    using h by (simp add: update_conv')
  have fy: "field (PRef a) ''y'' ?st1 = (Ok y0, ?st1)"
    using node1 y1 by (rule field_node)
  have sy: "setitem (PRef a) (PStr ''y'') vy ?st1 =
      (Ok (), ?st1\<lparr>objects := (objects ?st1)[a := ODict (AList.update (KStr ''y'') vy ?d1)]\<rparr>)"
    using node1 by (rule setitem_node)
  have res: "handle_setpos ev (PRef a) st =
      (Ok (), st\<lparr>objects := (objects st)[a := ODict (AList.update (KStr ''y'') vy ?d1)],
                yielded := yielded st @ [Node (PRef a)]\<rparr>)"
    using h by (simp add: handle_setpos_def bind_def fx sx fy sy yield_def)
  show "interpret_one ev interp (PRef a) st =
      (Ok (), st\<lparr>objects := (objects st)[a := ODict (AList.update (KStr ''y'') vy ?d1)],
                yielded := yielded st @ [Node (PRef a)]\<rparr>)"
    using step res by simp
  show "deref (objects (snd (interpret_one ev interp (PRef a) st))) a \<noteq> deref (objects st) a"
    if "vx \<noteq> x0 \<or> vy \<noteq> y0"
  proof -
    let ?d2 = "AList.update (KStr ''y'') vy ?d1"
    have after: "deref (objects (snd (interpret_one ev interp (PRef a) st))) a = Some (ODict ?d2)"
      using node by (simp add: step res deref_update_same)
    have "map_of ?d2 (KStr ''x'') = Some vx" "map_of ?d2 (KStr ''y'') = Some vy"
      by (simp_all add: update_conv')
    with that h have "?d2 \<noteq> d" by auto
    with after node show ?thesis by simp
  qed
next
  assume h: "nm \<in> {''forward'', ''backward'', ''left'', ''right'', ''setpensize'', ''print''}
          \<and> map_of d (KStr ''value'') = Some v \<and> ev v st = (Ok x, st1)"
  have f1: "field (PRef a) ''name'' st = (Ok (PStr nm), st)"
    using node nm by (rule field_node)
  have f2: "field (PRef a) ''value'' st = (Ok v, st)"
    using node h by (simp add: field_node)
  have body: "bind (field (PRef a) ''name'') (\<lambda>nm.
     bind (field (PRef a) ''value'') (\<lambda>v.
     bind (ev v) (\<lambda>x. yield (New_command nm x)))) st
     = (Ok (), st1\<lparr>yielded := yielded st1 @ [New_command (PStr nm) x]\<rparr>)"
    using h by (simp add: bind_def f1 f2 yield_def)
  from h have "nm = ''forward'' \<or> nm = ''backward'' \<or> nm = ''left'' \<or> nm = ''right''
      \<or> nm = ''setpensize'' \<or> nm = ''print''" by auto
  then show "interpret_one ev interp (PRef a) st =
              (Ok (), st1\<lparr>yielded := yielded st1 @ [New_command (PStr nm) x]\<rparr>)"
    using body
    by (elim disjE)
       (simp_all add: interpret_one_def bind_def[of "field (PRef a) ''name''"] f1
          handle_movement_def handle_setpensize_def handle_print_def)
qed

text \<open>
  \<^verbatim>\<open>make "x 7  setpos :x 2  forward :x\<close>: after the run the \<^verbatim>\<open>setpos\<close> node of the tree holds
  \<open>7\<close> where it held the identifier \<^verbatim>\<open>x\<close>, and the \<^verbatim>\<open>forward\<close> node still holds the identifier.
\<close>

theorem setpos_writes_node_witness:
  "interpret_one (evaluate 2) (interpret_commands 2) (PRef 3) setpos_state =
     (Ok (), setpos_state\<lparr>objects := setpos_tree[3 := ODict
                [(KStr ''name'', PStr ''setpos''), (KStr ''x'', PFloat 7), (KStr ''y'', PFloat 2)]],
              yielded := [Node (PRef 3)]\<rparr>)
   \<and> deref (objects (snd (interpret_one (evaluate 2) (interpret_commands 2) (PRef 3)
        setpos_state))) 3 \<noteq> deref (objects setpos_state) 3
   \<and> interpret_one (evaluate 2) (interpret_commands 2) (PRef 4) setpos_state =
     (Ok (), setpos_state\<lparr>yielded := [New_command (PStr ''forward'') (PFloat 7)]\<rparr>)
   \<and> map_option objects (snd (run 4 setpos_tree (PRef 0))) =
       Some (setpos_tree[3 := ODict
                [(KStr ''name'', PStr ''setpos''), (KStr ''x'', PFloat 7), (KStr ''y'', PFloat 2)]])
   \<and> map_option yielded (snd (run 4 setpos_tree (PRef 0))) =
       Some [Node (PRef 3), New_command (PStr ''forward'') (PFloat 7)]"
proof -
  let ?d = "[(KStr ''name'', PStr ''setpos''), (KStr ''x'', PStr ''x''), (KStr ''y'', PFloat 2)]"
  have n3: "deref (objects setpos_state) 3 = Some (ODict ?d)"
    by code_simp
  have h3: "''setpos'' = ''setpos'' \<and> map_of ?d (KStr ''x'') = Some (PStr ''x'')
          \<and> map_of ?d (KStr ''y'') = Some (PFloat 2)
          \<and> evaluate 2 (PStr ''x'') setpos_state = (Ok (PFloat 7), setpos_state)
          \<and> evaluate 2 (PFloat 2)
              (setpos_state\<lparr>objects := (objects setpos_state)[3 := ODict
                 (AList.update (KStr ''x'') (PFloat 7) ?d)]\<rparr>) =
              (Ok (PFloat 2), setpos_state\<lparr>objects := (objects setpos_state)[3 := ODict
                 (AList.update (KStr ''x'') (PFloat 7) ?d)]\<rparr>)"
    by code_simp
  note T = setpos_writes_node [where st = setpos_state and a = 3 and nm = "''setpos''"
      and ev = "evaluate 2" and interp = "interpret_commands 2", OF n3, THEN conjunct1,
      rule_format, OF _ h3]
  have u: "(objects setpos_state)[3 := ODict (AList.update (KStr ''y'') (PFloat 2)
              (AList.update (KStr ''x'') (PFloat 7) ?d))] =
           setpos_tree[3 := ODict
                [(KStr ''name'', PStr ''setpos''), (KStr ''x'', PFloat 7), (KStr ''y'', PFloat 2)]]"
    by code_simp
  have y: "yielded setpos_state = []"
    by code_simp
  have c1: "interpret_one (evaluate 2) (interpret_commands 2) (PRef 3) setpos_state =
     (Ok (), setpos_state\<lparr>objects := setpos_tree[3 := ODict
                [(KStr ''name'', PStr ''setpos''), (KStr ''x'', PFloat 7), (KStr ''y'', PFloat 2)]],
              yielded := [Node (PRef 3)]\<rparr>)"
    using T [THEN conjunct1] u y by simp
  have c2: "deref (objects (snd (interpret_one (evaluate 2) (interpret_commands 2) (PRef 3)
        setpos_state))) 3 \<noteq> deref (objects setpos_state) 3"
    using T [THEN conjunct2] by simp
  have n4: "deref (objects setpos_state) 4 =
      Some (ODict [(KStr ''name'', PStr ''forward''), (KStr ''value'', PStr ''x'')])"
    by code_simp
  have h4: "''forward'' \<in> {''forward'', ''backward'', ''left'', ''right'', ''setpensize'', ''print''}
          \<and> map_of [(KStr ''name'', PStr ''forward''), (KStr ''value'', PStr ''x'')] (KStr ''value'')
              = Some (PStr ''x'')
          \<and> evaluate 2 (PStr ''x'') setpos_state = (Ok (PFloat 7), setpos_state)"
    by code_simp
  have c3: "interpret_one (evaluate 2) (interpret_commands 2) (PRef 4) setpos_state =
     (Ok (), setpos_state\<lparr>yielded := [New_command (PStr ''forward'') (PFloat 7)]\<rparr>)"
    using setpos_writes_node [where st = setpos_state and a = 4 and nm = "''forward''"
      and ev = "evaluate 2" and interp = "interpret_commands 2", OF n4, THEN conjunct2,
      rule_format, OF _ h4] y
    by simp
  have r1: "map_option objects (snd (run 4 setpos_tree (PRef 0))) =
       Some (setpos_tree[3 := ODict
                [(KStr ''name'', PStr ''setpos''), (KStr ''x'', PFloat 7), (KStr ''y'', PFloat 2)]])"
    by code_simp
  have r2: "map_option yielded (snd (run 4 setpos_tree (PRef 0))) =
       Some [Node (PRef 3), New_command (PStr ''forward'') (PFloat 7)]"
    by code_simp
  from c1 c2 c3 r1 r2 show ?thesis by simp
qed

subsection \<open>Malformed trees\<close>

lemma missing_field_KeyError:
  assumes node: "deref (objects st) a = Some (ODict d)"
      and nm: "map_of d (KStr ''name'') = Some (PStr tag)"
      and fld: "(tag, fld) \<in> set read_first"
      and miss: "map_of d (KStr fld) = None"
  shows "interpret_one ev interp (PRef a) st = (Raise (PyExc KeyError), st)"
proof -
  note bf = bind_field[OF node]
  let ?P = "\<lambda>t f. map_of d (KStr ''name'') = Some (PStr t) \<longrightarrow> map_of d (KStr f) = None \<longrightarrow>
                  interpret_one ev interp (PRef a) st = (Raise (PyExc KeyError), st)"
  have func_def_func_name: "?P ''func_def'' ''func_name''"
    by (simp add: interpret_one_def handle_func_def_def bf split: option.splits)
  have func_def_arguments: "?P ''func_def'' ''arguments''"
    by (simp add: interpret_one_def handle_func_def_def bf split: option.splits)
  have func_def_commands: "?P ''func_def'' ''commands''"
    by (simp add: interpret_one_def handle_func_def_def bf split: option.splits)
  have func_call_func_name: "?P ''func_call'' ''func_name''"
    by (simp add: interpret_one_def handle_func_call_def bf split: option.splits)
  have func_call_arguments: "?P ''func_call'' ''arguments''"
    by (simp add: interpret_one_def handle_func_call_def bf split: option.splits)
  have make_var_name: "?P ''make'' ''var_name''"
    by (simp add: interpret_one_def handle_make_def bf split: option.splits)
  have make_value: "?P ''make'' ''value''"
    by (simp add: interpret_one_def handle_make_def bf split: option.splits)
  have list_make_list_name: "?P ''list_make'' ''list_name''"
    by (simp add: interpret_one_def handle_list_make_def bf split: option.splits)
  have list_make_list: "?P ''list_make'' ''list''"
    by (simp add: interpret_one_def handle_list_make_def bf split: option.splits)
  have repeat_value: "?P ''repeat'' ''value''"
    by (simp add: interpret_one_def handle_repeat_def bf split: option.splits)
  have if_condition: "?P ''if'' ''condition''"
    by (simp add: interpret_one_def handle_if_def bf split: option.splits)
  have forward_value: "?P ''forward'' ''value''"
    by (simp add: interpret_one_def handle_movement_def bf split: option.splits)
  have backward_value: "?P ''backward'' ''value''"
    by (simp add: interpret_one_def handle_movement_def bf split: option.splits)
  have left_value: "?P ''left'' ''value''"
    by (simp add: interpret_one_def handle_movement_def bf split: option.splits)
  have right_value: "?P ''right'' ''value''"
    by (simp add: interpret_one_def handle_movement_def bf split: option.splits)
  have setpos_x: "?P ''setpos'' ''x''"
    by (simp add: interpret_one_def handle_setpos_def bf split: option.splits)
  have setpencolor_color: "?P ''setpencolor'' ''color''"
    by (simp add: interpret_one_def handle_setpencolor_def bf split: option.splits)
  have setpensize_value: "?P ''setpensize'' ''value''"
    by (simp add: interpret_one_def handle_setpensize_def bf split: option.splits)
  have print_value: "?P ''print'' ''value''"
    by (simp add: interpret_one_def handle_print_def bf split: option.splits)
  have "list_all (\<lambda>(t, f). ?P t f) read_first"
    unfolding read_first_def list.pred_inject prod.case
    by (intro conjI list.pred_inject(1) func_def_func_name func_def_arguments func_def_commands func_call_func_name func_call_arguments make_var_name make_value list_make_list_name list_make_list repeat_value if_condition forward_value backward_value left_value right_value setpos_x setpencolor_color setpensize_value print_value)
  with fld have "?P tag fld"
    by (auto simp: list_all_iff)
  with nm miss show ?thesis by simp
qed

lemma unrecognised_name:
  assumes node: "deref (objects st) a = Some (ODict d)"
      and nm: "map_of d (KStr ''name'') = Some nm"
      and un: "nm \<notin> PStr ` set recognised"
  shows "interpret_one ev interp (PRef a) st = (Raise InterpreterInvalidCommandError, st)"
proof -
  have ne: "nm \<noteq> PStr s" if "s \<in> set recognised" for s
    using un that by blast
  have n: "nm \<noteq> PStr ''func_def''" "nm \<noteq> PStr ''func_call''" "nm \<noteq> PStr ''make''"
    "nm \<noteq> PStr ''list_make''" "nm \<noteq> PStr ''list''" "nm \<noteq> PStr ''repeat''" "nm \<noteq> PStr ''if''"
    "nm \<noteq> PStr ''forward''" "nm \<noteq> PStr ''backward''" "nm \<noteq> PStr ''left''" "nm \<noteq> PStr ''right''"
    "nm \<noteq> PStr ''hideturtle''" "nm \<noteq> PStr ''showturtle''" "nm \<noteq> PStr ''penup''"
    "nm \<noteq> PStr ''pendown''" "nm \<noteq> PStr ''setpos''" "nm \<noteq> PStr ''setpencolor''"
    "nm \<noteq> PStr ''setpensize''" "nm \<noteq> PStr ''print''"
    by (rule ne, simp add: recognised_def)+
  show ?thesis
    using nm by (simp add: interpret_one_def bind_field[OF node] n raise_def)
qed

lemma loop_at_node:
  assumes "iter_next (objects st) cmds i = Item c"
      and "body c st = (Raise e, st')"
  shows "for_commands body (Suc k) cmds i st = (Raise e, st')"
  using assms by (simp add: bind_def)

text \<open>
  C9, as the code has it. \<^verbatim>\<open>Interpreter(tree)\<close> fails with \<^verbatim>\<open>InterpreterInvalidTreeError\<close> when
  \<^verbatim>\<open>tree\<close> is not a dict or has no \<^verbatim>\<open>tokens\<close>. When the loop of \<^verbatim>\<open>_interpret\<close> stands at a command
  node (a dict) that has no \<^verbatim>\<open>name\<close>, or that lacks one of the fields its handler reads first
  (\<open>read_first\<close>), this \<^verbatim>\<open>_interpret\<close> fails with \<^verbatim>\<open>InterpreterInvalidTreeError\<close>; when the name is
  not a recognized command, it fails with \<^verbatim>\<open>InterpreterInvalidCommandError\<close>; in both cases the
  interpreter is left as it was.
\<close>

theorem malformed_node:
  assumes at: "iter_next (objects st) cmds i = Item (PRef a)"
      and node: "deref (objects st) a = Some (ODict d)"
  shows "(map_of d (KStr ''name'') = None \<longrightarrow>
            try_KeyError InterpreterInvalidTreeError
              (for_commands (interpret_one ev interp) (Suc k) cmds i) st =
            (Raise InterpreterInvalidTreeError, st))
       \<and> (\<forall>tag fld. map_of d (KStr ''name'') = Some (PStr tag) \<and> (tag, fld) \<in> set read_first
                    \<and> map_of d (KStr fld) = None \<longrightarrow>
            try_KeyError InterpreterInvalidTreeError
              (for_commands (interpret_one ev interp) (Suc k) cmds i) st =
            (Raise InterpreterInvalidTreeError, st))
       \<and> (\<forall>nm. map_of d (KStr ''name'') = Some nm \<and> nm \<notin> PStr ` set recognised \<longrightarrow>
            try_KeyError InterpreterInvalidTreeError
              (for_commands (interpret_one ev interp) (Suc k) cmds i) st =
            (Raise InterpreterInvalidCommandError, st))
       \<and> ((\<forall>c. subscript h tree (PStr ''tokens'') \<noteq> Ok c)
            \<and> (\<forall>p. tree = PRef p \<longrightarrow> p < length h) \<longrightarrow>
            Interpreter h tree = Raise InterpreterInvalidTreeError)"
proof (intro conjI impI allI)
  assume "map_of d (KStr ''name'') = None"
  then have "interpret_one ev interp (PRef a) st = (Raise (PyExc KeyError), st)"
    by (simp add: interpret_one_def bind_field[OF node])
  from loop_at_node[of st cmds i "PRef a" "interpret_one ev interp", OF at this]
  show "try_KeyError InterpreterInvalidTreeError
              (for_commands (interpret_one ev interp) (Suc k) cmds i) st =
            (Raise InterpreterInvalidTreeError, st)"
    by (simp add: try_KeyError_def except_KeyError_def)
next
  fix tag fld
  assume "map_of d (KStr ''name'') = Some (PStr tag) \<and> (tag, fld) \<in> set read_first
                    \<and> map_of d (KStr fld) = None"
  then have "interpret_one ev interp (PRef a) st = (Raise (PyExc KeyError), st)"
    using missing_field_KeyError[OF node, of tag fld ev interp] by blast
  from loop_at_node[of st cmds i "PRef a" "interpret_one ev interp", OF at this]
  show "try_KeyError InterpreterInvalidTreeError
              (for_commands (interpret_one ev interp) (Suc k) cmds i) st =
            (Raise InterpreterInvalidTreeError, st)"
    by (simp add: try_KeyError_def except_KeyError_def)
next
  fix nm
  assume "map_of d (KStr ''name'') = Some nm \<and> nm \<notin> PStr ` set recognised"
  then have "interpret_one ev interp (PRef a) st = (Raise InterpreterInvalidCommandError, st)"
    using unrecognised_name[OF node, of nm ev interp] by blast
  from loop_at_node[of st cmds i "PRef a" "interpret_one ev interp", OF at this]
  show "try_KeyError InterpreterInvalidTreeError
              (for_commands (interpret_one ev interp) (Suc k) cmds i) st =
            (Raise InterpreterInvalidCommandError, st)"
    by (simp add: try_KeyError_def except_KeyError_def)
next
  assume h: "(\<forall>c. subscript h tree (PStr ''tokens'') \<noteq> Ok c)
            \<and> (\<forall>p. tree = PRef p \<longrightarrow> p < length h)"
  have "subscript h tree (PStr ''tokens'') = Raise (PyExc KeyError)
           \<or> subscript h tree (PStr ''tokens'') = Raise (PyExc TypeError)"
  proof (cases tree)
    case (PRef p)
    with h have "p < length h" by simp
    with h PRef show ?thesis
      by (cases "h ! p") (auto simp: subscript_def deref_def split: option.splits)
  qed (simp_all add: subscript_def)
  then show "Interpreter h tree = Raise InterpreterInvalidTreeError"
    by (auto simp: Interpreter_def)
qed


theorem malformed_node_witness:
  "try_KeyError InterpreterInvalidTreeError
     (for_commands (interpret_one (evaluate 1) (interpret_commands 1)) (Suc 0) (PRef 15) 0)
     malformed_start = (Raise InterpreterInvalidTreeError, malformed_start)
   \<and> try_KeyError InterpreterInvalidTreeError
     (for_commands (interpret_one (evaluate 1) (interpret_commands 1)) (Suc 0) (PRef 15) 1)
     malformed_start = (Raise InterpreterInvalidTreeError, malformed_start)
   \<and> try_KeyError InterpreterInvalidTreeError
     (for_commands (interpret_one (evaluate 1) (interpret_commands 1)) (Suc 0) (PRef 15) 2)
     malformed_start = (Raise InterpreterInvalidCommandError, malformed_start)
   \<and> Interpreter malformed_trees (PRef 14) = Raise InterpreterInvalidTreeError
   \<and> Interpreter malformed_trees (PFloat 1) = Raise InterpreterInvalidTreeError"
proof -
  have i0: "iter_next (objects malformed_start) (PRef 15) 0 = Item (PRef 5)"
    by code_simp
  have n0: "deref (objects malformed_start) 5 = Some (ODict [(KStr ''value'', PFloat 10)])"
    by code_simp
  have c0: "try_KeyError InterpreterInvalidTreeError
     (for_commands (interpret_one (evaluate 1) (interpret_commands 1)) (Suc 0) (PRef 15) 0)
     malformed_start = (Raise InterpreterInvalidTreeError, malformed_start)"
    using malformed_node [where st = malformed_start and cmds = "PRef 15" and i = 0 and a = 5
        and ev = "evaluate 1" and interp = "interpret_commands 1" and k = 0, OF i0 n0,
        THEN conjunct1]
    by simp
  have i1: "iter_next (objects malformed_start) (PRef 15) 1 = Item (PRef 16)"
    by code_simp
  have n1: "deref (objects malformed_start) 16 = Some (ODict [(KStr ''name'', PStr ''forward'')])"
    by code_simp
  have h1: "map_of [(KStr ''name'', PStr ''forward'')] (KStr ''name'') = Some (PStr ''forward'')
          \<and> (''forward'', ''value'') \<in> set read_first
          \<and> map_of [(KStr ''name'', PStr ''forward'')] (KStr ''value'') = None"
    by (simp add: read_first_def)
  have c1: "try_KeyError InterpreterInvalidTreeError
     (for_commands (interpret_one (evaluate 1) (interpret_commands 1)) (Suc 0) (PRef 15) 1)
     malformed_start = (Raise InterpreterInvalidTreeError, malformed_start)"
    using malformed_node [where st = malformed_start and cmds = "PRef 15" and i = 1 and a = 16
        and ev = "evaluate 1" and interp = "interpret_commands 1" and k = 0, OF i1 n1,
        THEN conjunct2, THEN conjunct1, rule_format, OF h1]
    by simp
  have i2: "iter_next (objects malformed_start) (PRef 15) 2 = Item (PRef 17)"
    by code_simp
  have n2: "deref (objects malformed_start) 17 = Some (ODict [(KStr ''name'', PStr ''jump'')])"
    by code_simp
  have h2: "map_of [(KStr ''name'', PStr ''jump'')] (KStr ''name'') = Some (PStr ''jump'')
          \<and> PStr ''jump'' \<notin> PStr ` set recognised"
    by (simp add: recognised_def image_iff)
  have c2: "try_KeyError InterpreterInvalidTreeError
     (for_commands (interpret_one (evaluate 1) (interpret_commands 1)) (Suc 0) (PRef 15) 2)
     malformed_start = (Raise InterpreterInvalidCommandError, malformed_start)"
    using malformed_node [where st = malformed_start and cmds = "PRef 15" and i = 2 and a = 17
        and ev = "evaluate 1" and interp = "interpret_commands 1" and k = 0, OF i2 n2,
        THEN conjunct2, THEN conjunct2, THEN conjunct1, rule_format, OF h2]
    by simp
  have h3: "(\<forall>c. subscript malformed_trees (PRef 14) (PStr ''tokens'') \<noteq> Ok c)
          \<and> (\<forall>p. PRef 14 = PRef p \<longrightarrow> p < length malformed_trees)"
    by (simp add: subscript_def deref_def malformed_trees_def)
  have c3: "Interpreter malformed_trees (PRef 14) = Raise InterpreterInvalidTreeError"
    using malformed_node [where st = malformed_start and cmds = "PRef 15" and i = 0 and a = 5
        and h = malformed_trees and tree = "PRef 14", OF i0 n0,
        THEN conjunct2, THEN conjunct2, THEN conjunct2, rule_format, OF h3]
    by simp
  have h4: "(\<forall>c. subscript malformed_trees (PFloat 1) (PStr ''tokens'') \<noteq> Ok c)
          \<and> (\<forall>p. PFloat 1 = PRef p \<longrightarrow> p < length malformed_trees)"
    by (simp add: subscript_def)
  have c4: "Interpreter malformed_trees (PFloat 1) = Raise InterpreterInvalidTreeError"
    using malformed_node [where st = malformed_start and cmds = "PRef 15" and i = 0 and a = 5
        and h = malformed_trees and tree = "PFloat 1", OF i0 n0,
        THEN conjunct2, THEN conjunct2, THEN conjunct2, rule_format, OF h4]
    by simp
  from c0 c1 c2 c3 c4 show ?thesis by simp
qed

text \<open>
  C9 as it is stated fails on these trees. A node without \<^verbatim>\<open>name\<close> in the body of a function
  that is called ends the run with \<^verbatim>\<open>InterpreterFunctionExecutionError\<close>, which is neither of the
  two errors of the claim; and the same node in the else-branch of an \<^verbatim>\<open>if\<close> whose condition
  is true is never looked at, so the run ends without any error.
\<close>

theorem malformed_node_counterexample:
  "fst (run 4 malformed_trees (PRef 0)) =
     Raise (InterpreterFunctionExecutionError (PStr ''f'') InterpreterInvalidTreeError)
   \<and> fst (run 4 malformed_trees (PRef 0)) \<noteq> Raise InterpreterInvalidTreeError
   \<and> fst (run 4 malformed_trees (PRef 0)) \<noteq> Raise InterpreterInvalidCommandError
   \<and> fst (run 4 malformed_trees (PRef 8)) = Ok ()"
  by code_simp

subsection \<open>Where the code departs from the specification\<close>

text \<open>
  C4. A list operation on a name that is not in \<^verbatim>\<open>self._lists\<close> does not fail with
  \<^verbatim>\<open>InterpreterUnboundVariableListError\<close>: the guard \<^verbatim>\<open>if command["list_name"] in self._lists\<close>
  skips the assignment of \<^verbatim>\<open>xs\<close>, no \<^verbatim>\<open>KeyError\<close> arises for the handler's
  \<^verbatim>\<open>except KeyError\<close> to translate, and the first use of \<^verbatim>\<open>xs\<close> raises Python's
  \<^verbatim>\<open>UnboundLocalError\<close>. Both as a command (\<^verbatim>\<open>len L\<close>) and as a query (\<^verbatim>\<open>print empty L\<close>).
\<close>

theorem unbound_list_is_UnboundLocalError:
  "fst (run 4 unbound_list_trees (PRef 0)) = Raise (PyExc UnboundLocalError)
   \<and> fst (run 4 unbound_list_trees (PRef 3)) = Raise (PyExc UnboundLocalError)
   \<and> fst (run 4 unbound_list_trees (PRef 0)) \<noteq> Raise InterpreterUnboundVariableListError
   \<and> fst (run 4 unbound_list_trees (PRef 3)) \<noteq> Raise InterpreterUnboundVariableListError"
  by code_simp

text \<open>
  C2. The argument values of a call live in the entry of the function table, and an identifier
  is looked up in the entries of all functions in the order of their definition. In
  \<^verbatim>\<open>to f :a  if :a [f false] []  print :a  end  f true\<close> the inner call overwrites \<^verbatim>\<open>a\<close>, and
  the outer call prints false where its own argument is true. In
  \<^verbatim>\<open>to f :a print :a end  to g :a print :a end  f 1  g 2\<close> the call of \<^verbatim>\<open>g\<close> prints the \<open>1\<close> that
  is left in the entry of \<^verbatim>\<open>f\<close>, not its own argument \<open>2\<close>.
\<close>

theorem arguments_are_not_per_call:
  "run 6 scope_tree (PRef 0) \<noteq> (Timeout, None)
   \<and> fst (run 6 scope_tree (PRef 0)) = Ok ()
   \<and> map_option yielded (snd (run 6 scope_tree (PRef 0))) =
       Some [New_command (PStr ''print'') (PBool False),
             New_command (PStr ''print'') (PBool False)]
   \<and> fst (run 6 shadow_tree (PRef 0)) = Ok ()
   \<and> map_option yielded (snd (run 6 shadow_tree (PRef 0))) =
       Some [New_command (PStr ''print'') (PFloat 1),
             New_command (PStr ''print'') (PFloat 1)]"
  by code_simp

text \<open>
  C1. \<^verbatim>\<open>_handle_list_make\<close> registers the list object of the tree itself, so the list operations
  of a run write into the tree. A second interpreter over the same tree starts from the list
  the first one left: after one run of \<^verbatim>\<open>list_make "L [1 2 3]  insert L 0 9  print len L\<close>,
  which prints \<open>4\<close>, a second run prints \<open>5\<close> and ends with the list \<^verbatim>\<open>[9, 9, 1, 2, 3]\<close>.
\<close>

theorem second_run_sees_first:
  "fst (run 4 shared_tree (PRef 0)) = Ok ()
   \<and> map_option yielded (snd (run 4 shared_tree (PRef 0))) =
       Some [New_command (PStr ''print'') (PInt 4)]
   \<and> map_option objects (snd (run 4 shared_tree (PRef 0))) = Some shared_tree_after
   \<and> fst (run 4 shared_tree_after (PRef 0)) = Ok ()
   \<and> map_option yielded (snd (run 4 shared_tree_after (PRef 0))) =
       Some [New_command (PStr ''print'') (PInt 5)]
   \<and> map_option (\<lambda>st. deref (objects st) 3) (snd (run 4 shared_tree_after (PRef 0))) =
       Some (Some (OList [PFloat 9, PFloat 9, PFloat 1, PFloat 2, PFloat 3]))"
  by code_simp



end
